theory Spec2Isabelle
  imports Complex_Main "HOL-Library.Multiset"
begin

section \<open>JavaScript values shared by the managers\<close>

text \<open>
  JavaScript numbers are read as reals.  An array read outside \<open>0 .. length - 1\<close> gives
  \<open>undefined\<close>, which is \<open>None\<close> here.
\<close>

definition js_nth :: "'a list \<Rightarrow> int \<Rightarrow> 'a option" where
  "js_nth xs i = (if 0 \<le> i \<and> i < int (length xs) then Some (xs ! nat i) else None)"

section \<open>AudioManager\<close>

text \<open>
  A \<open>THREE.Audio\<close> object, with the fields \<open>playAudio\<close> sets and \<open>stopAll\<close> reads.
  A decoded buffer is named by the URL it was decoded from.
\<close>

record audioObj =
  abuffer :: string
  aloop :: bool
  avolume :: real
  isPlaying :: bool

text \<open>
  \<open>activeSounds\<close> is the array of the class.  \<open>detached\<close> collects the objects the
  manager has dropped from that array: they are no longer reachable from the manager but
  still exist in the audio graph, so whether they play is observable.
  \<open>ctxSuspended\<close> is \<open>audioListener.context.state === 'suspended'\<close> and
  \<open>resumeCalled\<close> records the call of \<open>context.resume()\<close>.
\<close>

record audioManager =
  soundBuffers :: "string option list"
  activeSounds :: "audioObj list"
  detached :: "audioObj list"
  ctxSuspended :: bool
  resumeCalled :: bool

definition newAudioManager :: "bool \<Rightarrow> audioManager" where
  "newAudioManager suspended =
     \<lparr>soundBuffers = [], activeSounds = [], detached = [],
      ctxSuspended = suspended, resumeCalled = False\<rparr>"

definition stopSound :: "audioObj \<Rightarrow> audioObj" where
  "stopSound sound = (if isPlaying sound then sound\<lparr>isPlaying := False\<rparr> else sound)"

definition stopAll :: "audioManager \<Rightarrow> audioManager" where
  "stopAll a =
     a\<lparr>detached := detached a @ map stopSound (activeSounds a), activeSounds := []\<rparr>"

text \<open>
  \<open>playAudio(index, loop, volume)\<close>: a missing buffer (\<open>null\<close>, or \<open>undefined\<close> for an
  index outside the table) returns early; otherwise the context is resumed when suspended,
  \<open>stopAll\<close> runs, and the new sound is created, started and pushed.
\<close>

definition playAudio :: "int \<Rightarrow> bool \<Rightarrow> real \<Rightarrow> audioManager \<Rightarrow> audioManager" where
  "playAudio index lp vol a =
     (case js_nth (soundBuffers a) index of
        None \<Rightarrow> a
      | Some None \<Rightarrow> a
      | Some (Some buf) \<Rightarrow>
          (let a1 = (if ctxSuspended a then a\<lparr>resumeCalled := True\<rparr> else a);
               a2 = stopAll a1;
               sound = \<lparr>abuffer = buf, aloop = lp, avolume = vol, isPlaying = True\<rparr>
           in a2\<lparr>activeSounds := activeSounds a2 @ [sound]\<rparr>))"

datatype audioCall = PlayAudio int bool real | StopAll

fun audioStep :: "audioCall \<Rightarrow> audioManager \<Rightarrow> audioManager" where
  "audioStep (PlayAudio i lp vol) a = playAudio i lp vol a"
| "audioStep StopAll a = stopAll a"

definition audioRun :: "audioCall list \<Rightarrow> audioManager \<Rightarrow> audioManager" where
  "audioRun cs a = fold audioStep cs a"

text \<open>At most one entry is active and every dropped object has been stopped.\<close>

definition audioInv :: "audioManager \<Rightarrow> bool" where
  "audioInv a \<longleftrightarrow> length (activeSounds a) \<le> 1 \<and> list_all (\<lambda>d. \<not> isPlaying d) (detached a)"

section \<open>Vectors and the ray caster of the rendering library\<close>

text \<open>A \<open>THREE.Vector3\<close>.\<close>

record vec3 =
  xc :: real
  yc :: real
  zc :: real

definition vec :: "real \<Rightarrow> real \<Rightarrow> real \<Rightarrow> vec3" where
  "vec a b c = \<lparr>xc = a, yc = b, zc = c\<rparr>"

definition vadd :: "vec3 \<Rightarrow> vec3 \<Rightarrow> vec3" where
  "vadd a b = vec (xc a + xc b) (yc a + yc b) (zc a + zc b)"

definition multiplyScalar :: "vec3 \<Rightarrow> real \<Rightarrow> vec3" where
  "multiplyScalar a k = vec (xc a * k) (yc a * k) (zc a * k)"

definition vlength :: "vec3 \<Rightarrow> real" where
  "vlength a = sqrt (xc a * xc a + yc a * yc a + zc a * zc a)"

text \<open>\<open>Vector3.normalize\<close> divides by \<open>length() || 1\<close>: the zero vector stays as it is.\<close>

definition normalize :: "vec3 \<Rightarrow> vec3" where
  "normalize a = (let l = (if vlength a = 0 then 1 else vlength a)
                  in vec (xc a / l) (yc a / l) (zc a / l))"

definition cross :: "vec3 \<Rightarrow> vec3 \<Rightarrow> vec3" where
  "cross a b = vec (yc a * zc b - zc a * yc b) (zc a * xc b - xc a * zc b)
                   (xc a * yc b - yc a * xc b)"

text \<open>
  One intersection reported by \<open>Raycaster.intersectObjects\<close>: the distance from the ray's
  origin and the point hit.
\<close>

record hit =
  distance :: real
  point :: vec3

text \<open>
  The collision field.  The collider meshes and the ray caster belong to the rendering
  library, so \<open>raycaster.set(origin, dir)\<close> followed by
  \<open>raycaster.intersectObjects(colliderMeshes)\<close> is a parameter of the model: a function from
  the origin and the direction of the ray to the intersections, nearest first.
\<close>

type_synonym collisionField = "vec3 \<Rightarrow> vec3 \<Rightarrow> hit list"

section \<open>Configuration: \<open>APP_CONFIG.physics\<close> and \<open>APP_CONFIG.vr\<close>\<close>

record physicsConfig =
  playerHeight :: real
  playerRadius :: real
  baseMoveSpeed :: real
  sprintMultiplier :: real
  jumpVelocity :: real
  gravity :: real
  friction :: real

definition physics :: physicsConfig where
  "physics = \<lparr>playerHeight = 1.6, playerRadius = 0.4, baseMoveSpeed = 20,
              sprintMultiplier = 4, jumpVelocity = 6, gravity = -20, friction = 10\<rparr>"

record vrConfig =
  moveSpeed :: real
  turnSpeed :: real
  sprintThreshold :: real

definition vr :: vrConfig where
  "vr = \<lparr>moveSpeed = 80, turnSpeed = 2, sprintThreshold = 0.5\<rparr>"

section \<open>PhysicsManager\<close>

record keyState =
  forward :: bool
  backward :: bool
  left :: bool
  right :: bool
  jump :: bool
  sprint :: bool

record physicsManager =
  playerVelocity :: vec3
  playerDirection :: vec3
  playerOnFloor :: bool
  currentMoveSpeed :: real
  keys :: keyState

text \<open>The constructor.\<close>

definition newPhysicsManager :: physicsManager where
  "newPhysicsManager =
     \<lparr>playerVelocity = vec 0 0 0, playerDirection = vec 0 0 0, playerOnFloor = False,
      currentMoveSpeed = baseMoveSpeed physics,
      keys = \<lparr>forward = False, backward = False, left = False, right = False,
              jump = False, sprint = False\<rparr>\<rparr>"

text \<open>
  The part of \<open>PointerLockControls\<close> the tick uses: the lock flag, the position of the
  controlled camera, and the camera's local X axis in world coordinates (the first column
  of its matrix), along which \<open>moveRight\<close> moves; \<open>moveForward\<close> moves along the cross
  product of the up vector \<open>(0, 1, 0)\<close> with that axis.
\<close>

record plControls =
  isLocked :: bool
  position :: vec3
  rightAxis :: vec3

definition moveRight :: "real \<Rightarrow> plControls \<Rightarrow> plControls" where
  "moveRight d c = c\<lparr>position := vadd (position c) (multiplyScalar (rightAxis c) d)\<rparr>"

definition moveForward :: "real \<Rightarrow> plControls \<Rightarrow> plControls" where
  "moveForward d c =
     c\<lparr>position := vadd (position c) (multiplyScalar (cross (vec 0 1 0) (rightAxis c)) d)\<rparr>"

text \<open>Step 1 of \<open>updatePlayerDesktop\<close>: gravity, floor and jump, then \<open>y += vy * delta\<close>.\<close>

definition localOnFloor :: "collisionField \<Rightarrow> plControls \<Rightarrow> bool" where
  "localOnFloor field c =
     (let floorIntersections = field (position c) (vec 0 (-1) 0)
      in floorIntersections \<noteq> [] \<and>
         distance (hd floorIntersections) < playerHeight physics + 0.1)"

definition verticalMovement ::
  "collisionField \<Rightarrow> real \<Rightarrow> physicsManager \<times> plControls \<Rightarrow> physicsManager \<times> plControls" where
  "verticalMovement field delta = (\<lambda>(pm, c).
     let floorIntersections = field (position c) (vec 0 (-1) 0);
         (pm', c') =
           (if localOnFloor field c then
              let pm1 = pm\<lparr>playerVelocity :=
                          (playerVelocity pm)\<lparr>yc := max 0 (yc (playerVelocity pm))\<rparr>\<rparr>;
                  pm2 = (if jump (keys pm1)
                         then pm1\<lparr>playerVelocity :=
                                    (playerVelocity pm1)\<lparr>yc := jumpVelocity physics\<rparr>,
                                  keys := (keys pm1)\<lparr>jump := False\<rparr>\<rparr>
                         else pm1);
                  floorDist = distance (hd floorIntersections);
                  c1 = (if floorDist < playerHeight physics
                        then c\<lparr>position := (position c)
                                 \<lparr>yc := yc (position c) + (playerHeight physics - floorDist)\<rparr>\<rparr>
                        else c)
              in (pm2, c1)
            else
              (pm\<lparr>playerVelocity := (playerVelocity pm)
                     \<lparr>yc := yc (playerVelocity pm) + gravity physics * delta\<rparr>\<rparr>, c))
     in (pm', c'\<lparr>position := (position c')
                    \<lparr>yc := yc (position c') + yc (playerVelocity pm') * delta\<rparr>\<rparr>))"

text \<open>Step 2: friction on both horizontal components.\<close>

definition applyFriction :: "real \<Rightarrow> vec3 \<Rightarrow> vec3" where
  "applyFriction delta v =
     v\<lparr>xc := xc v - xc v * friction physics * delta,
       zc := zc v - zc v * friction physics * delta\<rparr>"

text \<open>
  Step 3: the direction is rebuilt from the four keys and normalised (its y component is
  never written after the constructor), and each axis with a key held drives the velocity.
\<close>

definition inputDirection :: "physicsManager \<Rightarrow> vec3" where
  "inputDirection pm =
     normalize ((playerDirection pm)
       \<lparr>zc := of_bool (forward (keys pm)) - of_bool (backward (keys pm)),
        xc := of_bool (right (keys pm)) - of_bool (left (keys pm))\<rparr>)"

definition horizontalInput :: "real \<Rightarrow> physicsManager \<Rightarrow> physicsManager" where
  "horizontalInput delta pm =
     (let pm1 = pm\<lparr>playerDirection := inputDirection pm\<rparr>;
          pm2 = (if forward (keys pm1) \<or> backward (keys pm1)
                 then pm1\<lparr>playerVelocity := (playerVelocity pm1)
                            \<lparr>zc := zc (playerVelocity pm1)
                                     - zc (playerDirection pm1) * currentMoveSpeed pm1 * delta\<rparr>\<rparr>
                 else pm1)
      in (if left (keys pm2) \<or> right (keys pm2)
          then pm2\<lparr>playerVelocity := (playerVelocity pm2)
                     \<lparr>xc := xc (playerVelocity pm2)
                              - xc (playerDirection pm2) * currentMoveSpeed pm2 * delta\<rparr>\<rparr>
          else pm2))"

text \<open>
  Step 5, the loop over the four check directions.  The source has it twice, in
  \<open>updatePlayerDesktop\<close> on \<open>playerPos\<close> and in \<open>updatePlayerVR\<close> on
  \<open>playerRig.position\<close>, the same text otherwise; every ray starts at the check position
  computed before the loop.  The state of the loop is the velocity and the position.
\<close>

definition checkDirections :: "vec3 list" where
  "checkDirections = [vec 1 0 0, vec (-1) 0 0, vec 0 0 1, vec 0 0 (-1)]"

definition resolveDirection ::
  "collisionField \<Rightarrow> vec3 \<Rightarrow> vec3 \<Rightarrow> vec3 \<times> vec3 \<Rightarrow> vec3 \<times> vec3" where
  "resolveDirection field horizontalCheckPos dir = (\<lambda>(vel, pos).
     let wallIntersections = field horizontalCheckPos dir
     in if wallIntersections \<noteq> [] \<and> distance (hd wallIntersections) < playerRadius physics
        then
          let penetrationDepth = playerRadius physics - distance (hd wallIntersections);
              pos' = pos\<lparr>xc := xc pos - xc dir * (penetrationDepth + 0.01),
                         zc := zc pos - zc dir * (penetrationDepth + 0.01)\<rparr>;
              vel1 = (if xc dir \<noteq> 0 then vel\<lparr>xc := 0\<rparr> else vel);
              vel2 = (if zc dir \<noteq> 0 then vel1\<lparr>zc := 0\<rparr> else vel1)
          in (vel2, pos')
        else (vel, pos))"

definition collisionResolution ::
  "collisionField \<Rightarrow> vec3 \<Rightarrow> vec3 \<times> vec3 \<Rightarrow> vec3 \<times> vec3" where
  "collisionResolution field horizontalCheckPos vp =
     fold (resolveDirection field horizontalCheckPos) checkDirections vp"

text \<open>Step 6 of \<open>updatePlayerDesktop\<close>: the final ground check.\<close>

definition finalGroundCheck ::
  "collisionField \<Rightarrow> physicsManager \<times> plControls \<Rightarrow> physicsManager \<times> plControls" where
  "finalGroundCheck field = (\<lambda>(pm, c).
     let finalFloorIntersections = field (position c) (vec 0 (-1) 0)
     in if finalFloorIntersections \<noteq> [] then
          let floorDist = distance (hd finalFloorIntersections)
          in if floorDist < playerHeight physics + 0.1 then
               (if floorDist < playerHeight physics
                then (pm\<lparr>playerOnFloor := True,
                         playerVelocity :=
                           (if yc (playerVelocity pm) < 0
                            then (playerVelocity pm)\<lparr>yc := 0\<rparr> else playerVelocity pm)\<rparr>,
                      c\<lparr>position := (position c)
                           \<lparr>yc := yc (point (hd finalFloorIntersections))
                                    + playerHeight physics\<rparr>\<rparr>)
                else (pm\<lparr>playerOnFloor := True\<rparr>, c))
             else (pm\<lparr>playerOnFloor := False\<rparr>, c)
        else (pm\<lparr>playerOnFloor := False\<rparr>, c))"

text \<open>
  \<open>updatePlayerDesktop(delta, pointerLockControls, colliderMeshes)\<close>.  \<open>desktopMove\<close> is
  the body up to and including step 4 (the move along the camera axes), for a locked
  pointer; the tick then resolves collisions from the check position at half the player's
  height and runs the final ground check.
\<close>

definition desktopMove ::
  "collisionField \<Rightarrow> real \<Rightarrow> physicsManager \<times> plControls \<Rightarrow> physicsManager \<times> plControls" where
  "desktopMove field delta = (\<lambda>(pm, c).
     let (pm1, c1) = verticalMovement field delta (pm, c);
         pm2 = pm1\<lparr>playerVelocity := applyFriction delta (playerVelocity pm1)\<rparr>;
         pm3 = horizontalInput delta pm2;
         c2 = moveRight (- xc (playerVelocity pm3) * delta) c1;
         c3 = moveForward (- zc (playerVelocity pm3) * delta) c2
     in (pm3, c3))"

definition desktopCheckPos :: "plControls \<Rightarrow> vec3" where
  "desktopCheckPos c =
     vec (xc (position c)) (yc (position c) - playerHeight physics / 2) (zc (position c))"

definition updatePlayerDesktop ::
  "collisionField \<Rightarrow> real \<Rightarrow> physicsManager \<times> plControls \<Rightarrow> physicsManager \<times> plControls" where
  "updatePlayerDesktop field delta = (\<lambda>(pm, c).
     if \<not> isLocked c then (pm, c)
     else
       let (pm3, c3) = desktopMove field delta (pm, c);
           horizontalCheckPos = desktopCheckPos c3;
           (vel, pos) = collisionResolution field horizontalCheckPos
                          (playerVelocity pm3, position c3)
       in finalGroundCheck field (pm3\<lparr>playerVelocity := vel\<rparr>, c3\<lparr>position := pos\<rparr>))"

text \<open>\<open>handleKeyDown\<close>, \<open>handleKeyUp\<close> (on \<open>event.code\<close>) and \<open>reset\<close>.\<close>

definition handleKeyDown :: "string \<Rightarrow> physicsManager \<Rightarrow> physicsManager" where
  "handleKeyDown code pm =
     (if code = ''KeyW'' then pm\<lparr>keys := (keys pm)\<lparr>forward := True\<rparr>\<rparr>
      else if code = ''KeyS'' then pm\<lparr>keys := (keys pm)\<lparr>backward := True\<rparr>\<rparr>
      else if code = ''KeyA'' then pm\<lparr>keys := (keys pm)\<lparr>left := True\<rparr>\<rparr>
      else if code = ''KeyD'' then pm\<lparr>keys := (keys pm)\<lparr>right := True\<rparr>\<rparr>
      else if code = ''Space''
        then (if playerOnFloor pm then pm\<lparr>keys := (keys pm)\<lparr>jump := True\<rparr>\<rparr> else pm)
      else if code = ''ShiftLeft''
        then pm\<lparr>keys := (keys pm)\<lparr>sprint := True\<rparr>,
                currentMoveSpeed := baseMoveSpeed physics * sprintMultiplier physics\<rparr>
      else pm)"

definition handleKeyUp :: "string \<Rightarrow> physicsManager \<Rightarrow> physicsManager" where
  "handleKeyUp code pm =
     (if code = ''KeyW'' then pm\<lparr>keys := (keys pm)\<lparr>forward := False\<rparr>\<rparr>
      else if code = ''KeyS'' then pm\<lparr>keys := (keys pm)\<lparr>backward := False\<rparr>\<rparr>
      else if code = ''KeyA'' then pm\<lparr>keys := (keys pm)\<lparr>left := False\<rparr>\<rparr>
      else if code = ''KeyD'' then pm\<lparr>keys := (keys pm)\<lparr>right := False\<rparr>\<rparr>
      else if code = ''Space'' then pm\<lparr>keys := (keys pm)\<lparr>jump := False\<rparr>\<rparr>
      else if code = ''ShiftLeft''
        then pm\<lparr>keys := (keys pm)\<lparr>sprint := False\<rparr>,
                currentMoveSpeed := baseMoveSpeed physics\<rparr>
      else pm)"

definition reset :: "physicsManager \<Rightarrow> physicsManager" where
  "reset pm =
     pm\<lparr>playerVelocity := vec 0 0 0, playerOnFloor := True,
        keys := \<lparr>forward = False, backward = False, left = False, right = False,
                 jump = False, sprint = False\<rparr>\<rparr>"

text \<open>
  The VR tick.  A controller carries its handedness tag and, when connected, a gamepad
  with its axes and the values of its buttons.  The rig is its position and its rotation
  about its Y axis (\<open>rotateY\<close> adds the angle; nothing else rotates the rig).  Of the head
  camera the tick reads \<open>getWorldDirection\<close>, which the library computes from the updated
  world matrices and so depends on the rig's rotation, and the \<open>up\<close> vector.
\<close>

record gamepad =
  axes :: "real list"
  gamepadButtons :: "real list"

record vrController =
  hand :: string
  userGamepad :: "gamepad option"

record playerRig =
  rigPosition :: vec3
  rigRotationY :: real

record vrCamera =
  worldDirection :: "real \<Rightarrow> vec3"
  up :: vec3

text \<open>The \<open>forEach\<close> over the controllers: the last left and the last right gamepad win.\<close>

definition pickGamepads :: "vrController list \<Rightarrow> gamepad option \<times> gamepad option" where
  "pickGamepads cs =
     fold (\<lambda>c (moveGamepad, turnGamepad).
             case userGamepad c of
               None \<Rightarrow> (moveGamepad, turnGamepad)
             | Some g \<Rightarrow>
                 if hand c = ''left'' then (Some g, turnGamepad)
                 else if hand c = ''right'' then (moveGamepad, Some g)
                 else (moveGamepad, turnGamepad))
          cs (None, None)"

text \<open>\<open>gamepad.axes[i] || 0\<close>.\<close>

definition axisOrZero :: "gamepad \<Rightarrow> int \<Rightarrow> real" where
  "axisOrZero g i = (case js_nth (axes g) i of None \<Rightarrow> 0 | Some a \<Rightarrow> a)"

definition vrVertical ::
  "collisionField \<Rightarrow> real \<Rightarrow> physicsManager \<times> playerRig \<Rightarrow> physicsManager \<times> playerRig" where
  "vrVertical field delta = (\<lambda>(pm, rig).
     let rayStart = vadd (rigPosition rig) (vec 0 0.1 0);
         floorIntersections = field rayStart (vec 0 (-1) 0);
         onFloor = (floorIntersections \<noteq> [] \<and> distance (hd floorIntersections) < 0.15)
     in if onFloor
        then (pm\<lparr>playerVelocity := (playerVelocity pm)\<lparr>yc := max 0 (yc (playerVelocity pm))\<rparr>\<rparr>,
              rig\<lparr>rigPosition := (rigPosition rig)
                     \<lparr>yc := yc (point (hd floorIntersections)) + 0.05\<rparr>\<rparr>)
        else (pm\<lparr>playerVelocity := (playerVelocity pm)
                    \<lparr>yc := yc (playerVelocity pm) + gravity physics * delta\<rparr>\<rparr>, rig))"

definition vrMoveInput :: "gamepad option \<Rightarrow> vec3 \<times> real" where
  "vrMoveInput moveGamepad =
     (case moveGamepad of
        None \<Rightarrow> (vec 0 0 0, moveSpeed vr)
      | Some g \<Rightarrow>
          (vec (axisOrZero g 2) 0 (axisOrZero g 3),
           (case js_nth (gamepadButtons g) 0 of
              None \<Rightarrow> moveSpeed vr
            | Some v \<Rightarrow> if v > sprintThreshold vr
                        then moveSpeed vr * sprintMultiplier physics else moveSpeed vr)))"

definition vrTurn :: "gamepad option \<Rightarrow> real \<Rightarrow> playerRig \<Rightarrow> playerRig" where
  "vrTurn turnGamepad delta rig =
     (case turnGamepad of
        None \<Rightarrow> rig
      | Some g \<Rightarrow>
          let turnAxis = axisOrZero g 2
          in if \<bar>turnAxis\<bar> > 0.1
             then rig\<lparr>rigRotationY := rigRotationY rig + (- turnAxis * delta * turnSpeed vr)\<rparr>
             else rig)"

definition vrFinalFloorCheck ::
  "collisionField \<Rightarrow> physicsManager \<times> playerRig \<Rightarrow> physicsManager \<times> playerRig" where
  "vrFinalFloorCheck field = (\<lambda>(pm, rig).
     let finalRayStart = vadd (rigPosition rig) (vec 0 0.1 0);
         finalFloorIntersections = field finalRayStart (vec 0 (-1) 0)
     in if finalFloorIntersections \<noteq> [] \<and> distance (hd finalFloorIntersections) < 0.15
        then (pm\<lparr>playerVelocity :=
                    (if yc (playerVelocity pm) < 0
                     then (playerVelocity pm)\<lparr>yc := 0\<rparr> else playerVelocity pm)\<rparr>,
              rig\<lparr>rigPosition := (rigPosition rig)
                     \<lparr>yc := yc (point (hd finalFloorIntersections)) + 0.05\<rparr>\<rparr>)
        else (pm, rig))"

text \<open>
  \<open>updatePlayerVR(delta, playerRig, camera, colliderMeshes, vrControllers)\<close>.  \<open>vrMove\<close> is
  the body up to and including step 4 (the position update); the tick then resolves
  collisions from the check position one unit above the rig and runs the final floor check.
\<close>

definition vrMove ::
  "collisionField \<Rightarrow> real \<Rightarrow> vrCamera \<Rightarrow> vrController list \<Rightarrow>
     physicsManager \<times> playerRig \<Rightarrow> physicsManager \<times> playerRig" where
  "vrMove field delta camera vrControllers = (\<lambda>(pm, rig).
     let (moveGamepad, turnGamepad) = pickGamepads vrControllers;
         (pm1, rig1) = vrVertical field delta (pm, rig);
         pm2 = pm1\<lparr>playerVelocity := applyFriction delta (playerVelocity pm1)\<rparr>;
         (moveDirection, speed) = vrMoveInput moveGamepad;
         rig2 = vrTurn turnGamepad delta rig1;
         cameraDirection = normalize ((worldDirection camera (rigRotationY rig2))\<lparr>yc := 0\<rparr>);
         forwardVector = multiplyScalar cameraDirection (- zc moveDirection * speed * delta);
         rightVector = multiplyScalar
                         (normalize (cross (worldDirection camera (rigRotationY rig2)) (up camera)))
                         (xc moveDirection * speed * delta);
         v3 = (playerVelocity pm2)
                \<lparr>xc := xc (playerVelocity pm2) + (xc forwardVector + xc rightVector),
                 zc := zc (playerVelocity pm2) + (zc forwardVector + zc rightVector)\<rparr>;
         p3 = vec (xc (rigPosition rig2) + xc v3 * delta)
                  (yc (rigPosition rig2) + yc v3 * delta)
                  (zc (rigPosition rig2) + zc v3 * delta)
     in (pm2\<lparr>playerVelocity := v3\<rparr>, rig2\<lparr>rigPosition := p3\<rparr>))"

definition vrCheckPos :: "playerRig \<Rightarrow> vec3" where
  "vrCheckPos rig = vadd (rigPosition rig) (vec 0 1 0)"

definition updatePlayerVR ::
  "collisionField \<Rightarrow> real \<Rightarrow> vrCamera \<Rightarrow> vrController list \<Rightarrow>
     physicsManager \<times> playerRig \<Rightarrow> physicsManager \<times> playerRig" where
  "updatePlayerVR field delta camera vrControllers = (\<lambda>(pm, rig).
     let (pm3, rig3) = vrMove field delta camera vrControllers (pm, rig);
         horizontalCheckPos = vrCheckPos rig3;
         (vel, pos) = collisionResolution field horizontalCheckPos
                        (playerVelocity pm3, rigPosition rig3)
     in vrFinalFloorCheck field (pm3\<lparr>playerVelocity := vel\<rparr>, rig3\<lparr>rigPosition := pos\<rparr>))"

text \<open>
  Calls on the desktop manager in the order they arrive: key events and ticks.  The lock
  flag and the camera axis are left as they are between the calls.
\<close>

datatype physicsCall = KeyDown string | KeyUp string | Tick real

fun physicsStep ::
  "collisionField \<Rightarrow> physicsCall \<Rightarrow> physicsManager \<times> plControls \<Rightarrow> physicsManager \<times> plControls" where
  "physicsStep field (KeyDown code) (pm, c) = (handleKeyDown code pm, c)"
| "physicsStep field (KeyUp code) (pm, c) = (handleKeyUp code pm, c)"
| "physicsStep field (Tick delta) (pm, c) = updatePlayerDesktop field delta (pm, c)"

definition physicsRun ::
  "collisionField \<Rightarrow> physicsCall list \<Rightarrow> physicsManager \<times> plControls \<Rightarrow> physicsManager \<times> plControls" where
  "physicsRun field cs s = fold (physicsStep field) cs s"

text \<open>The horizontal speed: the length of the velocity's x and z components.\<close>

definition horizontalSpeed :: "vec3 \<Rightarrow> real" where
  "horizontalSpeed v = sqrt (xc v * xc v + zc v * zc v)"

text \<open>
  Two collision fields to run the ticks on.  \<open>openField\<close> has no collider at all.
  \<open>corridorField\<close> is a floor at height 0 and two walls, the planes \<open>x = -0.2\<close> and
  \<open>x = 0.2\<close>, with the hits the ray caster reports for the rays the ticks cast: straight
  down, and along the X axis in both senses (the walls are parallel to the Z axis, so rays
  along Z hit nothing).
\<close>

definition openField :: collisionField where
  "openField origin dir = []"

definition wallHit :: "vec3 \<Rightarrow> real \<Rightarrow> hit" where
  "wallHit origin wx =
     \<lparr>distance = \<bar>wx - xc origin\<bar>, point = vec wx (yc origin) (zc origin)\<rparr>"

definition corridorField :: collisionField where
  "corridorField origin dir =
     (if dir = vec 0 (-1) 0 then
        (if 0 \<le> yc origin
         then [\<lparr>distance = yc origin, point = vec (xc origin) 0 (zc origin)\<rparr>] else [])
      else if dir = vec 1 0 0 then
        (if xc origin \<le> -0.2 then [wallHit origin (-0.2), wallHit origin 0.2]
         else if xc origin \<le> 0.2 then [wallHit origin 0.2] else [])
      else if dir = vec (-1) 0 0 then
        (if 0.2 \<le> xc origin then [wallHit origin 0.2, wallHit origin (-0.2)]
         else if -0.2 \<le> xc origin then [wallHit origin (-0.2)] else [])
      else [])"

text \<open>
  The check positions of the two ticks, as functions of the state the tick starts from,
  and what the collision loop does with the rays cast from a check position \<open>p\<close>:
  \<open>nearHit\<close> is the test of the loop for one direction, \<open>pushBack\<close> the length the position
  is moved by, \<open>resolvedX\<close> and \<open>resolvedZ\<close> the coordinates after all four directions.
\<close>

definition desktopProbe :: "collisionField \<Rightarrow> real \<Rightarrow> physicsManager \<times> plControls \<Rightarrow> vec3" where
  "desktopProbe field delta s = desktopCheckPos (snd (desktopMove field delta s))"

definition vrProbe ::
  "collisionField \<Rightarrow> real \<Rightarrow> vrCamera \<Rightarrow> vrController list \<Rightarrow> physicsManager \<times> playerRig \<Rightarrow> vec3" where
  "vrProbe field delta camera cs s = vrCheckPos (snd (vrMove field delta camera cs s))"

definition nearHit :: "collisionField \<Rightarrow> vec3 \<Rightarrow> vec3 \<Rightarrow> bool" where
  "nearHit field p dir \<longleftrightarrow>
     field p dir \<noteq> [] \<and> distance (hd (field p dir)) < playerRadius physics"

definition pushBack :: "collisionField \<Rightarrow> vec3 \<Rightarrow> vec3 \<Rightarrow> real" where
  "pushBack field p dir =
     (if nearHit field p dir
      then playerRadius physics - distance (hd (field p dir)) + 0.01 else 0)"

definition resolvedX :: "collisionField \<Rightarrow> vec3 \<Rightarrow> real" where
  "resolvedX field p = xc p - pushBack field p (vec 1 0 0) + pushBack field p (vec (-1) 0 0)"

definition resolvedZ :: "collisionField \<Rightarrow> vec3 \<Rightarrow> real" where
  "resolvedZ field p = zc p - pushBack field p (vec 0 0 1) + pushBack field p (vec 0 0 (-1))"

text \<open>
  The damping of step 2 on one component; the vertical velocity steps 1 of the desktop
  tick computes; no directional key held; the length by which \<open>normalize\<close> divides the key
  direction; and the relation between the stored speed and the sprint key (with the y
  component of the direction, which stays 0).
\<close>

definition damped :: "real \<Rightarrow> real \<Rightarrow> real" where
  "damped delta v = v - v * friction physics * delta"

definition tickVelocityY :: "collisionField \<Rightarrow> real \<Rightarrow> physicsManager \<times> plControls \<Rightarrow> real" where
  "tickVelocityY field delta = (\<lambda>(pm, c).
     if localOnFloor field c
     then (if jump (keys pm) then jumpVelocity physics else max 0 (yc (playerVelocity pm)))
     else yc (playerVelocity pm) + gravity physics * delta)"

definition noDirectionHeld :: "keyState \<Rightarrow> bool" where
  "noDirectionHeld k \<longleftrightarrow> \<not> forward k \<and> \<not> backward k \<and> \<not> left k \<and> \<not> right k"

definition inputNorm :: "keyState \<Rightarrow> real" where
  "inputNorm k = (if forward k \<noteq> backward k \<and> left k \<noteq> right k then sqrt 2 else 1)"

definition managerInv :: "physicsManager \<Rightarrow> bool" where
  "managerInv pm \<longleftrightarrow>
     yc (playerDirection pm) = 0 \<and>
     currentMoveSpeed pm =
       (if sprint (keys pm) then baseMoveSpeed physics * sprintMultiplier physics
        else baseMoveSpeed physics)"

text \<open>
  Players, controls and controllers to run the ticks on: a manager sliding along x at
  speed 1, one with the forward key held, pointer-locked controls at head height above the
  origin and half a unit to its right, a head camera looking along \<open>-z\<close>, a right-hand
  controller with its stick at \<open>a\<close>, and a rig at the origin.
\<close>

definition slidingManager :: physicsManager where
  "slidingManager = newPhysicsManager\<lparr>playerVelocity := vec 1 0 0\<rparr>"

definition forwardManager :: physicsManager where
  "forwardManager = handleKeyDown ''KeyW'' newPhysicsManager"

definition lockedControls :: plControls where
  "lockedControls = \<lparr>isLocked = True, position = vec 0 1.6 0, rightAxis = vec 1 0 0\<rparr>"

definition outsideControls :: plControls where
  "outsideControls = \<lparr>isLocked = True, position = vec 0.5 1.6 0, rightAxis = vec 1 0 0\<rparr>"

definition levelCamera :: vrCamera where
  "levelCamera = \<lparr>worldDirection = (\<lambda>a. vec 0 0 (-1)), up = vec 0 1 0\<rparr>"

definition rightStick :: "real \<Rightarrow> vrController" where
  "rightStick a = \<lparr>hand = ''right'', userGamepad = Some \<lparr>axes = [0, 0, a, 0], gamepadButtons = [0]\<rparr>\<rparr>"

definition rigAtOrigin :: playerRig where
  "rigAtOrigin = \<lparr>rigPosition = vec 0 0 0, rigRotationY = 0\<rparr>"

section \<open>UIManager\<close>

text \<open>
  The \<open>style.display\<close> of an element: \<open>'block'\<close>, \<open>'none'\<close>, or what the page's style sheet
  gives when no script has set it.
\<close>

datatype display = DisplayBlock | DisplayNone | DisplayUnset

record toggleButton =
  textContent :: string
  datasetId :: string
  buttonDisplay :: display
  selected :: bool

record htmlPanel =
  innerHTML :: string
  panelDisplay :: display
  scrollTop :: int

record buttonConfig =
  buttonName :: string
  buttonId :: string

text \<open>
  The elements the sequence touches.  \<open>infoButtons\<close> holds the display of the five info
  buttons; the first is the fullscreen button, the element \<open>hideFullscreenButton\<close> looks up
  by its id.  The constructor puts six buttons into \<open>modelToggleButtons\<close>.
\<close>

record uiManager =
  sceneLoadingDisplay :: display
  backgroundImgDisplay :: display
  instructionsDisplay :: display
  startButtonText :: string
  startButtonDisplay :: display
  modelLabelDisplay :: display
  modelToggleButtons :: "toggleButton list"
  leftHtmlPanel :: htmlPanel
  rightHtmlPanel :: htmlPanel
  descriptionText :: string
  descriptionDisplay :: display
  infoButtons :: "display list"

definition showSceneLoading :: "uiManager \<Rightarrow> uiManager" where
  "showSceneLoading u = u\<lparr>sceneLoadingDisplay := DisplayBlock\<rparr>"

definition hideSceneLoading :: "uiManager \<Rightarrow> uiManager" where
  "hideSceneLoading u = u\<lparr>sceneLoadingDisplay := DisplayNone\<rparr>"

definition showBackgroundImage :: "uiManager \<Rightarrow> uiManager" where
  "showBackgroundImage u = u\<lparr>backgroundImgDisplay := DisplayBlock\<rparr>"

definition hideBackgroundImage :: "uiManager \<Rightarrow> uiManager" where
  "hideBackgroundImage u = u\<lparr>backgroundImgDisplay := DisplayNone\<rparr>"

definition hideInstructions :: "uiManager \<Rightarrow> uiManager" where
  "hideInstructions u = u\<lparr>instructionsDisplay := DisplayNone\<rparr>"

definition showStartButton :: "string \<Rightarrow> uiManager \<Rightarrow> uiManager" where
  "showStartButton txt u = u\<lparr>startButtonText := txt, startButtonDisplay := DisplayBlock\<rparr>"

definition updateToggleButtons :: "buttonConfig list option \<Rightarrow> uiManager \<Rightarrow> uiManager" where
  "updateToggleButtons bs u =
     (let showLabel = (case bs of None \<Rightarrow> False | Some l \<Rightarrow> l \<noteq> []);
          u1 = u\<lparr>modelLabelDisplay := (if showLabel then DisplayBlock else DisplayNone)\<rparr>;
          btns = map (\<lambda>(i, btn).
                        case bs of
                          None \<Rightarrow> btn\<lparr>buttonDisplay := DisplayNone\<rparr>
                        | Some l \<Rightarrow>
                            if i < length l
                            then btn\<lparr>textContent := buttonName (l ! i),
                                     datasetId := buttonId (l ! i),
                                     buttonDisplay := DisplayBlock, selected := False\<rparr>
                            else btn\<lparr>buttonDisplay := DisplayNone\<rparr>)
                     (enumerate 0 (modelToggleButtons u1))
      in u1\<lparr>modelToggleButtons :=
               (if showLabel then btns[0 := (btns ! 0)\<lparr>selected := True\<rparr>] else btns)\<rparr>)"

definition selectToggleButton :: "int \<Rightarrow> uiManager \<Rightarrow> uiManager" where
  "selectToggleButton index u =
     u\<lparr>modelToggleButtons :=
         map (\<lambda>(i, btn). btn\<lparr>selected := (int i = index)\<rparr>)
             (enumerate 0 (modelToggleButtons u))\<rparr>"

text \<open>
  \<open>updateHtmlPanels(leftId, rightId)\<close> copies the content of the element with the given id.
  The page is not part of the sources: \<open>doc\<close> gives the \<open>innerHTML\<close> of the element with an
  id, when the page has one.  A \<open>null\<close> or empty id looks nothing up.
\<close>

definition panelContent :: "(string \<Rightarrow> string option) \<Rightarrow> string option \<Rightarrow> string option" where
  "panelContent doc ident =
     (case ident of None \<Rightarrow> None | Some i \<Rightarrow> if i = [] then None else doc i)"

definition fillPanel :: "string option \<Rightarrow> htmlPanel \<Rightarrow> htmlPanel" where
  "fillPanel content pnl =
     (case content of
        Some html \<Rightarrow> pnl\<lparr>innerHTML := html, panelDisplay := DisplayBlock, scrollTop := 0\<rparr>
      | None \<Rightarrow> pnl\<lparr>innerHTML := [], panelDisplay := DisplayNone\<rparr>)"

definition updateHtmlPanels ::
  "(string \<Rightarrow> string option) \<Rightarrow> string option \<Rightarrow> string option \<Rightarrow> uiManager \<Rightarrow> uiManager" where
  "updateHtmlPanels doc leftId rightId u =
     u\<lparr>leftHtmlPanel := fillPanel (panelContent doc leftId) (leftHtmlPanel u),
       rightHtmlPanel := fillPanel (panelContent doc rightId) (rightHtmlPanel u)\<rparr>"

definition showDescription :: "string \<Rightarrow> uiManager \<Rightarrow> uiManager" where
  "showDescription txt u = u\<lparr>descriptionText := txt, descriptionDisplay := DisplayBlock\<rparr>"

definition hideDescription :: "uiManager \<Rightarrow> uiManager" where
  "hideDescription u = u\<lparr>descriptionDisplay := DisplayNone\<rparr>"

definition showInfoButtons :: "bool \<Rightarrow> uiManager \<Rightarrow> uiManager" where
  "showInfoButtons sh u =
     u\<lparr>infoButtons := map (\<lambda>b. if sh then DisplayBlock else DisplayNone) (infoButtons u)\<rparr>"

definition hideFullscreenButton :: "uiManager \<Rightarrow> uiManager" where
  "hideFullscreenButton u = u\<lparr>infoButtons := (infoButtons u)[0 := DisplayNone]\<rparr>"

section \<open>ModelLoader\<close>

text \<open>
  What the loader of the rendering library delivers for a URL: the number of animation
  clips and the names of the meshes of the scene graph.  \<open>modelConfig\<close> has the two fields
  the sequence passes (\<open>pos\<close>, \<open>rot\<close> and \<open>scale\<close> are never passed).
\<close>

record gltfAsset =
  animationCount :: nat
  meshNames :: "string list"

record modelConfig =
  configId :: "string option"
  configVisible :: "bool option"

record loadedModel =
  modelUrl :: string
  userDataId :: "string option"
  modelVisible :: bool
  hasMixer :: bool

text \<open>
  The lines the loader writes to the console: \<open>Unloading n models.\<close>,
  \<open>Model loaded: url\<close>, \<open>Collider model loaded: url\<close>, the two error lines of a failed
  load, and the warning of \<open>setModelVisibility\<close> for an id no model has.
\<close>

datatype consoleEntry =
    LoggedUnloading nat
  | LoggedModelLoaded string
  | LoggedColliderLoaded string
  | LoggedModelError string
  | LoggedColliderError string
  | LoggedIdNotFound string

record modelLoader =
  loadedModels :: "loadedModel list"
  colliderMeshes :: "string list"
  loaderConsole :: "consoleEntry list"

text \<open>A rejected promise carries an error; \<open>None\<close> is a fulfilled one.\<close>

datatype jsError = LoadError string | TypeError

definition loadModel ::
  "(string \<Rightarrow> gltfAsset option) \<Rightarrow> string \<Rightarrow> modelConfig \<Rightarrow> modelLoader \<Rightarrow> jsError option \<times> modelLoader" where
  "loadModel assets url config ml =
     (case assets url of
        None \<Rightarrow>
          (Some (LoadError url),
           ml\<lparr>loaderConsole := loaderConsole ml @ [LoggedModelError url]\<rparr>)
      | Some gltf \<Rightarrow>
          (None, ml\<lparr>loadedModels := loadedModels ml @
             [\<lparr>modelUrl = url,
               userDataId = (case configId config of
                               None \<Rightarrow> None | Some i \<Rightarrow> if i = [] then None else Some i),
               modelVisible = (case configVisible config of None \<Rightarrow> True | Some v \<Rightarrow> v),
               hasMixer = (0 < animationCount gltf)\<rparr>],
             loaderConsole := loaderConsole ml @ [LoggedModelLoaded url]\<rparr>))"

definition loadColliderModel ::
  "(string \<Rightarrow> gltfAsset option) \<Rightarrow> string \<Rightarrow> modelLoader \<Rightarrow> jsError option \<times> modelLoader" where
  "loadColliderModel assets url ml =
     (case assets url of
        None \<Rightarrow>
          (Some (LoadError url),
           ml\<lparr>loaderConsole := loaderConsole ml @ [LoggedColliderError url]\<rparr>)
      | Some gltf \<Rightarrow>
          (None, ml\<lparr>colliderMeshes := colliderMeshes ml @ meshNames gltf,
                    loadedModels := loadedModels ml @
                      [\<lparr>modelUrl = url, userDataId = None, modelVisible = False,
                        hasMixer = False\<rparr>],
                    loaderConsole := loaderConsole ml @ [LoggedColliderLoaded url]\<rparr>))"

text \<open>
  \<open>setModelVisibility\<close>: \<open>find\<close> takes the first model with the id; when there is none
  the loader warns on the console.
\<close>

fun setVisibleFirst :: "string \<Rightarrow> bool \<Rightarrow> loadedModel list \<Rightarrow> loadedModel list" where
  "setVisibleFirst ident v [] = []"
| "setVisibleFirst ident v (m # ms) =
     (if userDataId m = Some ident then m\<lparr>modelVisible := v\<rparr> # ms
      else m # setVisibleFirst ident v ms)"

definition setModelVisibility :: "string \<Rightarrow> bool \<Rightarrow> modelLoader \<Rightarrow> modelLoader" where
  "setModelVisibility ident v ml =
     (if list_ex (\<lambda>m. userDataId m = Some ident) (loadedModels ml)
      then ml\<lparr>loadedModels := setVisibleFirst ident v (loadedModels ml)\<rparr>
      else ml\<lparr>loaderConsole := loaderConsole ml @ [LoggedIdNotFound ident]\<rparr>)"

definition unloadAll :: "modelLoader \<Rightarrow> modelLoader" where
  "unloadAll ml =
     ml\<lparr>loaderConsole := loaderConsole ml @ [LoggedUnloading (length (loadedModels ml))],
        loadedModels := [], colliderMeshes := []\<rparr>"

text \<open>
  \<open>await Promise.all([...])\<close> over loads issued together.  The loads complete in an order
  the network decides, \<open>completionOrder\<close>; each completed load pushes its model, and the
  first rejection rejects the whole and ends the wait.  The state is the one at that
  moment: loads that complete after the rejection are outside the model.
\<close>

datatype loadRequest = LoadModel string modelConfig | LoadCollider string

fun requestUrl :: "loadRequest \<Rightarrow> string" where
  "requestUrl (LoadModel url config) = url"
| "requestUrl (LoadCollider url) = url"

fun performLoad ::
  "(string \<Rightarrow> gltfAsset option) \<Rightarrow> loadRequest \<Rightarrow> modelLoader \<Rightarrow> jsError option \<times> modelLoader" where
  "performLoad assets (LoadModel url config) ml = loadModel assets url config ml"
| "performLoad assets (LoadCollider url) ml = loadColliderModel assets url ml"

fun settleAll ::
  "(string \<Rightarrow> gltfAsset option) \<Rightarrow> loadRequest list \<Rightarrow> modelLoader \<Rightarrow> jsError option \<times> modelLoader" where
  "settleAll assets [] ml = (None, ml)"
| "settleAll assets (r # rs) ml =
     (case performLoad assets r ml of
        (Some e, ml') \<Rightarrow> (Some e, ml')
      | (None, ml') \<Rightarrow> settleAll assets rs ml')"

text \<open>
  Reading the console.  \<open>isLoadLine\<close> and \<open>isErrorLine\<close> tell the line of a completed load
  and of a failed one, \<open>lineUrl\<close> is the URL such a line names.  \<open>successLine\<close> is the line
  a request writes when it is served and \<open>storedId\<close> the id it stores with its model.
  \<open>unloadedThenLoaded\<close>: what the console gained is one unloading line, counting the models
  held before, followed by lines of completed loads only, whose URLs are \<open>urls\<close>.
  \<open>unloadedThenFailed\<close>: what the console gained is one unloading line, lines of completed
  loads, and one line of a failed load, the last one, whose URL is the one the error \<open>e\<close>
  carries; together the lines name URLs from \<open>urls\<close>, none more often than \<open>urls\<close> has it.
\<close>

fun isLoadLine :: "consoleEntry \<Rightarrow> bool" where
  "isLoadLine (LoggedModelLoaded u) = True"
| "isLoadLine (LoggedColliderLoaded u) = True"
| "isLoadLine e = False"

fun isErrorLine :: "consoleEntry \<Rightarrow> bool" where
  "isErrorLine (LoggedModelError u) = True"
| "isErrorLine (LoggedColliderError u) = True"
| "isErrorLine e = False"

fun lineUrl :: "consoleEntry \<Rightarrow> string" where
  "lineUrl (LoggedModelLoaded u) = u"
| "lineUrl (LoggedColliderLoaded u) = u"
| "lineUrl (LoggedModelError u) = u"
| "lineUrl (LoggedColliderError u) = u"
| "lineUrl e = []"

fun successLine :: "loadRequest \<Rightarrow> consoleEntry" where
  "successLine (LoadModel url config) = LoggedModelLoaded url"
| "successLine (LoadCollider url) = LoggedColliderLoaded url"

fun storedId :: "loadRequest \<Rightarrow> string option" where
  "storedId (LoadModel url config) =
     (case configId config of None \<Rightarrow> None | Some i \<Rightarrow> if i = [] then None else Some i)"
| "storedId (LoadCollider url) = None"

definition unloadedThenLoaded :: "modelLoader \<Rightarrow> modelLoader \<Rightarrow> string multiset \<Rightarrow> bool" where
  "unloadedThenLoaded before after urls \<longleftrightarrow>
     (\<exists>ls. loaderConsole after
             = loaderConsole before @ LoggedUnloading (length (loadedModels before)) # ls \<and>
           list_all isLoadLine ls \<and> mset (map lineUrl ls) = urls)"

definition unloadedThenFailed ::
  "modelLoader \<Rightarrow> modelLoader \<Rightarrow> jsError \<Rightarrow> string multiset \<Rightarrow> bool" where
  "unloadedThenFailed before after e urls \<longleftrightarrow>
     (\<exists>ls x. loaderConsole after
               = loaderConsole before @ LoggedUnloading (length (loadedModels before)) # ls @ [x] \<and>
             list_all isLoadLine ls \<and> isErrorLine x \<and> e = LoadError (lineUrl x) \<and>
             mset (map lineUrl ls) + {#lineUrl x#} \<subseteq># urls)"

section \<open>CameraManager\<close>

datatype projection = Perspective | Orthographic

datatype cameraMode = Orbit | StaticOrbit | PointerLock

text \<open>
  \<open>CameraConfig\<close>, with the fields the sequence passes (the polar and azimuth limits are
  never passed, so \<open>setupOrbitMode\<close> always writes the same constants for them).
\<close>

record cameraConfig =
  cfgType :: cameraMode
  cfgCameraType :: "projection option"
  cfgPos :: "vec3 option"
  cfgLookAt :: "vec3 option"
  cfgFov :: "real option"
  cfgAutoRotate :: "bool option"
  cfgAutoRotateSpeed :: "real option"
  cfgEnablePan :: "bool option"
  cfgEnableZoom :: "bool option"
  cfgEnableRotate :: "bool option"

text \<open>
  The state \<open>setupCamera\<close> writes: which camera is active, the orbit controls, position and
  look target of the two cameras, the field of view, the position of the rig, and the
  pointer lock (\<open>unlock\<close> is taken to release at once; \<open>lock\<close> is a request to the browser).
  \<open>pointerLockControls.getObject()\<close> is the perspective camera.  \<open>setupOrbitMode\<close> ends
  with \<open>orbitControls.update()\<close>, which belongs to the rendering library and moves the
  active camera (it clamps the polar angle and takes an auto-rotate step): it is the
  parameter \<open>update\<close>.
\<close>

record cameraManager =
  activeCamera :: projection
  orbitEnabled :: bool
  orbitAutoRotate :: bool
  orbitAutoRotateSpeed :: real
  orbitTarget :: vec3
  orbitEnablePan :: bool
  orbitEnableZoom :: bool
  orbitEnableRotate :: bool
  perspectivePosition :: vec3
  perspectiveLookAt :: "vec3 option"
  perspectiveFov :: real
  orthographicPosition :: vec3
  orthographicLookAt :: "vec3 option"
  playerRigPosition :: vec3
  pointerLocked :: bool
  lockRequested :: bool

definition setupOrbitMode ::
  "(cameraManager \<Rightarrow> cameraManager) \<Rightarrow> cameraConfig \<Rightarrow> vec3 \<Rightarrow> vec3 \<Rightarrow> bool \<Rightarrow>
     cameraManager \<Rightarrow> cameraManager" where
  "setupOrbitMode update config ps la vrMode cm =
     (let cm1 = (if vrMode then cm\<lparr>playerRigPosition := ps\<rparr>
                 else if activeCamera cm = Orthographic
                   then cm\<lparr>orthographicPosition := ps, orthographicLookAt := Some la\<rparr>
                   else cm\<lparr>perspectivePosition := ps, perspectiveLookAt := Some la\<rparr>);
          cm2 = cm1\<lparr>orbitTarget := la,
                    orbitAutoRotate := (case cfgAutoRotate config of None \<Rightarrow> False | Some b \<Rightarrow> b),
                    orbitAutoRotateSpeed :=
                      (case cfgAutoRotateSpeed config of
                         None \<Rightarrow> 1 | Some v \<Rightarrow> if v = 0 then 1 else v),
                    orbitEnablePan := (case cfgEnablePan config of None \<Rightarrow> True | Some b \<Rightarrow> b),
                    orbitEnableZoom := (case cfgEnableZoom config of None \<Rightarrow> True | Some b \<Rightarrow> b),
                    orbitEnableRotate :=
                      (case cfgEnableRotate config of None \<Rightarrow> True | Some b \<Rightarrow> b)\<rparr>;
          cm3 = (if cfgCameraType config = Some Orthographic then cm2
                 else cm2\<lparr>perspectiveFov :=
                            (case cfgFov config of
                               None \<Rightarrow> 75 | Some v \<Rightarrow> if v = 0 then 75 else v)\<rparr>)
      in update (cm3\<lparr>orbitEnabled := True\<rparr>))"

definition setupPointerLockMode :: "vec3 \<Rightarrow> real option \<Rightarrow> bool \<Rightarrow> cameraManager \<Rightarrow> cameraManager" where
  "setupPointerLockMode ps fv vrMode cm =
     (if vrMode then cm\<lparr>playerRigPosition := ps\<rparr>
      else cm\<lparr>perspectiveFov := (case fv of None \<Rightarrow> 75 | Some v \<Rightarrow> if v = 0 then 75 else v),
              perspectivePosition := ps, lockRequested := True\<rparr>)"

definition setupCamera ::
  "(cameraManager \<Rightarrow> cameraManager) \<Rightarrow> cameraConfig \<Rightarrow> bool \<Rightarrow> cameraManager \<Rightarrow> cameraManager" where
  "setupCamera update config vrMode cm =
     (let cm1 = cm\<lparr>orbitEnabled := False, orbitAutoRotate := False, pointerLocked := False\<rparr>;
          newCamera = (if cfgType config = PointerLock then Perspective
                       else if cfgCameraType config = Some Orthographic then Orthographic
                       else Perspective);
          cm2 = cm1\<lparr>activeCamera := newCamera\<rparr>;
          ps = (case cfgPos config of None \<Rightarrow> vec 0 5 10 | Some v \<Rightarrow> v);
          la = (case cfgLookAt config of None \<Rightarrow> vec 0 1 0 | Some v \<Rightarrow> v)
      in if cfgType config = PointerLock
         then setupPointerLockMode ps (cfgFov config) vrMode cm2
         else setupOrbitMode update config ps la vrMode cm2)"

section \<open>The environment of a session\<close>

text \<open>
  What the sequence meets outside the sources: what the network delivers for a URL, the
  order in which loads issued together complete, the page, and what the closing
  \<open>orbitControls.update()\<close> of the rendering library does to the camera manager.
\<close>

record environment =
  envAssets :: "string \<Rightarrow> gltfAsset option"
  completionOrder :: "loadRequest list \<Rightarrow> loadRequest list"
  envDocument :: "string \<Rightarrow> string option"
  orbitControlsUpdate :: "cameraManager \<Rightarrow> cameraManager"

definition promiseAll ::
  "environment \<Rightarrow> loadRequest list \<Rightarrow> modelLoader \<Rightarrow> jsError option \<times> modelLoader" where
  "promiseAll env rs ml = settleAll (envAssets env) (completionOrder env rs) ml"

section \<open>Configuration: \<open>APP_CONFIG.assets.models\<close> and \<open>APP_CONFIG.scenes\<close>\<close>

definition modelUrls :: "string list" where
  "modelUrls =
     [''https://raw.githubusercontent.com/decentralize-dfw/vea-randomfiles/main/DEMO2city-opt-v2.glb'',
      ''https://raw.githubusercontent.com/decentralize-dfw/vea-randomfiles/main/DEMO2city-ghost.glb'',
      ''https://raw.githubusercontent.com/decentralize-dfw/vea-randomfiles/main/DEMO2city-metal-v1.glb'',
      ''https://raw.githubusercontent.com/decentralize-dfw/vea-randomfiles/main/DEMO2city-whitefacade-v3.glb'',
      ''https://raw.githubusercontent.com/decentralize-dfw/vea-randomfiles/main/DEMO2kopuk-normalfacade-opt-v5.glb'',
      ''https://raw.githubusercontent.com/decentralize-dfw/vea-randomfiles/main/DEMO2-sehirici-apartmanici-opt-v6.glb'',
      ''https://raw.githubusercontent.com/decentralize-dfw/vea-randomfiles/main/DEMO2interior-soloapartement-opt-v4.glb'',
      ''https://raw.githubusercontent.com/decentralize-dfw/vea-randomfiles/main/SCENE5-COLLDERd.glb'']"

text \<open>\<open>modelUrls[i]\<close>; an index outside the table gives \<open>undefined\<close>, which the loader is
  then asked to load.\<close>

definition modelUrlAt :: "int \<Rightarrow> string" where
  "modelUrlAt i = (case js_nth modelUrls i of None \<Rightarrow> ''undefined'' | Some u \<Rightarrow> u)"

datatype controlsKind = OrbitControls | PointerLockControls

record cameraPlacement =
  placementPos :: vec3
  placementLookAt :: vec3
  placementFov :: real

record sceneConfig =
  sceneName :: string
  sceneDescription :: string
  models :: "int list"
  cameraType :: projection
  controls :: controlsKind
  autoRotate :: "bool option"
  autoRotateSpeed :: "real option"
  enableUserRotation :: "bool option"
  enableZoom :: "bool option"
  enablePan :: "bool option"
  cameraPosition :: "vec3 option"
  cameraLookAt :: "vec3 option"
  buttons :: "buttonConfig list option"
  cameraPositions :: "cameraPlacement list option"

definition scene0 :: sceneConfig where
  "scene0 = \<lparr>sceneName = ''Pre-Start'', sceneDescription = ''Auto-rotate scene'',
      models = [0, 4], cameraType = Orthographic, controls = OrbitControls,
      autoRotate = Some True, autoRotateSpeed = Some 1, enableUserRotation = Some False,
      enableZoom = Some False, enablePan = Some False,
      cameraPosition = Some (vec 0 20 15), cameraLookAt = Some (vec 0 1 0),
      buttons = None, cameraPositions = None\<rparr>"

definition scene1 :: sceneConfig where
  "scene1 = \<lparr>sceneName = ''Concept & Context'', sceneDescription = ''Conceptual toggles'',
      models = [0, 4], cameraType = Orthographic, controls = OrbitControls,
      autoRotate = Some True, autoRotateSpeed = Some 1, enableUserRotation = Some True,
      enableZoom = Some True, enablePan = Some False,
      cameraPosition = Some (vec 0 30 15), cameraLookAt = Some (vec 0 4 0),
      buttons = Some [\<lparr>buttonName = ''Surrounding'', buttonId = ''surrounding''\<rparr>,
                      \<lparr>buttonName = ''Transportation'', buttonId = ''transportation''\<rparr>,
                      \<lparr>buttonName = ''Units'', buttonId = ''units''\<rparr>],
      cameraPositions = None\<rparr>"

definition scene2 :: sceneConfig where
  "scene2 = \<lparr>sceneName = ''Design Options'', sceneDescription = ''A/B model comparison'',
      models = [0, 3, 2, 4], cameraType = Orthographic, controls = OrbitControls,
      autoRotate = Some True, autoRotateSpeed = Some 1, enableUserRotation = Some True,
      enableZoom = Some True, enablePan = Some False,
      cameraPosition = Some (vec 0 30 15), cameraLookAt = Some (vec 0 4 0),
      buttons = Some [\<lparr>buttonName = ''Option 1 (M1+M4)'', buttonId = ''view1''\<rparr>,
                      \<lparr>buttonName = ''Option 2 (M3+M5)'', buttonId = ''view2''\<rparr>],
      cameraPositions = None\<rparr>"

definition scene3 :: sceneConfig where
  "scene3 = \<lparr>sceneName = ''Structural View'', sceneDescription = ''Orbit interior structure'',
      models = [2, 5], cameraType = Orthographic, controls = OrbitControls,
      autoRotate = Some False, autoRotateSpeed = None, enableUserRotation = Some True,
      enableZoom = Some True, enablePan = Some False,
      cameraPosition = Some (vec 15 8 (-15)), cameraLookAt = Some (vec 0 4 0),
      buttons = None, cameraPositions = None\<rparr>"

definition scene4 :: sceneConfig where
  "scene4 = \<lparr>sceneName = ''Interior Tour'', sceneDescription = ''Static camera positions'',
      models = [6], cameraType = Perspective, controls = OrbitControls,
      autoRotate = Some False, autoRotateSpeed = None, enableUserRotation = Some True,
      enableZoom = Some True, enablePan = Some False,
      cameraPosition = None, cameraLookAt = None,
      buttons = Some [\<lparr>buttonName = ''Salon'', buttonId = ''cam1''\<rparr>,
                      \<lparr>buttonName = ''Bathroom'', buttonId = ''cam2''\<rparr>,
                      \<lparr>buttonName = ''Bedroom 1'', buttonId = ''cam3''\<rparr>,
                      \<lparr>buttonName = ''Bedroom 1 WC'', buttonId = ''cam4''\<rparr>,
                      \<lparr>buttonName = ''Bedroom 2'', buttonId = ''cam5''\<rparr>,
                      \<lparr>buttonName = ''Bedroom 2 WC'', buttonId = ''cam6''\<rparr>],
      cameraPositions = Some
        [\<lparr>placementPos = vec 1 1.6 1.6, placementLookAt = vec 1 1.6 1.5, placementFov = 80\<rparr>,
         \<lparr>placementPos = vec (-2) 1.6 3.1, placementLookAt = vec (-2.1) 1.6 3.2, placementFov = 80\<rparr>,
         \<lparr>placementPos = vec (-2) 1.6 0, placementLookAt = vec (-2.1) 1.6 (-0.1), placementFov = 80\<rparr>,
         \<lparr>placementPos = vec (-2) 1.6 2.1, placementLookAt = vec (-2.1) 1.6 2.2, placementFov = 80\<rparr>,
         \<lparr>placementPos = vec 4.4 1.6 0, placementLookAt = vec 4.5 1.6 (-0.1), placementFov = 80\<rparr>,
         \<lparr>placementPos = vec 3.9 1.6 3.7, placementLookAt = vec 4.0 1.6 3.8, placementFov = 80\<rparr>]\<rparr>"

definition scene5 :: sceneConfig where
  "scene5 = \<lparr>sceneName = ''Walk-through'', sceneDescription = ''First-person exploration'',
      models = [6, 7], cameraType = Perspective, controls = PointerLockControls,
      autoRotate = None, autoRotateSpeed = None, enableUserRotation = None,
      enableZoom = None, enablePan = None,
      cameraPosition = Some (vec 1.4 1.6 (-0.6)), cameraLookAt = None,
      buttons = None, cameraPositions = None\<rparr>"

text \<open>\<open>APP_CONFIG.scenes[i]\<close>: the keys are 0 to 5, any other index gives \<open>undefined\<close>.\<close>

definition scenes :: "int \<Rightarrow> sceneConfig option" where
  "scenes i =
     (if i = 0 then Some scene0 else if i = 1 then Some scene1
      else if i = 2 then Some scene2 else if i = 3 then Some scene3
      else if i = 4 then Some scene4 else if i = 5 then Some scene5 else None)"

section \<open>SequenceManager\<close>

text \<open>
  The sequence manager with the four managers it drives.  \<open>reloadCalled\<close> records the call
  of \<open>window.location.reload()\<close>, after which the browser discards the page.
\<close>

record sequenceManager =
  currentScene :: int
  isVR :: bool
  modelLoader :: modelLoader
  cameraManager :: cameraManager
  audioManager :: audioManager
  uiManager :: uiManager
  reloadCalled :: bool

text \<open>The constructor: the index starts at \<open>-1\<close>.\<close>

definition newSequenceManager ::
  "modelLoader \<Rightarrow> cameraManager \<Rightarrow> audioManager \<Rightarrow> uiManager \<Rightarrow> bool \<Rightarrow> sequenceManager" where
  "newSequenceManager ml cm am um vrMode =
     \<lparr>currentScene = -1, isVR = vrMode, modelLoader = ml, cameraManager = cm,
      audioManager = am, uiManager = um, reloadCalled = False\<rparr>"

definition onUI :: "(uiManager \<Rightarrow> uiManager) \<Rightarrow> sequenceManager \<Rightarrow> sequenceManager" where
  "onUI f s = s\<lparr>uiManager := f (uiManager s)\<rparr>"

definition onModels :: "(modelLoader \<Rightarrow> modelLoader) \<Rightarrow> sequenceManager \<Rightarrow> sequenceManager" where
  "onModels f s = s\<lparr>modelLoader := f (modelLoader s)\<rparr>"

definition onCamera :: "(cameraManager \<Rightarrow> cameraManager) \<Rightarrow> sequenceManager \<Rightarrow> sequenceManager" where
  "onCamera f s = s\<lparr>cameraManager := f (cameraManager s)\<rparr>"

definition onAudio :: "(audioManager \<Rightarrow> audioManager) \<Rightarrow> sequenceManager \<Rightarrow> sequenceManager" where
  "onAudio f s = s\<lparr>audioManager := f (audioManager s)\<rparr>"

text \<open>
  The camera configuration the load routines of scenes 0 to 3 build from the scene (the
  source writes the same object literal in each of them).
\<close>

definition orbitConfig :: "sceneConfig \<Rightarrow> cameraConfig" where
  "orbitConfig config =
     \<lparr>cfgType = Orbit, cfgCameraType = Some (cameraType config),
      cfgPos = cameraPosition config, cfgLookAt = cameraLookAt config, cfgFov = None,
      cfgAutoRotate = autoRotate config, cfgAutoRotateSpeed = autoRotateSpeed config,
      cfgEnablePan = enablePan config, cfgEnableZoom = enableZoom config,
      cfgEnableRotate = enableUserRotation config\<rparr>"

text \<open>\<open>buttons[index]?.textContent\<close> inside a template string.\<close>

definition toggleLabel :: "uiManager \<Rightarrow> int \<Rightarrow> string" where
  "toggleLabel u index =
     (case js_nth (modelToggleButtons u) index of
        None \<Rightarrow> ''undefined'' | Some btn \<Rightarrow> textContent btn)"

definition panelIds :: "(string \<times> string) list" where
  "panelIds =
     [(''html_scene4_cam1_left'', ''html_scene4_cam1_right''),
      (''html_scene4_cam2_left'', ''html_scene4_cam2_right''),
      (''html_scene4_cam3_left'', ''html_scene4_cam3_right''),
      (''html_scene4_cam4_left'', ''html_scene4_cam4_right''),
      (''html_scene4_cam5_left'', ''html_scene4_cam5_right''),
      (''html_scene4_cam6_left'', ''html_scene4_cam6_right'')]"

text \<open>
  \<open>handleVariantClick(index)\<close>: the button with the index is selected, then the \<open>switch\<close>
  on the current scene runs one of three cases, given here as \<open>variantScene1\<close>,
  \<open>variantScene2\<close> and \<open>variantScene4\<close>.  In scene 4 a negative index passes the length
  test and reads \<open>undefined.pos\<close>, a \<open>TypeError\<close>.
\<close>

definition variantScene1 ::
  "environment \<Rightarrow> int \<Rightarrow> sequenceManager \<Rightarrow> jsError option \<times> sequenceManager" where
  "variantScene1 env index s1 =
     (let s2 = (if index = 0
                then onUI (updateHtmlPanels (envDocument env)
                       (Some ''html_scene1_opt1_left'') (Some ''html_scene1_opt1_right'')) s1
                else if index = 1
                then onUI (updateHtmlPanels (envDocument env)
                       (Some ''html_scene1_opt2_left'') (Some ''html_scene1_opt2_right'')) s1
                else if index = 2
                then onUI (updateHtmlPanels (envDocument env)
                       (Some ''html_scene1_opt3_left'') (Some ''html_scene1_opt3_right'')) s1
                else s1)
      in (None, onUI (showDescription (''Info for '' @ toggleLabel (uiManager s1) index)) s2))"

definition variantScene2 ::
  "environment \<Rightarrow> int \<Rightarrow> sequenceManager \<Rightarrow> jsError option \<times> sequenceManager" where
  "variantScene2 env index s1 =
     (let showView1 = (index = 0);
          s2 = onModels (setModelVisibility ''m5'' (\<not> showView1)
                         \<circ> setModelVisibility ''m3'' (\<not> showView1)
                         \<circ> setModelVisibility ''m4'' showView1
                         \<circ> setModelVisibility ''m1'' showView1) s1;
          s3 = (if index = 0
                then onUI (updateHtmlPanels (envDocument env)
                       (Some ''html_scene2_opt1_left'') (Some ''html_scene2_opt1_right'')) s2
                else if index = 1
                then onUI (updateHtmlPanels (envDocument env)
                       (Some ''html_scene2_opt2_left'') (Some ''html_scene2_opt2_right'')) s2
                else s2)
      in (None, onUI (showDescription (''Showing '' @ toggleLabel (uiManager s1) index)) s3))"

definition placementConfig :: "cameraPlacement \<Rightarrow> cameraConfig" where
  "placementConfig camPos =
     \<lparr>cfgType = StaticOrbit, cfgCameraType = Some Perspective,
      cfgPos = Some (placementPos camPos), cfgLookAt = Some (placementLookAt camPos),
      cfgFov = Some (placementFov camPos), cfgAutoRotate = Some False,
      cfgAutoRotateSpeed = None, cfgEnablePan = Some False, cfgEnableZoom = Some True,
      cfgEnableRotate = Some True\<rparr>"

definition variantScene4 ::
  "environment \<Rightarrow> int \<Rightarrow> sequenceManager \<Rightarrow> jsError option \<times> sequenceManager" where
  "variantScene4 env index s1 =
     (case scenes (currentScene s1) of
        None \<Rightarrow> (Some TypeError, s1)
      | Some sceneConfig \<Rightarrow>
         (case cameraPositions sceneConfig of
            None \<Rightarrow> (None, s1)
          | Some placements \<Rightarrow>
              if index < int (length placements) then
                (case js_nth placements index of
                   None \<Rightarrow> (Some TypeError, s1)
                 | Some camPos \<Rightarrow>
                    (let s2 = onCamera (setupCamera (orbitControlsUpdate env) (placementConfig camPos) (isVR s1)) s1;
                         s3 = (case js_nth panelIds index of
                                 None \<Rightarrow> s2
                               | Some (l, r) \<Rightarrow>
                                   onUI (updateHtmlPanels (envDocument env) (Some l) (Some r)) s2)
                     in (None, onUI (showDescription
                                       (''Camera: '' @ toggleLabel (uiManager s1) index)) s3)))
              else (None, s1)))"

definition handleVariantClick ::
  "environment \<Rightarrow> int \<Rightarrow> sequenceManager \<Rightarrow> jsError option \<times> sequenceManager" where
  "handleVariantClick env index s =
     (let s1 = onUI (selectToggleButton index) s
      in if currentScene s1 = 1 then variantScene1 env index s1
         else if currentScene s1 = 2 then variantScene2 env index s1
         else if currentScene s1 = 4 then variantScene4 env index s1
         else (None, s1))"

text \<open>The wait for the loads of a scene: the loader is replaced by the one after the loads.\<close>

definition awaitLoads ::
  "environment \<Rightarrow> loadRequest list \<Rightarrow> sequenceManager \<Rightarrow> jsError option \<times> sequenceManager" where
  "awaitLoads env rs s =
     (case promiseAll env rs (modelLoader s) of (r, ml) \<Rightarrow> (r, s\<lparr>modelLoader := ml\<rparr>))"

definition visibleModel :: "int \<Rightarrow> loadRequest" where
  "visibleModel i = LoadModel (modelUrlAt i) \<lparr>configId = None, configVisible = Some True\<rparr>"

definition hiddenModel :: "int \<Rightarrow> string \<Rightarrow> loadRequest" where
  "hiddenModel i ident =
     LoadModel (modelUrlAt i) \<lparr>configId = Some ident, configVisible = Some False\<rparr>"

definition loadScene0 ::
  "environment \<Rightarrow> sceneConfig \<Rightarrow> sequenceManager \<Rightarrow> jsError option \<times> sequenceManager" where
  "loadScene0 env config s =
     (let s1 = onUI (showStartButton ''Start'' \<circ> hideInstructions) s;
          s2 = onModels unloadAll s1
      in case awaitLoads env (map visibleModel (models config)) s2 of
           (Some e, s3) \<Rightarrow> (Some e, s3)
         | (None, s3) \<Rightarrow>
             (let s4 = onCamera (setupCamera (orbitControlsUpdate env) (orbitConfig config) (isVR s3)) s3;
                  s5 = onUI (updateHtmlPanels (envDocument env)
                               (Some ''html_scene0_left'') (Some ''html_scene0_right'')) s4
              in (None, onAudio (playAudio 0 True 0.5) s5)))"

definition loadScene1 ::
  "environment \<Rightarrow> sceneConfig \<Rightarrow> sequenceManager \<Rightarrow> jsError option \<times> sequenceManager" where
  "loadScene1 env config s =
     (let s1 = onUI (showStartButton ''Next Scene'') s;
          s2 = onCamera (setupCamera (orbitControlsUpdate env) (orbitConfig config) (isVR s1)) s1;
          s3 = (case buttons config of
                  None \<Rightarrow> s2 | Some bs \<Rightarrow> onUI (updateToggleButtons (Some bs)) s2);
          s4 = onUI (updateHtmlPanels (envDocument env)
                       (Some ''html_scene1_opt1_left'') (Some ''html_scene1_opt1_right'')) s3
      in (None, onAudio (playAudio 1 True 0.5) s4))"

definition loadScene2 ::
  "environment \<Rightarrow> sceneConfig \<Rightarrow> sequenceManager \<Rightarrow> jsError option \<times> sequenceManager" where
  "loadScene2 env config s =
     (let s1 = onModels unloadAll s
      in case awaitLoads env [hiddenModel 0 ''m1'', hiddenModel 3 ''m4'',
                              hiddenModel 2 ''m3'', hiddenModel 4 ''m5''] s1 of
           (Some e, s2) \<Rightarrow> (Some e, s2)
         | (None, s2) \<Rightarrow>
             (let s3 = (case buttons config of
                          None \<Rightarrow> s2 | Some bs \<Rightarrow> onUI (updateToggleButtons (Some bs)) s2);
                  s4 = onCamera (setupCamera (orbitControlsUpdate env) (orbitConfig config) (isVR s3)) s3
              in case handleVariantClick env 0 s4 of
                   (Some e, s5) \<Rightarrow> (Some e, s5)
                 | (None, s5) \<Rightarrow> (None, onAudio (playAudio 2 True 0.5) s5)))"

definition loadScene3 ::
  "environment \<Rightarrow> sceneConfig \<Rightarrow> sequenceManager \<Rightarrow> jsError option \<times> sequenceManager" where
  "loadScene3 env config s =
     (let s1 = onModels unloadAll s
      in case awaitLoads env (map visibleModel (models config)) s1 of
           (Some e, s2) \<Rightarrow> (Some e, s2)
         | (None, s2) \<Rightarrow>
             (let s3 = onUI (updateToggleButtons None) s2;
                  s4 = onCamera (setupCamera (orbitControlsUpdate env) (orbitConfig config) (isVR s3)) s3;
                  s5 = onUI (updateHtmlPanels (envDocument env)
                               (Some ''html_scene3_left'') (Some ''html_scene3_right'')) s4
              in (None, onAudio (playAudio 3 True 0.5) s5)))"

definition loadScene4 ::
  "environment \<Rightarrow> sceneConfig \<Rightarrow> sequenceManager \<Rightarrow> jsError option \<times> sequenceManager" where
  "loadScene4 env config s =
     (let s1 = onModels unloadAll s
      in case awaitLoads env [visibleModel 6] s1 of
           (Some e, s2) \<Rightarrow> (Some e, s2)
         | (None, s2) \<Rightarrow>
             (let s3 = (case buttons config of
                          None \<Rightarrow> s2 | Some bs \<Rightarrow> onUI (updateToggleButtons (Some bs)) s2)
              in case handleVariantClick env 0 s3 of
                   (Some e, s4) \<Rightarrow> (Some e, s4)
                 | (None, s4) \<Rightarrow> (None, onAudio (playAudio 4 True 0.5) s4)))"

definition loadScene5 ::
  "environment \<Rightarrow> sceneConfig \<Rightarrow> sequenceManager \<Rightarrow> jsError option \<times> sequenceManager" where
  "loadScene5 env config s =
     (let s1 = onModels unloadAll s
      in case awaitLoads env [visibleModel 6, LoadCollider (modelUrlAt 7)] s1 of
           (Some e, s2) \<Rightarrow> (Some e, s2)
         | (None, s2) \<Rightarrow>
             (let s3 = onUI (showStartButton ''Restart'' \<circ> updateToggleButtons None) s2;
                  s4 = onCamera (setupCamera (orbitControlsUpdate env)
                         \<lparr>cfgType = PointerLock, cfgCameraType = None,
                          cfgPos = cameraPosition config, cfgLookAt = None, cfgFov = None,
                          cfgAutoRotate = None, cfgAutoRotateSpeed = None, cfgEnablePan = None,
                          cfgEnableZoom = None, cfgEnableRotate = None\<rparr> (isVR s3)) s3;
                  s5 = onUI (updateHtmlPanels (envDocument env)
                               (Some ''html_scene5_left'') (Some ''html_scene5_right'')) s4
              in (None, onAudio (playAudio 5 True 0.5) s5)))"

definition loadScene ::
  "environment \<Rightarrow> sceneConfig \<Rightarrow> sequenceManager \<Rightarrow> jsError option \<times> sequenceManager" where
  "loadScene env config s =
     (if currentScene s = 0 then loadScene0 env config s
      else if currentScene s = 1 then loadScene1 env config s
      else if currentScene s = 2 then loadScene2 env config s
      else if currentScene s = 3 then loadScene3 env config s
      else if currentScene s = 4 then loadScene4 env config s
      else if currentScene s = 5 then loadScene5 env config s
      else (None, s))"

text \<open>
  \<open>runNextScene\<close>: \<open>beginScene\<close> is the part before the \<open>try\<close>, \<open>finishScene\<close> the
  \<open>finally\<close> block, which runs after a return and after an error alike; the \<open>catch\<close> block
  logs and throws the error it caught.
\<close>

definition beginScene :: "environment \<Rightarrow> sequenceManager \<Rightarrow> sequenceManager" where
  "beginScene env s =
     (let s1 = s\<lparr>currentScene := currentScene s + 1\<rparr>;
          s2 = onUI (hideDescription
                     \<circ> updateHtmlPanels (envDocument env) None None
                     \<circ> showInfoButtons False
                     \<circ> showBackgroundImage
                     \<circ> showSceneLoading) s1
      in onAudio stopAll s2)"

definition finishScene :: "sequenceManager \<Rightarrow> sequenceManager" where
  "finishScene s =
     (let s1 = onUI (showInfoButtons True \<circ> hideBackgroundImage \<circ> hideSceneLoading) s
      in if isVR s1 then onUI hideFullscreenButton s1 else s1)"

definition runNextScene ::
  "environment \<Rightarrow> sequenceManager \<Rightarrow> jsError option \<times> sequenceManager" where
  "runNextScene env s =
     (let s1 = beginScene env s;
          (r, s2) = (case scenes (currentScene s1) of
                       None \<Rightarrow>
                         (None, if currentScene s1 = 6 then s1\<lparr>reloadCalled := True\<rparr> else s1)
                     | Some sceneConfig \<Rightarrow> loadScene env sceneConfig s1)
      in (r, finishScene s2))"

text \<open>
  \<open>n\<close> clicks on the start button: each calls \<open>runNextScene\<close> on the state the previous
  call left, whether it was fulfilled or rejected.
\<close>

fun advances :: "environment \<Rightarrow> nat \<Rightarrow> sequenceManager \<Rightarrow> sequenceManager" where
  "advances env 0 s = s"
| "advances env (Suc n) s = snd (runNextScene env (advances env n s))"

text \<open>
  The number of variants a scene offers: the camera placements in scene 4, the toggle
  buttons of the configuration otherwise.
\<close>

definition variantCount :: "int \<Rightarrow> nat" where
  "variantCount i =
     (case scenes i of
        None \<Rightarrow> 0
      | Some config \<Rightarrow>
          if i = 4 then (case cameraPositions config of None \<Rightarrow> 0 | Some ps \<Rightarrow> length ps)
          else (case buttons config of None \<Rightarrow> 0 | Some bs \<Rightarrow> length bs))"

text \<open>Every load succeeds, and the order of completion is a rearrangement of the requests.\<close>

definition allLoadsSucceed :: "environment \<Rightarrow> bool" where
  "allLoadsSucceed env \<longleftrightarrow>
     (\<forall>u. envAssets env u \<noteq> None) \<and> (\<forall>rs. mset (completionOrder env rs) = mset rs)"

text \<open>The URLs of the models the loader holds.\<close>

definition loadedUrls :: "sequenceManager \<Rightarrow> string multiset" where
  "loadedUrls s = mset (map modelUrl (loadedModels (modelLoader s)))"

definition declaredUrls :: "sceneConfig \<Rightarrow> string multiset" where
  "declaredUrls config = mset (map modelUrlAt (models config))"

text \<open>
  Two states belong to the same point of the sequence: same index, same presentation mode,
  same reload flag.
\<close>

definition sameSession :: "sequenceManager \<Rightarrow> sequenceManager \<Rightarrow> bool" where
  "sameSession s t \<longleftrightarrow>
     currentScene t = currentScene s \<and> isVR t = isVR s \<and> reloadCalled t = reloadCalled s"

text \<open>
  Sessions to run the sequence on.  In \<open>friendlyEnvironment\<close> every URL is served (a model
  without animations or meshes), loads complete in the order of the requests, and the page
  has an element for every id, whose content is the id.  In \<open>offlineEnvironment\<close> no URL is
  served.  In both the closing update of the orbit controls leaves the camera manager as
  \<open>setupOrbitMode\<close> wrote it; what is shown on these sessions does not read a camera.  \<open>startSession\<close> is a new desktop sequence manager on an empty loader, the cameras
  as their constructor leaves them, and a page with six toggle buttons and five info
  buttons no script has touched.  \<open>hiddenLoaded\<close> is a model as the load routine of scene 2
  stores it, with its visibility.
\<close>

definition friendlyEnvironment :: environment where
  "friendlyEnvironment =
     \<lparr>envAssets = (\<lambda>u. Some \<lparr>animationCount = 0, meshNames = []\<rparr>),
      completionOrder = (\<lambda>rs. rs), envDocument = (\<lambda>i. Some i),
      orbitControlsUpdate = (\<lambda>cm. cm)\<rparr>"


definition startCamera :: cameraManager where
  "startCamera =
     \<lparr>activeCamera = Perspective, orbitEnabled = False, orbitAutoRotate = False,
      orbitAutoRotateSpeed = 2, orbitTarget = vec 0 1 0, orbitEnablePan = True,
      orbitEnableZoom = True, orbitEnableRotate = True, perspectivePosition = vec 0 0 0,
      perspectiveLookAt = None, perspectiveFov = 75, orthographicPosition = vec 0 0 0,
      orthographicLookAt = None, playerRigPosition = vec 0 0 0, pointerLocked = False,
      lockRequested = False\<rparr>"

definition startPage :: uiManager where
  "startPage =
     \<lparr>sceneLoadingDisplay = DisplayUnset, backgroundImgDisplay = DisplayBlock,
      instructionsDisplay = DisplayBlock, startButtonText = ''Start'',
      startButtonDisplay = DisplayUnset, modelLabelDisplay = DisplayUnset,
      modelToggleButtons =
        replicate 6 \<lparr>textContent = [], datasetId = [], buttonDisplay = DisplayUnset,
                     selected = False\<rparr>,
      leftHtmlPanel = \<lparr>innerHTML = [], panelDisplay = DisplayUnset, scrollTop = 0\<rparr>,
      rightHtmlPanel = \<lparr>innerHTML = [], panelDisplay = DisplayUnset, scrollTop = 0\<rparr>,
      descriptionText = [], descriptionDisplay = DisplayUnset,
      infoButtons = replicate 5 DisplayUnset\<rparr>"

definition startSession :: sequenceManager where
  "startSession =
     newSequenceManager \<lparr>loadedModels = [], colliderMeshes = [], loaderConsole = []\<rparr> startCamera
       (newAudioManager False) startPage False"

definition hiddenLoaded :: "int \<Rightarrow> string \<Rightarrow> bool \<Rightarrow> loadedModel" where
  "hiddenLoaded i ident v =
     \<lparr>modelUrl = modelUrlAt i, userDataId = Some ident, modelVisible = v, hasMixer = False\<rparr>"

section \<open>Properties of the AudioManager\<close>

lemma stopSound_silent: "\<not> isPlaying (stopSound sound)"
  by (simp add: stopSound_def)

lemma stopAll_inv: "list_all (\<lambda>d. \<not> isPlaying d) (detached a) \<Longrightarrow> audioInv (stopAll a)"
  by (auto simp: audioInv_def stopAll_def list_all_iff stopSound_silent)

lemma playAudio_inv: "audioInv a \<Longrightarrow> audioInv (playAudio i lp vol a)"
  by (auto simp: audioInv_def playAudio_def stopAll_def list_all_iff stopSound_silent Let_def
           split: option.splits)

lemma audioStep_inv: "audioInv a \<Longrightarrow> audioInv (audioStep c a)"
proof (cases c)
  case (PlayAudio i lp vol)
  assume "audioInv a"
  with PlayAudio show ?thesis by (simp add: playAudio_inv)
next
  case StopAll
  assume "audioInv a"
  then have "list_all (\<lambda>d. \<not> isPlaying d) (detached a)" by (simp add: audioInv_def)
  with StopAll show ?thesis by (simp add: stopAll_inv)
qed

lemma audioRun_inv: "audioInv a \<Longrightarrow> audioInv (audioRun cs a)"
  unfolding audioRun_def
  by (induction cs arbitrary: a) (simp_all add: audioStep_inv)

lemma playAudio_ready:
  assumes "js_nth (soundBuffers a) i = Some (Some buf)"
  shows "activeSounds (playAudio i lp vol a)
           = [\<lparr>abuffer = buf, aloop = lp, avolume = vol, isPlaying = True\<rparr>]"
    and "detached (playAudio i lp vol a) = detached a @ map stopSound (activeSounds a)"
  using assms by (simp_all add: playAudio_def stopAll_def Let_def)

text \<open>
  C10.  When \<open>playAudio\<close> finds its buffer it leaves exactly the new, playing sound in the
  active list, and every sound that was active before is stopped and dropped first.
  Hence, from a manager whose list holds at most one sound and whose dropped sounds are
  silent (in particular from a fresh manager), every sequence of \<open>playAudio\<close> and
  \<open>stopAll\<close> calls ends with at most one active sound and no dropped sound playing.
\<close>

theorem C10_single_active_sound:
  "(js_nth (soundBuffers a) i = Some (Some buf) \<longrightarrow>
      activeSounds (playAudio i lp vol a)
        = [\<lparr>abuffer = buf, aloop = lp, avolume = vol, isPlaying = True\<rparr>] \<and>
      detached (playAudio i lp vol a) = detached a @ map stopSound (activeSounds a) \<and>
      list_all (\<lambda>d. \<not> isPlaying d) (map stopSound (activeSounds a))) \<and>
   (audioInv a \<longrightarrow>
      length (activeSounds (audioRun cs a)) \<le> 1 \<and>
      list_all (\<lambda>d. \<not> isPlaying d) (detached (audioRun cs a)))"
proof (intro conjI impI)
  assume ready: "js_nth (soundBuffers a) i = Some (Some buf)"
  from playAudio_ready(1)[OF ready]
  show "activeSounds (playAudio i lp vol a)
          = [\<lparr>abuffer = buf, aloop = lp, avolume = vol, isPlaying = True\<rparr>]" .
  from playAudio_ready(2)[OF ready]
  show "detached (playAudio i lp vol a) = detached a @ map stopSound (activeSounds a)" .
  show "list_all (\<lambda>d. \<not> isPlaying d) (map stopSound (activeSounds a))"
    by (simp add: list_all_iff stopSound_silent)
next
  assume "audioInv a"
  then have inv: "audioInv (audioRun cs a)" by (rule audioRun_inv)
  from inv show "length (activeSounds (audioRun cs a)) \<le> 1" by (simp add: audioInv_def)
  from inv show "list_all (\<lambda>d. \<not> isPlaying d) (detached (audioRun cs a))"
    by (simp add: audioInv_def)
qed

text \<open>
  The theorem at a manager with two decoded buffers: three sounds are requested (one of
  them from a slot that holds no buffer), with a \<open>stopAll\<close> in between.
\<close>

theorem C10_single_active_sound_witness:
  "js_nth (soundBuffers ((newAudioManager False)\<lparr>soundBuffers := [Some ''a.mp3'', None, Some ''c.mp3'']\<rparr>)) 2
     = Some (Some ''c.mp3'') \<and>
   audioInv ((newAudioManager False)\<lparr>soundBuffers := [Some ''a.mp3'', None, Some ''c.mp3'']\<rparr>) \<and>
   activeSounds (playAudio 2 True (1/2)
       ((newAudioManager False)\<lparr>soundBuffers := [Some ''a.mp3'', None, Some ''c.mp3'']\<rparr>))
     = [\<lparr>abuffer = ''c.mp3'', aloop = True, avolume = 1/2, isPlaying = True\<rparr>] \<and>
   length (activeSounds (audioRun [PlayAudio 0 True (1/2), PlayAudio 1 True (1/2), StopAll,
                                   PlayAudio 2 False 1, PlayAudio 0 True (1/2)]
       ((newAudioManager False)\<lparr>soundBuffers := [Some ''a.mp3'', None, Some ''c.mp3'']\<rparr>))) \<le> 1"
proof -
  let ?a = "(newAudioManager False)\<lparr>soundBuffers := [Some ''a.mp3'', None, Some ''c.mp3'']\<rparr>"
  have ready: "js_nth (soundBuffers ?a) 2 = Some (Some ''c.mp3'')"
    by (simp add: js_nth_def newAudioManager_def)
  have inv: "audioInv ?a"
    by (simp add: audioInv_def newAudioManager_def)
  from C10_single_active_sound
         [of ?a 2 "''c.mp3''" True "1/2"
             "[PlayAudio 0 True (1/2), PlayAudio 1 True (1/2), StopAll,
               PlayAudio 2 False 1, PlayAudio 0 True (1/2)]"]
       ready inv
  show ?thesis by blast
qed

section \<open>Properties of the PhysicsManager\<close>

lemma vrVertical_rot: "rigRotationY (snd (vrVertical field delta (pm, rig))) = rigRotationY rig"
  by (simp add: vrVertical_def Let_def)

lemma vrFinal_rot: "rigRotationY (snd (vrFinalFloorCheck field (pm, rig))) = rigRotationY rig"
  by (simp add: vrFinalFloorCheck_def Let_def)

lemma vrMove_rot:
  "rigRotationY (snd (vrMove field delta camera cs (pm, rig)))
     = rigRotationY (vrTurn (snd (pickGamepads cs)) delta rig)"
proof -
  obtain pm1 rig1 where v: "vrVertical field delta (pm, rig) = (pm1, rig1)"
    by (cases "vrVertical field delta (pm, rig)")
  from vrVertical_rot[of field delta pm rig] v have r1: "rigRotationY rig1 = rigRotationY rig"
    by simp
  have t: "\<And>tg r r'. rigRotationY r = rigRotationY r' \<Longrightarrow>
             rigRotationY (vrTurn tg delta r) = rigRotationY (vrTurn tg delta r')"
    by (simp add: vrTurn_def Let_def split: option.splits)
  show ?thesis
    using t[OF r1] v
    by (simp add: vrMove_def Let_def split: prod.splits)
qed

lemma updatePlayerVR_rot:
  "rigRotationY (snd (updatePlayerVR field delta camera cs (pm, rig)))
     = rigRotationY (vrTurn (snd (pickGamepads cs)) delta rig)"
proof -
  obtain pm3 rig3 where m: "vrMove field delta camera cs (pm, rig) = (pm3, rig3)"
    by (cases "vrMove field delta camera cs (pm, rig)")
  obtain vel pos where c: "collisionResolution field (vrCheckPos rig3) (playerVelocity pm3, rigPosition rig3) = (vel, pos)"
    by (cases "collisionResolution field (vrCheckPos rig3) (playerVelocity pm3, rigPosition rig3)")
  from vrMove_rot[of field delta camera cs pm rig] m
  have "rigRotationY rig3 = rigRotationY (vrTurn (snd (pickGamepads cs)) delta rig)" by simp
  then show ?thesis
    using m c vrFinal_rot[of field "pm3\<lparr>playerVelocity := vel\<rparr>" "rig3\<lparr>rigPosition := pos\<rparr>"]
    by (simp add: updatePlayerVR_def Let_def)
qed

text \<open>
  C9 (amended).  In the VR tick the rig is rotated only through the turn stick (the last
  right-hand controller that has a gamepad): when the magnitude of its axis 2 exceeds 0.1
  the rotation about Y becomes the old one plus \<open>-axis * delta * turnSpeed\<close>, with no
  smoothing, and otherwise it is left as it is.  So for \<open>delta \<noteq> 0\<close> the rotation changes
  in the frame if and only if the axis is outside the dead zone.  Without a turn stick the
  rotation never changes.
\<close>

theorem C9_vr_turn:
  "(snd (pickGamepads cs) = Some g \<longrightarrow>
      rigRotationY (snd (updatePlayerVR field delta camera cs (pm, rig)))
        = (if \<bar>axisOrZero g 2\<bar> > 0.1
           then rigRotationY rig + (- axisOrZero g 2 * delta * turnSpeed vr)
           else rigRotationY rig) \<and>
      (delta \<noteq> 0 \<longrightarrow>
         (rigRotationY (snd (updatePlayerVR field delta camera cs (pm, rig))) \<noteq> rigRotationY rig
            \<longleftrightarrow> \<bar>axisOrZero g 2\<bar> > 0.1))) \<and>
   (snd (pickGamepads cs) = None \<longrightarrow>
      rigRotationY (snd (updatePlayerVR field delta camera cs (pm, rig))) = rigRotationY rig)"
  by (auto simp: updatePlayerVR_rot vrTurn_def Let_def vr_def)

lemma pick_right: "pickGamepads [rightStick a] = (None, Some \<lparr>axes = [0, 0, a, 0], gamepadButtons = [0]\<rparr>)"
  by (simp add: pickGamepads_def rightStick_def)

text \<open>
  C9 as stated fails in a frame of zero duration: the axis is at 1, outside the dead zone,
  and the rotation is the same after the tick.
\<close>

theorem C9_counterexample:
  "\<bar>axisOrZero \<lparr>axes = [0, 0, 1, 0], gamepadButtons = [0]\<rparr> 2\<bar> > 0.1 \<and>
   snd (pickGamepads [rightStick 1]) = Some \<lparr>axes = [0, 0, 1, 0], gamepadButtons = [0]\<rparr> \<and>
   rigRotationY (snd (updatePlayerVR openField 0 levelCamera [rightStick 1]
                        (newPhysicsManager, rigAtOrigin))) = rigRotationY rigAtOrigin"
  by (simp add: updatePlayerVR_rot pick_right vrTurn_def Let_def axisOrZero_def js_nth_def)

text \<open>
  The theorem on a frame of 1/64 s, with the turn stick fully deflected and without any
  controller.
\<close>

theorem C9_vr_turn_witness:
  "snd (pickGamepads [rightStick 1]) = Some \<lparr>axes = [0, 0, 1, 0], gamepadButtons = [0]\<rparr> \<and>
   (1/64 :: real) \<noteq> 0 \<and> \<bar>axisOrZero \<lparr>axes = [0, 0, 1, 0], gamepadButtons = [0]\<rparr> 2\<bar> > 0.1 \<and>
   rigRotationY (snd (updatePlayerVR openField (1/64) levelCamera [rightStick 1]
                        (newPhysicsManager, rigAtOrigin))) = - 1/32 \<and>
   rigRotationY (snd (updatePlayerVR openField (1/64) levelCamera [rightStick 1]
                        (newPhysicsManager, rigAtOrigin))) \<noteq> rigRotationY rigAtOrigin \<and>
   snd (pickGamepads []) = None \<and>
   rigRotationY (snd (updatePlayerVR openField (1/64) levelCamera []
                        (newPhysicsManager, rigAtOrigin))) = rigRotationY rigAtOrigin"
proof -
  have p: "snd (pickGamepads [rightStick 1]) = Some \<lparr>axes = [0, 0, 1, 0], gamepadButtons = [0]\<rparr>"
    by (simp add: pick_right)
  have a: "axisOrZero \<lparr>axes = [0, 0, 1, 0], gamepadButtons = [0]\<rparr> 2 = 1"
    by (simp add: axisOrZero_def js_nth_def)
  have n: "snd (pickGamepads []) = None" by (simp add: pickGamepads_def)
  from C9_vr_turn[of "[rightStick 1]" "\<lparr>axes = [0, 0, 1, 0], gamepadButtons = [0]\<rparr>" openField "1/64"
                     levelCamera newPhysicsManager rigAtOrigin]
       C9_vr_turn[of "[]" "\<lparr>axes = [0, 0, 1, 0], gamepadButtons = [0]\<rparr>" openField "1/64"
                     levelCamera newPhysicsManager rigAtOrigin] p a n
  show ?thesis by (simp add: rigAtOrigin_def vr_def)
qed

lemma vec_sel [simp]: "xc (vec a b c) = a" "yc (vec a b c) = b" "zc (vec a b c) = c"
  by (simp_all add: vec_def)

lemma resolve_px:
  "resolveDirection field p (vec 1 0 0) (vel, pos) =
     (if nearHit field p (vec 1 0 0)
      then (vel\<lparr>xc := 0\<rparr>, pos\<lparr>xc := xc pos - pushBack field p (vec 1 0 0)\<rparr>) else (vel, pos))"
  by (simp add: resolveDirection_def nearHit_def pushBack_def Let_def)

lemma resolve_nx:
  "resolveDirection field p (vec (-1) 0 0) (vel, pos) =
     (if nearHit field p (vec (-1) 0 0)
      then (vel\<lparr>xc := 0\<rparr>, pos\<lparr>xc := xc pos + pushBack field p (vec (-1) 0 0)\<rparr>) else (vel, pos))"
  by (simp add: resolveDirection_def nearHit_def pushBack_def Let_def)

lemma resolve_pz:
  "resolveDirection field p (vec 0 0 1) (vel, pos) =
     (if nearHit field p (vec 0 0 1)
      then (vel\<lparr>zc := 0\<rparr>, pos\<lparr>zc := zc pos - pushBack field p (vec 0 0 1)\<rparr>) else (vel, pos))"
  by (simp add: resolveDirection_def nearHit_def pushBack_def Let_def)

lemma resolve_nz:
  "resolveDirection field p (vec 0 0 (-1)) (vel, pos) =
     (if nearHit field p (vec 0 0 (-1))
      then (vel\<lparr>zc := 0\<rparr>, pos\<lparr>zc := zc pos + pushBack field p (vec 0 0 (-1))\<rparr>) else (vel, pos))"
  by (simp add: resolveDirection_def nearHit_def pushBack_def Let_def)

lemma pushBack_far: "\<not> nearHit field p dir \<Longrightarrow> pushBack field p dir = 0"
  by (simp add: pushBack_def)

lemma collisionResolution_eq:
  "collisionResolution field p (vel, pos) =
     (vel\<lparr>xc := (if nearHit field p (vec 1 0 0) \<or> nearHit field p (vec (-1) 0 0) then 0 else xc vel),
          zc := (if nearHit field p (vec 0 0 1) \<or> nearHit field p (vec 0 0 (-1)) then 0 else zc vel)\<rparr>,
      pos\<lparr>xc := xc pos - pushBack field p (vec 1 0 0) + pushBack field p (vec (-1) 0 0),
          zc := zc pos - pushBack field p (vec 0 0 1) + pushBack field p (vec 0 0 (-1))\<rparr>)"
  by (simp add: collisionResolution_def checkDirections_def resolve_px resolve_nx resolve_pz
                resolve_nz pushBack_far)

lemma verticalMovement_fst:
  "fst (verticalMovement field delta (pm, c)) =
     pm\<lparr>playerVelocity := (playerVelocity pm)
           \<lparr>yc := (if localOnFloor field c
                    then (if jump (keys pm) then jumpVelocity physics
                          else max 0 (yc (playerVelocity pm)))
                    else yc (playerVelocity pm) + gravity physics * delta)\<rparr>,
        keys := (keys pm)\<lparr>jump := jump (keys pm) \<and> \<not> localOnFloor field c\<rparr>\<rparr>"
  by (simp add: verticalMovement_def Let_def split: prod.splits)

lemma verticalMovement_snd:
  "isLocked (snd (verticalMovement field delta (pm, c))) = isLocked c"
  "rightAxis (snd (verticalMovement field delta (pm, c))) = rightAxis c"
  "xc (position (snd (verticalMovement field delta (pm, c)))) = xc (position c)"
  "zc (position (snd (verticalMovement field delta (pm, c)))) = zc (position c)"
  by (simp_all add: verticalMovement_def Let_def split: prod.splits)

lemma horizontalInput_eq:
  "horizontalInput delta p =
     p\<lparr>playerDirection := inputDirection p,
       playerVelocity := (playerVelocity p)
         \<lparr>zc := zc (playerVelocity p)
                 - (if forward (keys p) \<or> backward (keys p)
                    then zc (inputDirection p) * currentMoveSpeed p * delta else 0),
          xc := xc (playerVelocity p)
                 - (if left (keys p) \<or> right (keys p)
                    then xc (inputDirection p) * currentMoveSpeed p * delta else 0)\<rparr>\<rparr>"
  by (simp add: horizontalInput_def Let_def)

lemma inputDirection_cong:
  "playerDirection p = playerDirection q \<Longrightarrow> forward (keys p) = forward (keys q) \<Longrightarrow>
   backward (keys p) = backward (keys q) \<Longrightarrow> left (keys p) = left (keys q) \<Longrightarrow>
   right (keys p) = right (keys q) \<Longrightarrow> inputDirection p = inputDirection q"
  by (simp add: inputDirection_def)

lemma desktopMove_fst:
  "fst (desktopMove field delta (pm, c)) =
     pm\<lparr>playerDirection := inputDirection pm,
        playerVelocity :=
          \<lparr>xc = damped delta (xc (playerVelocity pm))
                 - (if left (keys pm) \<or> right (keys pm)
                    then xc (inputDirection pm) * currentMoveSpeed pm * delta else 0),
           yc = (if localOnFloor field c
                 then (if jump (keys pm) then jumpVelocity physics
                       else max 0 (yc (playerVelocity pm)))
                 else yc (playerVelocity pm) + gravity physics * delta),
           zc = damped delta (zc (playerVelocity pm))
                 - (if forward (keys pm) \<or> backward (keys pm)
                    then zc (inputDirection pm) * currentMoveSpeed pm * delta else 0)\<rparr>,
        keys := (keys pm)\<lparr>jump := jump (keys pm) \<and> \<not> localOnFloor field c\<rparr>\<rparr>"
proof -
  obtain pm1 c1 where v: "verticalMovement field delta (pm, c) = (pm1, c1)"
    by (cases "verticalMovement field delta (pm, c)")
  from verticalMovement_fst[of field delta pm c] v
  have pm1: "pm1 = pm\<lparr>playerVelocity := (playerVelocity pm)
           \<lparr>yc := (if localOnFloor field c
                    then (if jump (keys pm) then jumpVelocity physics
                          else max 0 (yc (playerVelocity pm)))
                    else yc (playerVelocity pm) + gravity physics * delta)\<rparr>,
        keys := (keys pm)\<lparr>jump := jump (keys pm) \<and> \<not> localOnFloor field c\<rparr>\<rparr>" by simp
  have d: "inputDirection (pm1\<lparr>playerVelocity := applyFriction delta (playerVelocity pm1)\<rparr>)
             = inputDirection pm"
    by (rule inputDirection_cong) (simp_all add: pm1)
  have "fst (desktopMove field delta (pm, c))
          = horizontalInput delta (pm1\<lparr>playerVelocity := applyFriction delta (playerVelocity pm1)\<rparr>)"
    using v by (simp add: desktopMove_def Let_def)
  then show ?thesis
    unfolding horizontalInput_eq d
    by (simp add: pm1 applyFriction_def damped_def)
qed

lemma desktopMove_snd:
  "isLocked (snd (desktopMove field delta (pm, c))) = isLocked c"
  "rightAxis (snd (desktopMove field delta (pm, c))) = rightAxis c"
proof -
  obtain pm1 c1 where v: "verticalMovement field delta (pm, c) = (pm1, c1)"
    by (cases "verticalMovement field delta (pm, c)")
  from verticalMovement_snd(1,2)[of field delta pm c] v
  have "isLocked c1 = isLocked c" "rightAxis c1 = rightAxis c" by simp_all
  then show "isLocked (snd (desktopMove field delta (pm, c))) = isLocked c"
    "rightAxis (snd (desktopMove field delta (pm, c))) = rightAxis c"
    using v by (simp_all add: desktopMove_def Let_def moveRight_def moveForward_def)
qed

lemma desktopMove_position:
  "xc (position (snd (desktopMove field delta (pm, c))))
     = xc (position c)
       + xc (rightAxis c) * (- xc (playerVelocity (fst (desktopMove field delta (pm, c)))) * delta)
       + zc (rightAxis c) * (- zc (playerVelocity (fst (desktopMove field delta (pm, c)))) * delta)"
  "zc (position (snd (desktopMove field delta (pm, c))))
     = zc (position c)
       + zc (rightAxis c) * (- xc (playerVelocity (fst (desktopMove field delta (pm, c)))) * delta)
       - xc (rightAxis c) * (- zc (playerVelocity (fst (desktopMove field delta (pm, c)))) * delta)"
proof -
  obtain pm1 c1 where v: "verticalMovement field delta (pm, c) = (pm1, c1)"
    by (cases "verticalMovement field delta (pm, c)")
  from verticalMovement_snd(2,3,4)[of field delta pm c] v
  have c1: "rightAxis c1 = rightAxis c" "xc (position c1) = xc (position c)"
    "zc (position c1) = zc (position c)" by simp_all
  show "xc (position (snd (desktopMove field delta (pm, c))))
     = xc (position c)
       + xc (rightAxis c) * (- xc (playerVelocity (fst (desktopMove field delta (pm, c)))) * delta)
       + zc (rightAxis c) * (- zc (playerVelocity (fst (desktopMove field delta (pm, c)))) * delta)"
    using v c1
    by (simp add: desktopMove_def Let_def moveRight_def moveForward_def vadd_def
                  multiplyScalar_def cross_def vec_def)
  show "zc (position (snd (desktopMove field delta (pm, c))))
     = zc (position c)
       + zc (rightAxis c) * (- xc (playerVelocity (fst (desktopMove field delta (pm, c)))) * delta)
       - xc (rightAxis c) * (- zc (playerVelocity (fst (desktopMove field delta (pm, c)))) * delta)"
    using v c1
    by (simp add: desktopMove_def Let_def moveRight_def moveForward_def vadd_def
                  multiplyScalar_def cross_def vec_def)
qed

lemma finalGroundCheck_fst:
  "xc (playerVelocity (fst (finalGroundCheck field (p, c)))) = xc (playerVelocity p)"
  "zc (playerVelocity (fst (finalGroundCheck field (p, c)))) = zc (playerVelocity p)"
  "yc (playerVelocity (fst (finalGroundCheck field (p, c)))) = yc (playerVelocity p) \<or>
   (yc (playerVelocity p) < 0 \<and> yc (playerVelocity (fst (finalGroundCheck field (p, c)))) = 0)"
  "keys (fst (finalGroundCheck field (p, c))) = keys p"
  "currentMoveSpeed (fst (finalGroundCheck field (p, c))) = currentMoveSpeed p"
  "playerDirection (fst (finalGroundCheck field (p, c))) = playerDirection p"
  by (simp_all add: finalGroundCheck_def Let_def)

lemma finalGroundCheck_snd:
  "isLocked (snd (finalGroundCheck field (p, c))) = isLocked c"
  "rightAxis (snd (finalGroundCheck field (p, c))) = rightAxis c"
  "xc (position (snd (finalGroundCheck field (p, c)))) = xc (position c)"
  "zc (position (snd (finalGroundCheck field (p, c)))) = zc (position c)"
  by (simp_all add: finalGroundCheck_def Let_def)

text \<open>The state a locked tick hands to the final ground check.\<close>

lemma updatePlayerDesktop_locked:
  assumes "isLocked c"
  shows "updatePlayerDesktop field delta (pm, c) =
     finalGroundCheck field
       ((fst (desktopMove field delta (pm, c)))
          \<lparr>playerVelocity :=
             fst (collisionResolution field (desktopCheckPos (snd (desktopMove field delta (pm, c))))
                    (playerVelocity (fst (desktopMove field delta (pm, c))),
                     position (snd (desktopMove field delta (pm, c)))))\<rparr>,
        (snd (desktopMove field delta (pm, c)))
          \<lparr>position :=
             snd (collisionResolution field (desktopCheckPos (snd (desktopMove field delta (pm, c))))
                    (playerVelocity (fst (desktopMove field delta (pm, c))),
                     position (snd (desktopMove field delta (pm, c)))))\<rparr>)"
  using assms by (simp add: updatePlayerDesktop_def Let_def split: prod.splits)

lemma tick_fst:
  fixes field delta pm c
  assumes "isLocked c"
  defines "p \<equiv> desktopProbe field delta (pm, c)"
  defines "pm' \<equiv> fst (updatePlayerDesktop field delta (pm, c))"
  shows "xc (playerVelocity pm') =
           (if nearHit field p (vec 1 0 0) \<or> nearHit field p (vec (-1) 0 0) then 0
            else damped delta (xc (playerVelocity pm))
                 - (if left (keys pm) \<or> right (keys pm)
                    then xc (inputDirection pm) * currentMoveSpeed pm * delta else 0))"
    and "zc (playerVelocity pm') =
           (if nearHit field p (vec 0 0 1) \<or> nearHit field p (vec 0 0 (-1)) then 0
            else damped delta (zc (playerVelocity pm))
                 - (if forward (keys pm) \<or> backward (keys pm)
                    then zc (inputDirection pm) * currentMoveSpeed pm * delta else 0))"
    and "keys pm' = (keys pm)\<lparr>jump := jump (keys pm) \<and> \<not> localOnFloor field c\<rparr>"
    and "currentMoveSpeed pm' = currentMoveSpeed pm"
    and "playerDirection pm' = inputDirection pm"
  unfolding pm'_def p_def desktopProbe_def updatePlayerDesktop_locked[OF assms(1)]
  by (simp_all add: finalGroundCheck_fst collisionResolution_eq desktopMove_fst)

lemma tick_vy:
  assumes "isLocked c"
  shows "yc (playerVelocity (fst (updatePlayerDesktop field delta (pm, c))))
           = tickVelocityY field delta (pm, c) \<or>
         (tickVelocityY field delta (pm, c) < 0 \<and>
          yc (playerVelocity (fst (updatePlayerDesktop field delta (pm, c)))) = 0)"
proof -
  define q where "q = (fst (desktopMove field delta (pm, c)))
          \<lparr>playerVelocity :=
             fst (collisionResolution field (desktopCheckPos (snd (desktopMove field delta (pm, c))))
                    (playerVelocity (fst (desktopMove field delta (pm, c))),
                     position (snd (desktopMove field delta (pm, c)))))\<rparr>"
  define d where "d = (snd (desktopMove field delta (pm, c)))
          \<lparr>position :=
             snd (collisionResolution field (desktopCheckPos (snd (desktopMove field delta (pm, c))))
                    (playerVelocity (fst (desktopMove field delta (pm, c))),
                     position (snd (desktopMove field delta (pm, c)))))\<rparr>"
  have t: "updatePlayerDesktop field delta (pm, c) = finalGroundCheck field (q, d)"
    unfolding q_def d_def by (rule updatePlayerDesktop_locked[OF assms])
  have y: "yc (playerVelocity q) = tickVelocityY field delta (pm, c)"
    by (simp add: q_def collisionResolution_eq desktopMove_fst tickVelocityY_def)
  from finalGroundCheck_fst(3)[of field q d] show ?thesis
    unfolding t y .
qed

lemma tick_snd:
  "isLocked (snd (updatePlayerDesktop field delta (pm, c))) = isLocked c"
  "rightAxis (snd (updatePlayerDesktop field delta (pm, c))) = rightAxis c"
proof -
  show "isLocked (snd (updatePlayerDesktop field delta (pm, c))) = isLocked c"
  proof (cases "isLocked c")
    case True
    then show ?thesis
      unfolding updatePlayerDesktop_locked[OF True]
      by (simp add: finalGroundCheck_snd desktopMove_snd)
  next
    case False
    then show ?thesis by (simp add: updatePlayerDesktop_def)
  qed
  show "rightAxis (snd (updatePlayerDesktop field delta (pm, c))) = rightAxis c"
  proof (cases "isLocked c")
    case True
    then show ?thesis
      unfolding updatePlayerDesktop_locked[OF True]
      by (simp add: finalGroundCheck_snd desktopMove_snd)
  next
    case False
    then show ?thesis by (simp add: updatePlayerDesktop_def)
  qed
qed

lemma horizontalSpeed_scaled:
  assumes "0 \<le> k" "\<bar>xc w\<bar> \<le> k * \<bar>xc v\<bar>" "\<bar>zc w\<bar> \<le> k * \<bar>zc v\<bar>"
  shows "horizontalSpeed w \<le> k * horizontalSpeed v"
proof -
  have x: "xc w * xc w \<le> (k * k) * (xc v * xc v)"
  proof -
    have "\<bar>xc w\<bar> * \<bar>xc w\<bar> \<le> (k * \<bar>xc v\<bar>) * (k * \<bar>xc v\<bar>)"
      using assms(2) by (intro mult_mono) (simp_all add: assms(1))
    then show ?thesis by (simp add: algebra_simps abs_mult_self_eq)
  qed
  have z: "zc w * zc w \<le> (k * k) * (zc v * zc v)"
  proof -
    have "\<bar>zc w\<bar> * \<bar>zc w\<bar> \<le> (k * \<bar>zc v\<bar>) * (k * \<bar>zc v\<bar>)"
      using assms(3) by (intro mult_mono) (simp_all add: assms(1))
    then show ?thesis by (simp add: algebra_simps abs_mult_self_eq)
  qed
  have "xc w * xc w + zc w * zc w \<le> (k * k) * (xc v * xc v + zc v * zc v)"
    using x z by (simp add: algebra_simps)
  then have "horizontalSpeed w \<le> sqrt ((k * k) * (xc v * xc v + zc v * zc v))"
    unfolding horizontalSpeed_def by (rule real_sqrt_le_mono)
  also have "\<dots> = k * horizontalSpeed v"
    using assms(1) by (simp add: horizontalSpeed_def real_sqrt_mult)
  finally show ?thesis .
qed

lemma horizontalSpeed_nonneg: "0 \<le> horizontalSpeed v"
  by (simp add: horizontalSpeed_def)

lemma damped_abs: "\<bar>damped delta x\<bar> = \<bar>1 - friction physics * delta\<bar> * \<bar>x\<bar>"
proof -
  have "damped delta x = (1 - friction physics * delta) * x"
    by (simp add: damped_def algebra_simps)
  then show ?thesis by (simp add: abs_mult)
qed

lemma tick_keys_direction:
  "noDirectionHeld (keys (fst (updatePlayerDesktop field delta (pm, c)))) = noDirectionHeld (keys pm)"
proof (cases "isLocked c")
  case True
  then show ?thesis by (simp add: tick_fst(3) noDirectionHeld_def)
next
  case False
  then show ?thesis by (simp add: updatePlayerDesktop_def)
qed

lemma tick_noinput_component:
  assumes "isLocked c" "noDirectionHeld (keys pm)"
  shows "xc (playerVelocity (fst (updatePlayerDesktop field delta (pm, c))))
           = damped delta (xc (playerVelocity pm)) \<or>
         xc (playerVelocity (fst (updatePlayerDesktop field delta (pm, c)))) = 0"
    and "zc (playerVelocity (fst (updatePlayerDesktop field delta (pm, c))))
           = damped delta (zc (playerVelocity pm)) \<or>
         zc (playerVelocity (fst (updatePlayerDesktop field delta (pm, c)))) = 0"
  using assms by (simp_all add: tick_fst(1,2) noDirectionHeld_def)

lemma tick_noinput_speed:
  assumes "isLocked c" "noDirectionHeld (keys pm)"
  shows "horizontalSpeed (playerVelocity (fst (updatePlayerDesktop field delta (pm, c))))
           \<le> \<bar>1 - friction physics * delta\<bar> * horizontalSpeed (playerVelocity pm)"
proof (rule horizontalSpeed_scaled)
  show "0 \<le> \<bar>1 - friction physics * delta\<bar>" by simp
  from tick_noinput_component(1)[OF assms, of field delta]
  show "\<bar>xc (playerVelocity (fst (updatePlayerDesktop field delta (pm, c))))\<bar>
          \<le> \<bar>1 - friction physics * delta\<bar> * \<bar>xc (playerVelocity pm)\<bar>"
    by (auto simp: damped_abs)
  from tick_noinput_component(2)[OF assms, of field delta]
  show "\<bar>zc (playerVelocity (fst (updatePlayerDesktop field delta (pm, c))))\<bar>
          \<le> \<bar>1 - friction physics * delta\<bar> * \<bar>zc (playerVelocity pm)\<bar>"
    by (auto simp: damped_abs)
qed

lemma ticks_noinput_speed:
  assumes "isLocked c" "noDirectionHeld (keys pm)"
  shows "horizontalSpeed (playerVelocity (fst ((updatePlayerDesktop field delta ^^ n) (pm, c))))
           \<le> \<bar>1 - friction physics * delta\<bar> ^ n * horizontalSpeed (playerVelocity pm)
         \<and> isLocked (snd ((updatePlayerDesktop field delta ^^ n) (pm, c)))
         \<and> noDirectionHeld (keys (fst ((updatePlayerDesktop field delta ^^ n) (pm, c))))"
proof (induction n)
  case 0
  then show ?case using assms by simp
next
  case (Suc n)
  obtain pn cn where s: "(updatePlayerDesktop field delta ^^ n) (pm, c) = (pn, cn)"
    by (cases "(updatePlayerDesktop field delta ^^ n) (pm, c)")
  from Suc.IH s have ih: "horizontalSpeed (playerVelocity pn)
           \<le> \<bar>1 - friction physics * delta\<bar> ^ n * horizontalSpeed (playerVelocity pm)"
    and l: "isLocked cn" and k: "noDirectionHeld (keys pn)" by simp_all
  have "horizontalSpeed (playerVelocity (fst (updatePlayerDesktop field delta (pn, cn))))
          \<le> \<bar>1 - friction physics * delta\<bar> * horizontalSpeed (playerVelocity pn)"
    by (rule tick_noinput_speed[OF l k])
  also have "\<dots> \<le> \<bar>1 - friction physics * delta\<bar>
                    * (\<bar>1 - friction physics * delta\<bar> ^ n * horizontalSpeed (playerVelocity pm))"
    using ih by (intro mult_left_mono) simp_all
  finally have "horizontalSpeed (playerVelocity (fst (updatePlayerDesktop field delta (pn, cn))))
          \<le> \<bar>1 - friction physics * delta\<bar> ^ Suc n * horizontalSpeed (playerVelocity pm)"
    by (simp add: mult.assoc)
  then show ?case
    using s l k by (simp add: tick_snd tick_keys_direction)
qed

lemma damping_factor_small:
  assumes "0 < delta" "delta < 2 / friction physics"
  shows "\<bar>1 - friction physics * delta\<bar> < 1"
  using assms by (simp add: physics_def abs_less_iff)

lemma horizontalSpeed_damped:
  assumes "xc w = xc v - xc v * f * d" "zc w = zc v - zc v * f * d"
  shows "horizontalSpeed w = \<bar>1 - f * d\<bar> * horizontalSpeed v"
proof -
  have "xc w * xc w + zc w * zc w = ((1 - f * d) * (1 - f * d)) * (xc v * xc v + zc v * zc v)"
    unfolding assms by (simp add: algebra_simps)
  then have "horizontalSpeed w = sqrt (((1 - f * d) * (1 - f * d)) * (xc v * xc v + zc v * zc v))"
    by (simp add: horizontalSpeed_def)
  also have "\<dots> = sqrt ((1 - f * d) * (1 - f * d)) * sqrt (xc v * xc v + zc v * zc v)"
    by (rule real_sqrt_mult)
  also have "\<dots> = \<bar>1 - f * d\<bar> * horizontalSpeed v"
    by (simp only: real_sqrt_abs2 horizontalSpeed_def)
  finally show ?thesis .
qed

lemma tick_noinput_exact:
  assumes "isLocked c" "noDirectionHeld (keys pm)"
  shows "xc (playerVelocity (fst (updatePlayerDesktop field delta (pm, c))))
           = (if nearHit field (desktopProbe field delta (pm, c)) (vec 1 0 0) \<or>
                 nearHit field (desktopProbe field delta (pm, c)) (vec (-1) 0 0)
              then 0
              else xc (playerVelocity pm) - xc (playerVelocity pm) * friction physics * delta)"
    and "zc (playerVelocity (fst (updatePlayerDesktop field delta (pm, c))))
           = (if nearHit field (desktopProbe field delta (pm, c)) (vec 0 0 1) \<or>
                 nearHit field (desktopProbe field delta (pm, c)) (vec 0 0 (-1))
              then 0
              else zc (playerVelocity pm) - zc (playerVelocity pm) * friction physics * delta)"
  using assms(2) by (simp_all add: tick_fst(1,2)[OF assms(1)] noDirectionHeld_def damped_def)

lemma tick_noinput_free:
  assumes "isLocked c" "noDirectionHeld (keys pm)"
    and "\<not> nearHit field (desktopProbe field delta (pm, c)) (vec 1 0 0)"
    and "\<not> nearHit field (desktopProbe field delta (pm, c)) (vec (-1) 0 0)"
    and "\<not> nearHit field (desktopProbe field delta (pm, c)) (vec 0 0 1)"
    and "\<not> nearHit field (desktopProbe field delta (pm, c)) (vec 0 0 (-1))"
  shows "horizontalSpeed (playerVelocity (fst (updatePlayerDesktop field delta (pm, c))))
           = \<bar>1 - friction physics * delta\<bar> * horizontalSpeed (playerVelocity pm)"
  by (rule horizontalSpeed_damped)
     (simp_all add: tick_noinput_exact[OF assms(1,2)] assms(3-6))

text \<open>
  C5 (amended).  In a desktop tick with the pointer locked and no directional key held,
  each horizontal velocity component becomes exactly \<open>v - v * friction * delta\<close>, unless one
  of the two wall rays of its axis, cast from the check position the move has reached, hit
  nearer than the player's radius: then the collision loop has set the component to 0.
  When none of the four rays hit that near, the horizontal speed after the tick is exactly
  \<open>\<bar>1 - friction * delta\<bar>\<close> times the speed before.  For \<open>0 < delta < 2 / friction\<close> (that
  is, below 0.2 s) a non-zero horizontal speed strictly decreases in the tick, after \<open>n\<close>
  ticks it is at most \<open>\<bar>1 - friction * delta\<bar> ^ n\<close> times the initial speed, and for
  every positive bound there is a number of ticks after which it stays below the bound.
\<close>

theorem C5_friction_decay:
  assumes "isLocked c" and "noDirectionHeld (keys pm)"
    and "0 < delta" and "delta < 2 / friction physics"
  shows "xc (playerVelocity (fst (updatePlayerDesktop field delta (pm, c))))
           = (if nearHit field (desktopProbe field delta (pm, c)) (vec 1 0 0) \<or>
                 nearHit field (desktopProbe field delta (pm, c)) (vec (-1) 0 0)
              then 0
              else xc (playerVelocity pm) - xc (playerVelocity pm) * friction physics * delta) \<and>
         zc (playerVelocity (fst (updatePlayerDesktop field delta (pm, c))))
           = (if nearHit field (desktopProbe field delta (pm, c)) (vec 0 0 1) \<or>
                 nearHit field (desktopProbe field delta (pm, c)) (vec 0 0 (-1))
              then 0
              else zc (playerVelocity pm) - zc (playerVelocity pm) * friction physics * delta) \<and>
         (\<not> nearHit field (desktopProbe field delta (pm, c)) (vec 1 0 0) \<and>
          \<not> nearHit field (desktopProbe field delta (pm, c)) (vec (-1) 0 0) \<and>
          \<not> nearHit field (desktopProbe field delta (pm, c)) (vec 0 0 1) \<and>
          \<not> nearHit field (desktopProbe field delta (pm, c)) (vec 0 0 (-1)) \<longrightarrow>
            horizontalSpeed (playerVelocity (fst (updatePlayerDesktop field delta (pm, c))))
              = \<bar>1 - friction physics * delta\<bar> * horizontalSpeed (playerVelocity pm)) \<and>
         (horizontalSpeed (playerVelocity pm) \<noteq> 0 \<longrightarrow>
            horizontalSpeed (playerVelocity (fst (updatePlayerDesktop field delta (pm, c))))
              < horizontalSpeed (playerVelocity pm)) \<and>
         (\<forall>n. horizontalSpeed (playerVelocity (fst ((updatePlayerDesktop field delta ^^ n) (pm, c))))
                \<le> \<bar>1 - friction physics * delta\<bar> ^ n * horizontalSpeed (playerVelocity pm)) \<and>
         (\<forall>eps > 0. \<exists>N. \<forall>n \<ge> N.
             horizontalSpeed (playerVelocity (fst ((updatePlayerDesktop field delta ^^ n) (pm, c))))
               < eps)"
proof (intro conjI allI impI)
  let ?k = "\<bar>1 - friction physics * delta\<bar>"
  let ?s = "horizontalSpeed (playerVelocity pm)"
  have k1: "?k < 1" by (rule damping_factor_small[OF assms(3,4)])
  have k0: "0 \<le> ?k" by simp
  have s0: "0 \<le> ?s" by (rule horizontalSpeed_nonneg)
  show "xc (playerVelocity (fst (updatePlayerDesktop field delta (pm, c))))
           = (if nearHit field (desktopProbe field delta (pm, c)) (vec 1 0 0) \<or>
                 nearHit field (desktopProbe field delta (pm, c)) (vec (-1) 0 0)
              then 0
              else xc (playerVelocity pm) - xc (playerVelocity pm) * friction physics * delta)"
    by (rule tick_noinput_exact(1)[OF assms(1,2)])
  show "zc (playerVelocity (fst (updatePlayerDesktop field delta (pm, c))))
           = (if nearHit field (desktopProbe field delta (pm, c)) (vec 0 0 1) \<or>
                 nearHit field (desktopProbe field delta (pm, c)) (vec 0 0 (-1))
              then 0
              else zc (playerVelocity pm) - zc (playerVelocity pm) * friction physics * delta)"
    by (rule tick_noinput_exact(2)[OF assms(1,2)])
  {
    assume "\<not> nearHit field (desktopProbe field delta (pm, c)) (vec 1 0 0) \<and>
            \<not> nearHit field (desktopProbe field delta (pm, c)) (vec (-1) 0 0) \<and>
            \<not> nearHit field (desktopProbe field delta (pm, c)) (vec 0 0 1) \<and>
            \<not> nearHit field (desktopProbe field delta (pm, c)) (vec 0 0 (-1))"
    then show "horizontalSpeed (playerVelocity (fst (updatePlayerDesktop field delta (pm, c))))
                 = ?k * ?s"
      by (intro tick_noinput_free[OF assms(1,2)]) simp_all
  }
  {
    assume nz: "?s \<noteq> 0"
    with s0 have pos: "0 < ?s" by simp
    have "horizontalSpeed (playerVelocity (fst (updatePlayerDesktop field delta (pm, c)))) \<le> ?k * ?s"
      by (rule tick_noinput_speed[OF assms(1,2)])
    also have "?k * ?s < 1 * ?s"
      using k1 pos by (intro mult_strict_right_mono)
    finally show "horizontalSpeed (playerVelocity (fst (updatePlayerDesktop field delta (pm, c)))) < ?s"
      by simp
  }
  {
    fix n
    from ticks_noinput_speed[OF assms(1,2), where field=field and delta=delta and n=n]
    show "horizontalSpeed (playerVelocity (fst ((updatePlayerDesktop field delta ^^ n) (pm, c))))
            \<le> ?k ^ n * ?s" by simp
  }
  {
    fix eps :: real
    assume e: "0 < eps"
    have "0 < eps / (?s + 1)" using e s0 by simp
    from real_arch_pow_inv[OF this k1] obtain N where N: "?k ^ N < eps / (?s + 1)" by blast
    have "\<forall>n\<ge>N. horizontalSpeed (playerVelocity (fst ((updatePlayerDesktop field delta ^^ n) (pm, c)))) < eps"
    proof (intro allI impI)
      fix n assume "N \<le> n"
      then have "?k ^ n \<le> ?k ^ N"
        using k0 k1 by (intro power_decreasing) simp_all
      then have kn: "?k ^ n < eps / (?s + 1)" using N by simp
      from ticks_noinput_speed[OF assms(1,2), where field=field and delta=delta and n=n]
      have "horizontalSpeed (playerVelocity (fst ((updatePlayerDesktop field delta ^^ n) (pm, c))))
              \<le> ?k ^ n * ?s" by simp
      also have "\<dots> \<le> (eps / (?s + 1)) * ?s"
        using kn s0 by (intro mult_right_mono) simp_all
      also have "\<dots> < eps"
      proof -
        have "eps * ?s < eps * (?s + 1)" using e by simp
        then show ?thesis using s0 by (simp add: field_simps)
      qed
      finally show "horizontalSpeed (playerVelocity (fst ((updatePlayerDesktop field delta ^^ n) (pm, c)))) < eps" .
    qed
    then show "\<exists>N. \<forall>n\<ge>N. horizontalSpeed (playerVelocity (fst ((updatePlayerDesktop field delta ^^ n) (pm, c)))) < eps"
      by blast
  }
qed

lemma inputDirection_explicit:
  assumes "yc (playerDirection pm) = 0"
  shows "xc (inputDirection pm)
           = (of_bool (right (keys pm)) - of_bool (left (keys pm))) / inputNorm (keys pm)"
    and "zc (inputDirection pm)
           = (of_bool (forward (keys pm)) - of_bool (backward (keys pm))) / inputNorm (keys pm)"
    and "yc (inputDirection pm) = 0"
  using assms
  by (cases "forward (keys pm)"; cases "backward (keys pm)"; cases "left (keys pm)";
      cases "right (keys pm)";
      simp add: inputDirection_def normalize_def vlength_def inputNorm_def Let_def)+

lemma handleKeyDown_inv: "managerInv pm \<Longrightarrow> managerInv (handleKeyDown code pm)"
  by (simp add: managerInv_def handleKeyDown_def)

lemma handleKeyUp_inv: "managerInv pm \<Longrightarrow> managerInv (handleKeyUp code pm)"
  by (simp add: managerInv_def handleKeyUp_def)

lemma tick_inv:
  assumes "managerInv pm"
  shows "managerInv (fst (updatePlayerDesktop field delta (pm, c)))"
proof (cases "isLocked c")
  case True
  from assms have "yc (playerDirection pm) = 0" by (simp add: managerInv_def)
  then have "yc (inputDirection pm) = 0" by (rule inputDirection_explicit(3))
  then show ?thesis
    using assms by (simp add: managerInv_def tick_fst(3,4,5)[OF True])
next
  case False
  then show ?thesis using assms by (simp add: updatePlayerDesktop_def)
qed

lemma physicsStep_inv: "managerInv (fst s) \<Longrightarrow> managerInv (fst (physicsStep field e s))"
  by (cases e; cases s) (simp_all add: handleKeyDown_inv handleKeyUp_inv tick_inv)

lemma physicsRun_inv: "managerInv (fst s) \<Longrightarrow> managerInv (fst (physicsRun field es s))"
  unfolding physicsRun_def
  by (induction es arbitrary: s) (simp_all add: physicsStep_inv)

text \<open>
  C6 (amended).  After steps 1 to 3 of the desktop tick each horizontal velocity component
  is the damped one minus \<open>direction * currentMoveSpeed * delta\<close>: the quantity is
  subtracted, not added.  The direction is \<open>right - left\<close> (x) and \<open>forward - backward\<close> (z),
  divided by \<open>sqrt 2\<close> when both axes are driven.  Step 4 then moves the camera by the
  negated velocity: by \<open>- vx * delta\<close> along its right axis \<open>r\<close> and by \<open>- vz * delta\<close> along
  the cross product of the up vector with \<open>r\<close>, which is \<open>(zc r, 0, - xc r)\<close>, where \<open>vx\<close>
  and \<open>vz\<close> are the components just computed; so a camera whose right axis is the world's
  x axis is moved towards negative z by the forward key.  \<open>currentMoveSpeed\<close> is stored
  state: it is \<open>baseMoveSpeed\<close> in a new manager, \<open>baseMoveSpeed * sprintMultiplier\<close> after a
  key-down of the sprint key and \<open>baseMoveSpeed\<close> after its key-up, and a tick does not
  change it; so through every sequence of key events and ticks it is the sprint speed
  exactly while the sprint key is recorded as held.
\<close>

theorem C6_horizontal_input:
  "(yc (playerDirection pm) = 0 \<longrightarrow>
      xc (playerVelocity (fst (desktopMove field delta (pm, c))))
        = (xc (playerVelocity pm) - xc (playerVelocity pm) * friction physics * delta)
          - (of_bool (right (keys pm)) - of_bool (left (keys pm))) / inputNorm (keys pm)
            * currentMoveSpeed pm * delta \<and>
      zc (playerVelocity (fst (desktopMove field delta (pm, c))))
        = (zc (playerVelocity pm) - zc (playerVelocity pm) * friction physics * delta)
          - (of_bool (forward (keys pm)) - of_bool (backward (keys pm))) / inputNorm (keys pm)
            * currentMoveSpeed pm * delta) \<and>
   xc (position (snd (desktopMove field delta (pm, c))))
     = xc (position c)
       + xc (rightAxis c) * (- xc (playerVelocity (fst (desktopMove field delta (pm, c)))) * delta)
       + zc (rightAxis c) * (- zc (playerVelocity (fst (desktopMove field delta (pm, c)))) * delta) \<and>
   zc (position (snd (desktopMove field delta (pm, c))))
     = zc (position c)
       + zc (rightAxis c) * (- xc (playerVelocity (fst (desktopMove field delta (pm, c)))) * delta)
       - xc (rightAxis c) * (- zc (playerVelocity (fst (desktopMove field delta (pm, c)))) * delta) \<and>
   managerInv newPhysicsManager \<and>
   (managerInv pm \<longrightarrow>
      managerInv (fst (physicsRun field calls (pm, c))) \<and>
      currentMoveSpeed (handleKeyDown ''ShiftLeft'' pm)
        = baseMoveSpeed physics * sprintMultiplier physics \<and>
      currentMoveSpeed (handleKeyUp ''ShiftLeft'' pm) = baseMoveSpeed physics \<and>
      currentMoveSpeed (fst (updatePlayerDesktop field delta (pm, c))) = currentMoveSpeed pm)"
proof (intro conjI impI)
  assume y: "yc (playerDirection pm) = 0"
  show "xc (playerVelocity (fst (desktopMove field delta (pm, c))))
        = (xc (playerVelocity pm) - xc (playerVelocity pm) * friction physics * delta)
          - (of_bool (right (keys pm)) - of_bool (left (keys pm))) / inputNorm (keys pm)
            * currentMoveSpeed pm * delta"
    by (auto simp: desktopMove_fst damped_def inputDirection_explicit(1)[OF y])
  show "zc (playerVelocity (fst (desktopMove field delta (pm, c))))
        = (zc (playerVelocity pm) - zc (playerVelocity pm) * friction physics * delta)
          - (of_bool (forward (keys pm)) - of_bool (backward (keys pm))) / inputNorm (keys pm)
            * currentMoveSpeed pm * delta"
    by (auto simp: desktopMove_fst damped_def inputDirection_explicit(2)[OF y])
next
  show "xc (position (snd (desktopMove field delta (pm, c))))
     = xc (position c)
       + xc (rightAxis c) * (- xc (playerVelocity (fst (desktopMove field delta (pm, c)))) * delta)
       + zc (rightAxis c) * (- zc (playerVelocity (fst (desktopMove field delta (pm, c)))) * delta)"
    by (rule desktopMove_position(1))
next
  show "zc (position (snd (desktopMove field delta (pm, c))))
     = zc (position c)
       + zc (rightAxis c) * (- xc (playerVelocity (fst (desktopMove field delta (pm, c)))) * delta)
       - xc (rightAxis c) * (- zc (playerVelocity (fst (desktopMove field delta (pm, c)))) * delta)"
    by (rule desktopMove_position(2))
next
  show "managerInv newPhysicsManager"
    by (simp add: managerInv_def newPhysicsManager_def)
next
  assume inv: "managerInv pm"
  then show "managerInv (fst (physicsRun field calls (pm, c)))"
    by (simp add: physicsRun_inv)
  show "currentMoveSpeed (handleKeyDown ''ShiftLeft'' pm)
        = baseMoveSpeed physics * sprintMultiplier physics"
    by (simp add: handleKeyDown_def)
  show "currentMoveSpeed (handleKeyUp ''ShiftLeft'' pm) = baseMoveSpeed physics"
    by (simp add: handleKeyUp_def)
  show "currentMoveSpeed (fst (updatePlayerDesktop field delta (pm, c))) = currentMoveSpeed pm"
  proof (cases "isLocked c")
    case True
    then show ?thesis by (simp add: tick_fst(4))
  next
    case False
    then show ?thesis by (simp add: updatePlayerDesktop_def)
  qed
qed

lemma tickVelocityY_no_impulse:
  assumes "\<not> (localOnFloor field c \<and> jump (keys pm))" "0 \<le> delta"
  shows "tickVelocityY field delta (pm, c) \<le> max 0 (yc (playerVelocity pm))"
proof (cases "localOnFloor field c")
  case True
  with assms show ?thesis by (simp add: tickVelocityY_def)
next
  case False
  have "gravity physics * delta \<le> 0"
    using assms(2) by (simp add: physics_def mult_nonneg_nonneg)
  with False show ?thesis by (simp add: tickVelocityY_def)
qed

text \<open>
  C7.  A key-down of Space while the grounded flag is clear changes nothing, so no later
  call can tell it from no request at all; the pending-jump bit goes from clear to set only
  on a key-down of Space with the grounded flag set.  In a tick with the pointer locked
  that does not both detect the floor and find the bit set, the bit is left as it is and
  the vertical velocity does not rise above \<open>max 0\<close> of its old value (for
  \<open>delta \<ge> 0\<close>).  In a tick that detects the floor with the bit set, the vertical velocity
  is set to \<open>jumpVelocity\<close> and the bit is cleared.  A tick without pointer lock changes
  nothing.
\<close>

theorem C7_jump_gating:
  "(\<not> playerOnFloor pm \<longrightarrow>
      handleKeyDown ''Space'' pm = pm \<and>
      physicsRun field calls (handleKeyDown ''Space'' pm, c) = physicsRun field calls (pm, c)) \<and>
   (jump (keys (handleKeyDown code pm)) \<and> \<not> jump (keys pm) \<longrightarrow>
      code = ''Space'' \<and> playerOnFloor pm) \<and>
   (isLocked c \<and> \<not> (localOnFloor field c \<and> jump (keys pm)) \<and> 0 \<le> delta \<longrightarrow>
      jump (keys (fst (updatePlayerDesktop field delta (pm, c)))) = jump (keys pm) \<and>
      yc (playerVelocity (fst (updatePlayerDesktop field delta (pm, c))))
        \<le> max 0 (yc (playerVelocity pm))) \<and>
   (isLocked c \<and> localOnFloor field c \<and> jump (keys pm) \<longrightarrow>
      yc (playerVelocity (fst (updatePlayerDesktop field delta (pm, c)))) = jumpVelocity physics \<and>
      \<not> jump (keys (fst (updatePlayerDesktop field delta (pm, c))))) \<and>
   (\<not> isLocked c \<longrightarrow> updatePlayerDesktop field delta (pm, c) = (pm, c))"
proof (intro conjI impI)
  assume a: "\<not> playerOnFloor pm"
  then show k: "handleKeyDown ''Space'' pm = pm" by (simp add: handleKeyDown_def)
  show "physicsRun field calls (handleKeyDown ''Space'' pm, c) = physicsRun field calls (pm, c)"
    by (simp only: k)
next
  assume "jump (keys (handleKeyDown code pm)) \<and> \<not> jump (keys pm)"
  then show "code = ''Space''" "playerOnFloor pm"
    by (auto simp: handleKeyDown_def split: if_splits)
next
  assume a: "isLocked c \<and> \<not> (localOnFloor field c \<and> jump (keys pm)) \<and> 0 \<le> delta"
  then have l: "isLocked c" by simp
  from a show "jump (keys (fst (updatePlayerDesktop field delta (pm, c)))) = jump (keys pm)"
    by (auto simp: tick_fst(3)[OF l])
  from a have "tickVelocityY field delta (pm, c) \<le> max 0 (yc (playerVelocity pm))"
    by (intro tickVelocityY_no_impulse) simp_all
  with tick_vy[OF l, of field delta pm]
  show "yc (playerVelocity (fst (updatePlayerDesktop field delta (pm, c))))
        \<le> max 0 (yc (playerVelocity pm))" by auto
next
  assume a: "isLocked c \<and> localOnFloor field c \<and> jump (keys pm)"
  then have l: "isLocked c" by simp
  from a have "tickVelocityY field delta (pm, c) = jumpVelocity physics"
    by (simp add: tickVelocityY_def)
  with tick_vy[OF l, of field delta pm]
  show "yc (playerVelocity (fst (updatePlayerDesktop field delta (pm, c)))) = jumpVelocity physics"
    by (auto simp: physics_def)
  from a show "\<not> jump (keys (fst (updatePlayerDesktop field delta (pm, c))))"
    by (simp add: tick_fst(3)[OF l])
next
  assume "\<not> isLocked c"
  then show "updatePlayerDesktop field delta (pm, c) = (pm, c)"
    by (simp add: updatePlayerDesktop_def)
qed

lemma desktop_resolved:
  assumes "isLocked c"
  shows "xc (position (snd (updatePlayerDesktop field delta (pm, c))))
           = resolvedX field (desktopProbe field delta (pm, c))"
    and "zc (position (snd (updatePlayerDesktop field delta (pm, c))))
           = resolvedZ field (desktopProbe field delta (pm, c))"
  unfolding updatePlayerDesktop_locked[OF assms]
  by (simp_all add: finalGroundCheck_snd collisionResolution_eq resolvedX_def resolvedZ_def
                    desktopProbe_def desktopCheckPos_def)

lemma vrFinalFloorCheck_xz:
  "xc (rigPosition (snd (vrFinalFloorCheck field (p, r)))) = xc (rigPosition r)"
  "zc (rigPosition (snd (vrFinalFloorCheck field (p, r)))) = zc (rigPosition r)"
  "xc (playerVelocity (fst (vrFinalFloorCheck field (p, r)))) = xc (playerVelocity p)"
  "zc (playerVelocity (fst (vrFinalFloorCheck field (p, r)))) = zc (playerVelocity p)"
  by (simp_all add: vrFinalFloorCheck_def Let_def)

lemma updatePlayerVR_eq:
  "updatePlayerVR field delta camera cs (pm, rig) =
     vrFinalFloorCheck field
       ((fst (vrMove field delta camera cs (pm, rig)))
          \<lparr>playerVelocity :=
             fst (collisionResolution field (vrProbe field delta camera cs (pm, rig))
                    (playerVelocity (fst (vrMove field delta camera cs (pm, rig))),
                     rigPosition (snd (vrMove field delta camera cs (pm, rig)))))\<rparr>,
        (snd (vrMove field delta camera cs (pm, rig)))
          \<lparr>rigPosition :=
             snd (collisionResolution field (vrProbe field delta camera cs (pm, rig))
                    (playerVelocity (fst (vrMove field delta camera cs (pm, rig))),
                     rigPosition (snd (vrMove field delta camera cs (pm, rig)))))\<rparr>)"
  by (simp add: updatePlayerVR_def vrProbe_def Let_def split: prod.splits)

lemma vr_resolved:
  "xc (rigPosition (snd (updatePlayerVR field delta camera cs (pm, rig))))
     = resolvedX field (vrProbe field delta camera cs (pm, rig))"
  "zc (rigPosition (snd (updatePlayerVR field delta camera cs (pm, rig))))
     = resolvedZ field (vrProbe field delta camera cs (pm, rig))"
  "nearHit field (vrProbe field delta camera cs (pm, rig)) (vec 1 0 0) \<or>
   nearHit field (vrProbe field delta camera cs (pm, rig)) (vec (-1) 0 0) \<Longrightarrow>
     xc (playerVelocity (fst (updatePlayerVR field delta camera cs (pm, rig)))) = 0"
  "nearHit field (vrProbe field delta camera cs (pm, rig)) (vec 0 0 1) \<or>
   nearHit field (vrProbe field delta camera cs (pm, rig)) (vec 0 0 (-1)) \<Longrightarrow>
     zc (playerVelocity (fst (updatePlayerVR field delta camera cs (pm, rig)))) = 0"
  unfolding updatePlayerVR_eq
  by (simp_all add: vrFinalFloorCheck_xz collisionResolution_eq resolvedX_def resolvedZ_def)
     (simp_all add: vrProbe_def vrCheckPos_def vadd_def)

lemma resolved_clearance:
  "nearHit field p (vec 1 0 0) \<Longrightarrow> \<not> nearHit field p (vec (-1) 0 0) \<Longrightarrow>
     (xc p + distance (hd (field p (vec 1 0 0)))) - resolvedX field p = playerRadius physics + 0.01"
  "\<not> nearHit field p (vec 1 0 0) \<Longrightarrow> nearHit field p (vec (-1) 0 0) \<Longrightarrow>
     resolvedX field p - (xc p - distance (hd (field p (vec (-1) 0 0)))) = playerRadius physics + 0.01"
  "nearHit field p (vec 0 0 1) \<Longrightarrow> \<not> nearHit field p (vec 0 0 (-1)) \<Longrightarrow>
     (zc p + distance (hd (field p (vec 0 0 1)))) - resolvedZ field p = playerRadius physics + 0.01"
  "\<not> nearHit field p (vec 0 0 1) \<Longrightarrow> nearHit field p (vec 0 0 (-1)) \<Longrightarrow>
     resolvedZ field p - (zc p - distance (hd (field p (vec 0 0 (-1))))) = playerRadius physics + 0.01"
  "\<not> nearHit field p (vec 1 0 0) \<Longrightarrow> \<not> nearHit field p (vec (-1) 0 0) \<Longrightarrow> resolvedX field p = xc p"
  "\<not> nearHit field p (vec 0 0 1) \<Longrightarrow> \<not> nearHit field p (vec 0 0 (-1)) \<Longrightarrow> resolvedZ field p = zc p"
  by (simp_all add: resolvedX_def resolvedZ_def pushBack_def)

text \<open>
  C1 (amended).  In both ticks the four rays are cast from the check position \<open>p\<close> reached
  by the move of the same tick.  The final horizontal position is \<open>resolvedX\<close> and
  \<open>resolvedZ\<close> of \<open>p\<close>, and a velocity component is 0 when a ray of its axis hit nearer than
  \<open>playerRadius\<close>.  On an axis where exactly one of the two opposite rays hit nearer than
  \<open>playerRadius\<close>, the player ends exactly \<open>playerRadius + 0.01\<close> from that hit along the
  axis; where neither did, the coordinate is not changed.  Nothing is promised where both
  opposite rays hit, nor for geometry that none of the four rays meets.
\<close>

theorem C1_wall_pushback:
  "(isLocked c \<longrightarrow>
      xc (position (snd (updatePlayerDesktop field delta (pm, c))))
        = resolvedX field (desktopProbe field delta (pm, c)) \<and>
      zc (position (snd (updatePlayerDesktop field delta (pm, c))))
        = resolvedZ field (desktopProbe field delta (pm, c)) \<and>
      (nearHit field (desktopProbe field delta (pm, c)) (vec 1 0 0) \<or>
       nearHit field (desktopProbe field delta (pm, c)) (vec (-1) 0 0) \<longrightarrow>
         xc (playerVelocity (fst (updatePlayerDesktop field delta (pm, c)))) = 0) \<and>
      (nearHit field (desktopProbe field delta (pm, c)) (vec 0 0 1) \<or>
       nearHit field (desktopProbe field delta (pm, c)) (vec 0 0 (-1)) \<longrightarrow>
         zc (playerVelocity (fst (updatePlayerDesktop field delta (pm, c)))) = 0)) \<and>
   xc (rigPosition (snd (updatePlayerVR field delta camera cs (pm, rig))))
     = resolvedX field (vrProbe field delta camera cs (pm, rig)) \<and>
   zc (rigPosition (snd (updatePlayerVR field delta camera cs (pm, rig))))
     = resolvedZ field (vrProbe field delta camera cs (pm, rig)) \<and>
   (nearHit field (vrProbe field delta camera cs (pm, rig)) (vec 1 0 0) \<or>
    nearHit field (vrProbe field delta camera cs (pm, rig)) (vec (-1) 0 0) \<longrightarrow>
      xc (playerVelocity (fst (updatePlayerVR field delta camera cs (pm, rig)))) = 0) \<and>
   (nearHit field (vrProbe field delta camera cs (pm, rig)) (vec 0 0 1) \<or>
    nearHit field (vrProbe field delta camera cs (pm, rig)) (vec 0 0 (-1)) \<longrightarrow>
      zc (playerVelocity (fst (updatePlayerVR field delta camera cs (pm, rig)))) = 0) \<and>
   (nearHit field p (vec 1 0 0) \<and> \<not> nearHit field p (vec (-1) 0 0) \<longrightarrow>
      (xc p + distance (hd (field p (vec 1 0 0)))) - resolvedX field p
        = playerRadius physics + 0.01) \<and>
   (\<not> nearHit field p (vec 1 0 0) \<and> nearHit field p (vec (-1) 0 0) \<longrightarrow>
      resolvedX field p - (xc p - distance (hd (field p (vec (-1) 0 0))))
        = playerRadius physics + 0.01) \<and>
   (nearHit field p (vec 0 0 1) \<and> \<not> nearHit field p (vec 0 0 (-1)) \<longrightarrow>
      (zc p + distance (hd (field p (vec 0 0 1)))) - resolvedZ field p
        = playerRadius physics + 0.01) \<and>
   (\<not> nearHit field p (vec 0 0 1) \<and> nearHit field p (vec 0 0 (-1)) \<longrightarrow>
      resolvedZ field p - (zc p - distance (hd (field p (vec 0 0 (-1)))))
        = playerRadius physics + 0.01) \<and>
   (\<not> nearHit field p (vec 1 0 0) \<and> \<not> nearHit field p (vec (-1) 0 0) \<longrightarrow>
      resolvedX field p = xc p) \<and>
   (\<not> nearHit field p (vec 0 0 1) \<and> \<not> nearHit field p (vec 0 0 (-1)) \<longrightarrow>
      resolvedZ field p = zc p)"
proof (intro conjI impI)
  assume l: "isLocked c"
  show "xc (position (snd (updatePlayerDesktop field delta (pm, c))))
        = resolvedX field (desktopProbe field delta (pm, c))"
    by (rule desktop_resolved(1)[OF l])
  show "zc (position (snd (updatePlayerDesktop field delta (pm, c))))
        = resolvedZ field (desktopProbe field delta (pm, c))"
    by (rule desktop_resolved(2)[OF l])
  {
    assume "nearHit field (desktopProbe field delta (pm, c)) (vec 1 0 0) \<or>
            nearHit field (desktopProbe field delta (pm, c)) (vec (-1) 0 0)"
    then show "xc (playerVelocity (fst (updatePlayerDesktop field delta (pm, c)))) = 0"
      by (simp add: tick_fst(1)[OF l])
  }
  {
    assume "nearHit field (desktopProbe field delta (pm, c)) (vec 0 0 1) \<or>
            nearHit field (desktopProbe field delta (pm, c)) (vec 0 0 (-1))"
    then show "zc (playerVelocity (fst (updatePlayerDesktop field delta (pm, c)))) = 0"
      by (simp add: tick_fst(2)[OF l])
  }
qed (simp_all add: vr_resolved resolved_clearance)

lemmas eval_defs = desktopProbe_def desktopMove_def verticalMovement_def localOnFloor_def
  corridorField_def openField_def newPhysicsManager_def lockedControls_def outsideControls_def
  applyFriction_def horizontalInput_def inputDirection_def normalize_def vlength_def
  moveRight_def moveForward_def cross_def vadd_def multiplyScalar_def desktopCheckPos_def
  physics_def Let_def vec_def

lemma probe_outside:
  "desktopProbe corridorField (1/64) (newPhysicsManager, outsideControls) = vec 0.5 0.8 0"
  by (simp add: eval_defs)

lemma probe_inside:
  "desktopProbe corridorField (1/64) (newPhysicsManager, lockedControls) = vec 0 0.8 0"
  by (simp add: eval_defs)

lemma near_outside:
  "\<not> nearHit corridorField (vec 0.5 0.8 0) (vec 1 0 0)"
  "nearHit corridorField (vec 0.5 0.8 0) (vec (-1) 0 0)"
  by (simp_all add: nearHit_def corridorField_def vec_def wallHit_def physics_def)

lemma resolved_inside: "resolvedX corridorField (vec 0 0.8 0) = 0"
  by (simp add: resolvedX_def pushBack_def nearHit_def corridorField_def vec_def wallHit_def
                physics_def)

lemma vr_probe_origin:
  "vrProbe corridorField (1/64) levelCamera [] (newPhysicsManager, rigAtOrigin)
     = vec 0 (21/20) 0"
  by (simp add: vrProbe_def vrCheckPos_def vrMove_def pickGamepads_def vrVertical_def
                vrMoveInput_def vrTurn_def corridorField_def levelCamera_def rigAtOrigin_def
                newPhysicsManager_def applyFriction_def normalize_def vlength_def cross_def
                multiplyScalar_def vadd_def vec_def Let_def physics_def vr_def)

lemma near_origin:
  "nearHit corridorField (vec 0 (21/20) 0) (vec 1 0 0)"
  "resolvedX corridorField (vec 0 (21/20) 0) = 0"
  by (simp_all add: resolvedX_def pushBack_def nearHit_def corridorField_def vec_def wallHit_def
                    physics_def)

text \<open>
  The theorem for a desktop player standing at \<open>x = 0.5\<close>, 0.3 to the right of the wall
  \<open>x = 0.2\<close>, whom the tick moves to \<open>resolvedX\<close>, 0.41 from the wall; and for a VR rig
  at the origin, between the two walls.
\<close>

theorem C1_wall_pushback_witness:
  "isLocked outsideControls \<and>
   \<not> nearHit corridorField (desktopProbe corridorField (1/64) (newPhysicsManager, outsideControls)) (vec 1 0 0) \<and>
   nearHit corridorField (desktopProbe corridorField (1/64) (newPhysicsManager, outsideControls)) (vec (-1) 0 0) \<and>
   xc (position (snd (updatePlayerDesktop corridorField (1/64) (newPhysicsManager, outsideControls))))
     = resolvedX corridorField (vec 0.5 0.8 0) \<and>
   resolvedX corridorField (vec 0.5 0.8 0)
     - (0.5 - distance (hd (corridorField (vec 0.5 0.8 0) (vec (-1) 0 0))))
       = playerRadius physics + 0.01 \<and>
   xc (playerVelocity (fst (updatePlayerDesktop corridorField (1/64)
                              (newPhysicsManager, outsideControls)))) = 0 \<and>
   nearHit corridorField (vrProbe corridorField (1/64) levelCamera [] (newPhysicsManager, rigAtOrigin))
     (vec 1 0 0) \<and>
   xc (playerVelocity (fst (updatePlayerVR corridorField (1/64) levelCamera []
                              (newPhysicsManager, rigAtOrigin)))) = 0 \<and>
   xc (rigPosition (snd (updatePlayerVR corridorField (1/64) levelCamera []
                           (newPhysicsManager, rigAtOrigin)))) = 0"
proof -
  have l: "isLocked outsideControls" by (simp add: outsideControls_def)
  from C1_wall_pushback[of outsideControls corridorField "1/64" newPhysicsManager
                           levelCamera "[]" rigAtOrigin "vec 0.5 0.8 0"]
       l near_outside near_origin
  show ?thesis unfolding probe_outside vr_probe_origin by simp
qed

text \<open>
  C1 as stated fails between two walls closer together than the player's diameter: the
  player standing in the middle of the corridor is pushed away from one wall and back
  towards it by the opposite ray of the same tick, and ends the tick 0.2 from the wall,
  less than \<open>playerRadius - 0.1\<close>.
\<close>

theorem C1_counterexample:
  "isLocked lockedControls \<and>
   xc (position (snd (updatePlayerDesktop corridorField (1/64) (newPhysicsManager, lockedControls))))
     = 0 \<and>
   distance (hd (corridorField
       (desktopCheckPos (snd (updatePlayerDesktop corridorField (1/64)
                                (newPhysicsManager, lockedControls))))
       (vec 1 0 0))) = 0.2 \<and>
   (0.2 :: real) < playerRadius physics - 0.1"
proof -
  have l: "isLocked lockedControls" by (simp add: lockedControls_def)
  have p: "xc (position (snd (updatePlayerDesktop corridorField (1/64) (newPhysicsManager, lockedControls))))
             = 0"
    by (simp only: desktop_resolved(1)[OF l] probe_inside resolved_inside)
  show ?thesis
    by (simp add: l p desktopCheckPos_def corridorField_def wallHit_def physics_def vec_def)
qed

lemma near_open: "\<not> nearHit openField p d"
  by (simp add: nearHit_def openField_def)

lemma sliding_facts:
  "isLocked lockedControls" "noDirectionHeld (keys slidingManager)"
  "xc (playerVelocity slidingManager) = 1" "zc (playerVelocity slidingManager) = 0"
  by (simp_all add: lockedControls_def slidingManager_def newPhysicsManager_def noDirectionHeld_def)

lemma sliding_tick:
  "xc (playerVelocity (fst (updatePlayerDesktop openField delta (slidingManager, lockedControls))))
     = 1 - 10 * delta"
  "zc (playerVelocity (fst (updatePlayerDesktop openField delta (slidingManager, lockedControls))))
     = 0"
  using sliding_facts(2)
  by (simp_all add: tick_fst(1,2)[OF sliding_facts(1)] near_open sliding_facts(3,4) damped_def
                    physics_def noDirectionHeld_def)

text \<open>
  C5 as stated fails for a long frame: with \<open>delta = 1/4\<close>, no key held and no collider,
  a velocity of 1 along x becomes \<open>-3/2\<close>, so the speed grows.
\<close>

theorem C5_counterexample:
  "isLocked lockedControls \<and> noDirectionHeld (keys slidingManager) \<and> (0::real) < 1/4 \<and>
   xc (playerVelocity (fst (updatePlayerDesktop openField (1/4) (slidingManager, lockedControls))))
     = - (3/2) \<and>
   \<not> horizontalSpeed (playerVelocity (fst (updatePlayerDesktop openField (1/4)
                                            (slidingManager, lockedControls))))
       < horizontalSpeed (playerVelocity slidingManager)"
  by (simp add: sliding_facts sliding_tick horizontalSpeed_def)

text \<open>The theorem on a frame of 1/16 s with the same sliding player, no collider near.\<close>

theorem C5_friction_decay_witness:
  "isLocked lockedControls \<and> noDirectionHeld (keys slidingManager) \<and> (0::real) < 1/16 \<and>
   (1/16 :: real) < 2 / friction physics \<and>
   horizontalSpeed (playerVelocity slidingManager) \<noteq> 0 \<and>
   xc (playerVelocity (fst (updatePlayerDesktop openField (1/16)
                              (slidingManager, lockedControls)))) = 3/8 \<and>
   zc (playerVelocity (fst (updatePlayerDesktop openField (1/16)
                              (slidingManager, lockedControls)))) = 0 \<and>
   horizontalSpeed (playerVelocity (fst (updatePlayerDesktop openField (1/16)
                                          (slidingManager, lockedControls))))
     < horizontalSpeed (playerVelocity slidingManager)"
proof -
  have d: "(0::real) < 1/16" "(1/16 :: real) < 2 / friction physics"
    by (simp_all add: physics_def)
  have s: "horizontalSpeed (playerVelocity slidingManager) \<noteq> 0"
    by (simp add: horizontalSpeed_def sliding_facts)
  have f: "friction physics = 10"
    by (simp add: physics_def)
  from C5_friction_decay[OF sliding_facts(1,2) d, of openField] s d sliding_facts
  show ?thesis by (simp add: near_open f)
qed

lemma forward_facts:
  "yc (playerDirection forwardManager) = 0" "forward (keys forwardManager)"
  "\<not> backward (keys forwardManager)" "\<not> left (keys forwardManager)"
  "\<not> right (keys forwardManager)" "currentMoveSpeed forwardManager = 20"
  "zc (playerVelocity forwardManager) = 0" "managerInv forwardManager"
  by (simp_all add: forwardManager_def handleKeyDown_def newPhysicsManager_def physics_def
                    managerInv_def)

lemma forward_direction: "zc (inputDirection forwardManager) = 1"
  by (simp add: inputDirection_explicit(2)[OF forward_facts(1)] forward_facts inputNorm_def)

lemma forward_vx: "xc (playerVelocity forwardManager) = 0"
  by (simp add: forwardManager_def handleKeyDown_def newPhysicsManager_def)

text \<open>
  C6 as stated fails: with only the forward key held, zero velocity and \<open>delta = 1/4\<close> the
  quantity \<open>direction * currentMoveSpeed * delta\<close> is 5, and the z velocity after the input
  step (and after the whole tick without colliders) is \<open>-5\<close>, not 5.
\<close>

theorem C6_counterexample:
  "forward (keys forwardManager) \<and>
   zc (inputDirection forwardManager) * currentMoveSpeed forwardManager * (1/4) = 5 \<and>
   zc (playerVelocity (horizontalInput (1/4) forwardManager)) = - 5 \<and>
   zc (playerVelocity (horizontalInput (1/4) forwardManager))
     \<noteq> zc (playerVelocity forwardManager)
         + zc (inputDirection forwardManager) * currentMoveSpeed forwardManager * (1/4) \<and>
   zc (playerVelocity (fst (updatePlayerDesktop openField (1/4) (forwardManager, lockedControls))))
     = - 5"
  by (simp add: horizontalInput_eq forward_facts forward_direction
                tick_fst(2)[OF sliding_facts(1)] near_open damped_def)

text \<open>The theorem for the forward key, and for a run that presses and releases sprint.\<close>

theorem C6_horizontal_input_witness:
  "yc (playerDirection forwardManager) = 0 \<and> managerInv forwardManager \<and>
   zc (playerVelocity (fst (desktopMove openField (1/4) (forwardManager, lockedControls)))) = - 5 \<and>
   xc (position (snd (desktopMove openField (1/4) (forwardManager, lockedControls)))) = 0 \<and>
   zc (position (snd (desktopMove openField (1/4) (forwardManager, lockedControls)))) = - (5/4) \<and>
   managerInv (fst (physicsRun openField [KeyDown ''ShiftLeft'', Tick (1/4), KeyUp ''ShiftLeft'']
                      (forwardManager, lockedControls)))"
proof -
  from C6_horizontal_input[of forwardManager openField "1/4" lockedControls
         "[KeyDown ''ShiftLeft'', Tick (1/4), KeyUp ''ShiftLeft'']"]
       forward_facts forward_vx
  show ?thesis by (simp add: inputNorm_def lockedControls_def vec_def)
qed

lemma floor_facts:
  "localOnFloor corridorField lockedControls" "\<not> localOnFloor openField lockedControls"
  by (simp_all add: localOnFloor_def corridorField_def openField_def lockedControls_def
                    physics_def vec_def Let_def)

text \<open>
  The theorem for an airborne player without colliders, for a player standing on the floor
  of the corridor who pressed Space, and for a tick without pointer lock.
\<close>

theorem C7_jump_gating_witness:
  "\<not> playerOnFloor newPhysicsManager \<and>
   handleKeyDown ''Space'' newPhysicsManager = newPhysicsManager \<and>
   isLocked lockedControls \<and> \<not> localOnFloor openField lockedControls \<and>
   yc (playerVelocity (fst (updatePlayerDesktop openField (1/64)
                              (newPhysicsManager, lockedControls)))) \<le> 0 \<and>
   localOnFloor corridorField lockedControls \<and>
   playerOnFloor (reset newPhysicsManager) \<and>
   \<not> jump (keys (reset newPhysicsManager)) \<and>
   jump (keys (handleKeyDown ''Space'' (reset newPhysicsManager))) \<and>
   yc (playerVelocity (fst (updatePlayerDesktop corridorField (1/64)
        (handleKeyDown ''Space'' (reset newPhysicsManager), lockedControls)))) = 6 \<and>
   \<not> jump (keys (fst (updatePlayerDesktop corridorField (1/64)
        (handleKeyDown ''Space'' (reset newPhysicsManager), lockedControls)))) \<and>
   \<not> isLocked (lockedControls\<lparr>isLocked := False\<rparr>) \<and>
   updatePlayerDesktop corridorField (1/64)
     (newPhysicsManager, lockedControls\<lparr>isLocked := False\<rparr>)
     = (newPhysicsManager, lockedControls\<lparr>isLocked := False\<rparr>)"
proof -
  have a: "\<not> playerOnFloor newPhysicsManager" "yc (playerVelocity newPhysicsManager) = 0"
    "\<not> jump (keys newPhysicsManager)"
    by (simp_all add: newPhysicsManager_def)
  have g: "playerOnFloor (reset newPhysicsManager)"
    "\<not> jump (keys (reset newPhysicsManager))"
    "jump (keys (handleKeyDown ''Space'' (reset newPhysicsManager)))"
    by (simp_all add: reset_def handleKeyDown_def)
  have u: "\<not> isLocked (lockedControls\<lparr>isLocked := False\<rparr>)" by simp
  from C7_jump_gating[of newPhysicsManager openField "[]" lockedControls "''Space''" "1/64"]
       a floor_facts sliding_facts(1)
  have air: "handleKeyDown ''Space'' newPhysicsManager = newPhysicsManager"
    "yc (playerVelocity (fst (updatePlayerDesktop openField (1/64)
                              (newPhysicsManager, lockedControls)))) \<le> 0"
    by simp_all
  from C7_jump_gating[of "handleKeyDown ''Space'' (reset newPhysicsManager)" corridorField "[]"
                         lockedControls "''Space''" "1/64"]
       g floor_facts sliding_facts(1)
  have ground: "yc (playerVelocity (fst (updatePlayerDesktop corridorField (1/64)
        (handleKeyDown ''Space'' (reset newPhysicsManager), lockedControls)))) = 6"
    "\<not> jump (keys (fst (updatePlayerDesktop corridorField (1/64)
        (handleKeyDown ''Space'' (reset newPhysicsManager), lockedControls))))"
    by (simp_all add: physics_def)
  from C7_jump_gating[of newPhysicsManager corridorField "[]"
                         "lockedControls\<lparr>isLocked := False\<rparr>" "''Space''" "1/64"] u
  have unlocked: "updatePlayerDesktop corridorField (1/64)
     (newPhysicsManager, lockedControls\<lparr>isLocked := False\<rparr>)
     = (newPhysicsManager, lockedControls\<lparr>isLocked := False\<rparr>)"
    by blast
  from a g air ground unlocked floor_facts sliding_facts(1) show ?thesis by simp
qed

section \<open>Properties of the SequenceManager\<close>

lemma on_frames [simp]:
  "currentScene (onUI f s) = currentScene s" "isVR (onUI f s) = isVR s"
  "reloadCalled (onUI f s) = reloadCalled s" "modelLoader (onUI f s) = modelLoader s"
  "cameraManager (onUI f s) = cameraManager s" "audioManager (onUI f s) = audioManager s"
  "uiManager (onUI f s) = f (uiManager s)"
  "currentScene (onModels g s) = currentScene s" "isVR (onModels g s) = isVR s"
  "reloadCalled (onModels g s) = reloadCalled s" "modelLoader (onModels g s) = g (modelLoader s)"
  "cameraManager (onModels g s) = cameraManager s" "audioManager (onModels g s) = audioManager s"
  "uiManager (onModels g s) = uiManager s"
  "currentScene (onCamera h s) = currentScene s" "isVR (onCamera h s) = isVR s"
  "reloadCalled (onCamera h s) = reloadCalled s" "modelLoader (onCamera h s) = modelLoader s"
  "cameraManager (onCamera h s) = h (cameraManager s)" "audioManager (onCamera h s) = audioManager s"
  "uiManager (onCamera h s) = uiManager s"
  "currentScene (onAudio k s) = currentScene s" "isVR (onAudio k s) = isVR s"
  "reloadCalled (onAudio k s) = reloadCalled s" "modelLoader (onAudio k s) = modelLoader s"
  "cameraManager (onAudio k s) = cameraManager s" "audioManager (onAudio k s) = k (audioManager s)"
  "uiManager (onAudio k s) = uiManager s"
  by (simp_all add: onUI_def onModels_def onCamera_def onAudio_def)

lemma sameSession_refl [simp]: "sameSession s s"
  by (simp add: sameSession_def)

lemma sameSession_on [simp]:
  "sameSession s (onUI f t) = sameSession s t" "sameSession s (onModels g t) = sameSession s t"
  "sameSession s (onCamera h t) = sameSession s t" "sameSession s (onAudio k t) = sameSession s t"
  by (simp_all add: sameSession_def)

lemma awaitLoads_session [simp]: "sameSession s (snd (awaitLoads env rs t)) = sameSession s t"
  by (simp add: awaitLoads_def sameSession_def split: prod.splits)


lemma variantScene1_session [simp]:
  "sameSession s (snd (variantScene1 env i t)) = sameSession s t"
  by (simp add: variantScene1_def Let_def)

lemma variantScene2_session [simp]:
  "sameSession s (snd (variantScene2 env i t)) = sameSession s t"
  by (simp add: variantScene2_def Let_def)

lemma variantScene4_session [simp]:
  "sameSession s (snd (variantScene4 env i t)) = sameSession s t"
  by (simp add: variantScene4_def Let_def split: option.splits prod.splits)

lemma handleVariantClick_session [simp]:
  "sameSession s (snd (handleVariantClick env i t)) = sameSession s t"
  by (simp add: handleVariantClick_def Let_def)

lemma handleVariantClick_eq:
  "handleVariantClick env index s =
     (if currentScene s = 1 then variantScene1 env index (onUI (selectToggleButton index) s)
      else if currentScene s = 2 then variantScene2 env index (onUI (selectToggleButton index) s)
      else if currentScene s = 4 then variantScene4 env index (onUI (selectToggleButton index) s)
      else (None, onUI (selectToggleButton index) s))"
  by (simp add: handleVariantClick_def Let_def)

lemma setVisibleFirst_urls: "map modelUrl (setVisibleFirst i v ms) = map modelUrl ms"
  by (induction ms) simp_all

lemma setModelVisibility_urls:
  "map modelUrl (loadedModels (setModelVisibility i v ml)) = map modelUrl (loadedModels ml)"
  by (simp add: setModelVisibility_def setVisibleFirst_urls)

lemma loadedUrls_visibility:
  "loadedUrls (onModels (setModelVisibility i v) s) = loadedUrls s"
  unfolding loadedUrls_def onModels_def
  by (simp add: setModelVisibility_urls del: mset_map)

lemma loadedUrls_frames [simp]:
  "loadedUrls (onUI f s) = loadedUrls s" "loadedUrls (onCamera h s) = loadedUrls s"
  "loadedUrls (onAudio k s) = loadedUrls s"
  "loadedUrls (onModels (setModelVisibility i v) s) = loadedUrls s"
  "loadedUrls (onModels (setModelVisibility i4 v4 \<circ> setModelVisibility i3 v3
                         \<circ> setModelVisibility i2 v2 \<circ> setModelVisibility i1 v1) s)
     = loadedUrls s"
  "loadedUrls (onModels unloadAll s) = {#}"
proof -
  show "loadedUrls (onUI f s) = loadedUrls s" "loadedUrls (onCamera h s) = loadedUrls s"
    "loadedUrls (onAudio k s) = loadedUrls s" "loadedUrls (onModels unloadAll s) = {#}"
    by (simp_all add: loadedUrls_def unloadAll_def onModels_def)
  show "loadedUrls (onModels (setModelVisibility i v) s) = loadedUrls s"
    by (rule loadedUrls_visibility)
  have "map modelUrl (loadedModels ((setModelVisibility i4 v4 \<circ> setModelVisibility i3 v3
                         \<circ> setModelVisibility i2 v2 \<circ> setModelVisibility i1 v1)
                         (modelLoader s)))
          = map modelUrl (loadedModels (modelLoader s))"
    by (simp add: setModelVisibility_urls)
  then show "loadedUrls (onModels (setModelVisibility i4 v4 \<circ> setModelVisibility i3 v3
                         \<circ> setModelVisibility i2 v2 \<circ> setModelVisibility i1 v1) s)
     = loadedUrls s"
    unfolding loadedUrls_def onModels_def by (simp del: mset_map o_apply)
qed

lemma settleAll_ok:
  assumes "\<forall>u. a u \<noteq> None"
  shows "fst (settleAll a rs ml) = None \<and>
         map modelUrl (loadedModels (snd (settleAll a rs ml)))
           = map modelUrl (loadedModels ml) @ map requestUrl rs"
proof (induction rs arbitrary: ml)
  case Nil
  then show ?case by simp
next
  case (Cons r rs)
  from assms have "a (requestUrl r) \<noteq> None" by blast
  then obtain g where g: "a (requestUrl r) = Some g" by auto
  show ?case
  proof (cases r)
    case (LoadModel url config)
    with g Cons.IH show ?thesis by (simp add: loadModel_def)
  next
    case (LoadCollider url)
    with g Cons.IH show ?thesis by (simp add: loadColliderModel_def)
  qed
qed

lemma awaitLoads_ok:
  assumes "allLoadsSucceed env"
  shows "fst (awaitLoads env rs s) = None"
    and "loadedUrls (snd (awaitLoads env rs s)) = loadedUrls s + mset (map requestUrl rs)"
proof -
  from assms have a: "\<forall>u. envAssets env u \<noteq> None"
    and p: "mset (completionOrder env rs) = mset rs"
    by (simp_all add: allLoadsSucceed_def)
  from p have m: "mset (map requestUrl (completionOrder env rs)) = mset (map requestUrl rs)"
    by (metis mset_map)
  from settleAll_ok[OF a, of "completionOrder env rs" "modelLoader s"]
  show "fst (awaitLoads env rs s) = None"
    by (simp add: awaitLoads_def promiseAll_def split_beta)
  from settleAll_ok[OF a, of "completionOrder env rs" "modelLoader s"] m
  show "loadedUrls (snd (awaitLoads env rs s)) = loadedUrls s + mset (map requestUrl rs)"
    by (simp add: awaitLoads_def promiseAll_def loadedUrls_def split_beta)
qed

lemma variant_urls [simp]:
  "loadedUrls (snd (variantScene1 env i s)) = loadedUrls s"
  "loadedUrls (snd (variantScene2 env i s)) = loadedUrls s"
  "loadedUrls (snd (variantScene4 env i s)) = loadedUrls s"
  by (simp_all add: variantScene1_def variantScene2_def variantScene4_def Let_def
               split: option.splits prod.splits)

lemma handleVariantClick_urls [simp]:
  "loadedUrls (snd (handleVariantClick env i s)) = loadedUrls s"
  by (simp add: handleVariantClick_def Let_def)

lemma scenes_simps [simp]:
  "scenes 0 = Some scene0" "scenes 1 = Some scene1" "scenes 2 = Some scene2"
  "scenes 3 = Some scene3" "scenes 4 = Some scene4" "scenes 5 = Some scene5"
  "scenes 6 = None" "scenes (-1) = None"
  by (simp_all add: scenes_def)

lemma handleVariantClick_first:
  "fst (handleVariantClick env 0 s) = None"
  by (simp add: handleVariantClick_def variantScene1_def variantScene2_def variantScene4_def
                Let_def scene4_def js_nth_def panelIds_def)

lemma request_urls [simp]:
  "map requestUrl (map visibleModel ms) = map modelUrlAt ms"
  "requestUrl (visibleModel i) = modelUrlAt i"
  "requestUrl (hiddenModel i ident) = modelUrlAt i"
  "requestUrl \<circ> visibleModel = modelUrlAt"
  by (simp_all add: visibleModel_def hiddenModel_def fun_eq_iff)

lemma loadScene0_props:
  "sameSession s (snd (loadScene0 env config s))"
  "allLoadsSucceed env \<Longrightarrow> fst (loadScene0 env config s) = None"
  "allLoadsSucceed env \<Longrightarrow> loadedUrls (snd (loadScene0 env config s)) = declaredUrls config"
proof -
  let ?s2 = "onModels unloadAll (onUI (showStartButton ''Start'' \<circ> hideInstructions) s)"
  let ?rs = "map visibleModel (models config)"
  obtain r t where eq: "awaitLoads env ?rs ?s2 = (r, t)" by (cases "awaitLoads env ?rs ?s2")
  from awaitLoads_session[of s env ?rs ?s2] eq have ss: "sameSession s t" by simp
  show "sameSession s (snd (loadScene0 env config s))"
    unfolding loadScene0_def Let_def eq using ss by (cases r) simp_all
  {
    assume ok: "allLoadsSucceed env"
    from awaitLoads_ok[OF ok, of ?rs ?s2] eq
    have r: "r = None" and u: "loadedUrls t = declaredUrls config"
      by (simp_all add: declaredUrls_def)
    show "fst (loadScene0 env config s) = None"
      unfolding loadScene0_def Let_def eq by (simp add: r)
    show "loadedUrls (snd (loadScene0 env config s)) = declaredUrls config"
      unfolding loadScene0_def Let_def eq by (simp add: r u)
  }
qed

lemma loadScene1_props:
  "sameSession s (snd (loadScene1 env config s))"
  "fst (loadScene1 env config s) = None"
  "loadedUrls (snd (loadScene1 env config s)) = loadedUrls s"
  "loadedModels (modelLoader (snd (loadScene1 env config s))) = loadedModels (modelLoader s)"
  by (simp_all add: loadScene1_def Let_def split: option.splits)

lemma loadScene3_props:
  "sameSession s (snd (loadScene3 env config s))"
  "allLoadsSucceed env \<Longrightarrow> fst (loadScene3 env config s) = None"
  "allLoadsSucceed env \<Longrightarrow> loadedUrls (snd (loadScene3 env config s)) = declaredUrls config"
proof -
  let ?s2 = "onModels unloadAll s"
  let ?rs = "map visibleModel (models config)"
  obtain r t where eq: "awaitLoads env ?rs ?s2 = (r, t)" by (cases "awaitLoads env ?rs ?s2")
  from awaitLoads_session[of s env ?rs ?s2] eq have ss: "sameSession s t" by simp
  show "sameSession s (snd (loadScene3 env config s))"
    unfolding loadScene3_def Let_def eq using ss by (cases r) simp_all
  {
    assume ok: "allLoadsSucceed env"
    from awaitLoads_ok[OF ok, of ?rs ?s2] eq
    have r: "r = None" and u: "loadedUrls t = declaredUrls config"
      by (simp_all add: declaredUrls_def)
    show "fst (loadScene3 env config s) = None"
      unfolding loadScene3_def Let_def eq by (simp add: r)
    show "loadedUrls (snd (loadScene3 env config s)) = declaredUrls config"
      unfolding loadScene3_def Let_def eq by (simp add: r u)
  }
qed

lemma loadScene5_props:
  "sameSession s (snd (loadScene5 env config s))"
  "allLoadsSucceed env \<Longrightarrow> fst (loadScene5 env config s) = None"
  "allLoadsSucceed env \<Longrightarrow>
     loadedUrls (snd (loadScene5 env config s)) = {#modelUrlAt 6, modelUrlAt 7#}"
proof -
  let ?s2 = "onModels unloadAll s"
  let ?rs = "[visibleModel 6, LoadCollider (modelUrlAt 7)]"
  obtain r t where eq: "awaitLoads env ?rs ?s2 = (r, t)" by (cases "awaitLoads env ?rs ?s2")
  from awaitLoads_session[of s env ?rs ?s2] eq have ss: "sameSession s t" by simp
  show "sameSession s (snd (loadScene5 env config s))"
    unfolding loadScene5_def Let_def eq using ss by (cases r) simp_all
  {
    assume ok: "allLoadsSucceed env"
    from awaitLoads_ok[OF ok, of ?rs ?s2] eq
    have r: "r = None" and u: "loadedUrls t = {#modelUrlAt 6, modelUrlAt 7#}"
      by simp_all
    show "fst (loadScene5 env config s) = None"
      unfolding loadScene5_def Let_def eq by (simp add: r)
    show "loadedUrls (snd (loadScene5 env config s)) = {#modelUrlAt 6, modelUrlAt 7#}"
      unfolding loadScene5_def Let_def eq by (simp add: r u)
  }
qed

lemma click_cases:
  obtains r t where "handleVariantClick env i s = (r, t)" "sameSession s t"
    "loadedUrls t = loadedUrls s" "i = 0 \<Longrightarrow> r = None"
proof -
  obtain r t where eq: "handleVariantClick env i s = (r, t)"
    by (cases "handleVariantClick env i s")
  from handleVariantClick_session[of s env i s] eq have "sameSession s t" by simp
  moreover from handleVariantClick_urls[of env i s] eq have "loadedUrls t = loadedUrls s" by simp
  moreover from handleVariantClick_first[of env s] eq have "i = 0 \<Longrightarrow> r = None" by simp
  ultimately show ?thesis using that eq by blast
qed

lemma sameSession_trans: "sameSession s t \<Longrightarrow> sameSession t u \<Longrightarrow> sameSession s u"
  by (simp add: sameSession_def)

lemma loadScene4_props:
  "sameSession s (snd (loadScene4 env config s))"
  "allLoadsSucceed env \<Longrightarrow> fst (loadScene4 env config s) = None"
  "allLoadsSucceed env \<Longrightarrow> loadedUrls (snd (loadScene4 env config s)) = {#modelUrlAt 6#}"
proof -
  let ?s2 = "onModels unloadAll s"
  let ?rs = "[visibleModel 6]"
  obtain r t where eq: "awaitLoads env ?rs ?s2 = (r, t)" by (cases "awaitLoads env ?rs ?s2")
  from awaitLoads_session[of s env ?rs ?s2] eq have ss: "sameSession s t" by simp
  let ?s3 = "case buttons config of None \<Rightarrow> t | Some bs \<Rightarrow> onUI (updateToggleButtons (Some bs)) t"
  have s3: "sameSession s ?s3" "loadedUrls ?s3 = loadedUrls t"
    using ss by (simp_all split: option.splits)
  obtain r' t' where eq': "handleVariantClick env 0 ?s3 = (r', t')"
    and c: "sameSession ?s3 t'" "loadedUrls t' = loadedUrls ?s3" "r' = None"
    by (rule click_cases[of env 0 ?s3]) simp
  have st': "sameSession s t'" by (rule sameSession_trans[OF s3(1) c(1)])
  show "sameSession s (snd (loadScene4 env config s))"
    unfolding loadScene4_def Let_def eq using ss st' eq' c(3) by (cases r) simp_all
  {
    assume ok: "allLoadsSucceed env"
    from awaitLoads_ok[OF ok, of ?rs ?s2] eq
    have r: "r = None" and u: "loadedUrls t = {#modelUrlAt 6#}"
      by simp_all
    show "fst (loadScene4 env config s) = None"
      unfolding loadScene4_def Let_def eq using eq' c(3) by (simp add: r)
    show "loadedUrls (snd (loadScene4 env config s)) = {#modelUrlAt 6#}"
      unfolding loadScene4_def Let_def eq using eq' c(2,3) s3(2) u by (simp add: r)
  }
qed

lemma loadScene2_props:
  "sameSession s (snd (loadScene2 env config s))"
  "allLoadsSucceed env \<Longrightarrow> fst (loadScene2 env config s) = None"
  "allLoadsSucceed env \<Longrightarrow>
     loadedUrls (snd (loadScene2 env config s))
       = {#modelUrlAt 0, modelUrlAt 3, modelUrlAt 2, modelUrlAt 4#}"
proof -
  let ?s2 = "onModels unloadAll s"
  let ?rs = "[hiddenModel 0 ''m1'', hiddenModel 3 ''m4'', hiddenModel 2 ''m3'', hiddenModel 4 ''m5'']"
  obtain r t where eq: "awaitLoads env ?rs ?s2 = (r, t)" by (cases "awaitLoads env ?rs ?s2")
  from awaitLoads_session[of s env ?rs ?s2] eq have ss: "sameSession s t" by simp
  let ?s3 = "case buttons config of None \<Rightarrow> t | Some bs \<Rightarrow> onUI (updateToggleButtons (Some bs)) t"
  let ?s4 = "onCamera (setupCamera (orbitControlsUpdate env) (orbitConfig config) (isVR ?s3)) ?s3"
  have s4: "sameSession s ?s4" "loadedUrls ?s4 = loadedUrls t"
    using ss by (simp_all split: option.splits)
  obtain r' t' where eq': "handleVariantClick env 0 ?s4 = (r', t')"
    and c: "sameSession ?s4 t'" "loadedUrls t' = loadedUrls ?s4" "r' = None"
    by (rule click_cases[of env 0 ?s4]) simp
  have st': "sameSession s t'" by (rule sameSession_trans[OF s4(1) c(1)])
  show "sameSession s (snd (loadScene2 env config s))"
    unfolding loadScene2_def Let_def eq using ss st' eq' c(3) by (cases r) simp_all
  {
    assume ok: "allLoadsSucceed env"
    from awaitLoads_ok[OF ok, of ?rs ?s2] eq
    have r: "r = None"
      and u: "loadedUrls t = {#modelUrlAt 0, modelUrlAt 3, modelUrlAt 2, modelUrlAt 4#}"
      by simp_all
    show "fst (loadScene2 env config s) = None"
      unfolding loadScene2_def Let_def eq using eq' c(3) by (simp add: r)
    show "loadedUrls (snd (loadScene2 env config s))
            = {#modelUrlAt 0, modelUrlAt 3, modelUrlAt 2, modelUrlAt 4#}"
      unfolding loadScene2_def Let_def eq using eq' c(2,3) s4(2) u by (simp add: r)
  }
qed

lemma loadScene_session: "sameSession s (snd (loadScene env config s))"
  by (simp add: loadScene_def loadScene0_props(1) loadScene1_props(1) loadScene2_props(1)
                loadScene3_props(1) loadScene4_props(1) loadScene5_props(1))

lemma beginScene_props [simp]:
  "currentScene (beginScene env s) = currentScene s + 1"
  "isVR (beginScene env s) = isVR s"
  "reloadCalled (beginScene env s) = reloadCalled s"
  "modelLoader (beginScene env s) = modelLoader s"
  "cameraManager (beginScene env s) = cameraManager s"
  by (simp_all add: beginScene_def Let_def)

lemma finishScene_props [simp]:
  "currentScene (finishScene s) = currentScene s"
  "isVR (finishScene s) = isVR s"
  "reloadCalled (finishScene s) = reloadCalled s"
  "modelLoader (finishScene s) = modelLoader s"
  "cameraManager (finishScene s) = cameraManager s"
  "audioManager (finishScene s) = audioManager s"
  by (simp_all add: finishScene_def Let_def)


lemma runNextScene_eq:
  "runNextScene env s =
     (case scenes (currentScene s + 1) of
        None \<Rightarrow> (None, finishScene (if currentScene s + 1 = 6
                                     then (beginScene env s)\<lparr>reloadCalled := True\<rparr>
                                     else beginScene env s))
      | Some config \<Rightarrow> (fst (loadScene env config (beginScene env s)),
                        finishScene (snd (loadScene env config (beginScene env s)))))"
  by (simp add: runNextScene_def Let_def split_beta split: option.splits)

lemma loadScene_frames:
  "currentScene (snd (loadScene env config s)) = currentScene s"
  "isVR (snd (loadScene env config s)) = isVR s"
  "reloadCalled (snd (loadScene env config s)) = reloadCalled s"
  using loadScene_session[of s env config] by (simp_all add: sameSession_def)

lemma runNextScene_index: "currentScene (snd (runNextScene env s)) = currentScene s + 1"
  by (simp add: runNextScene_eq loadScene_frames split: option.splits)

lemma scenes_None: "scenes i = None \<longleftrightarrow> i < 0 \<or> 5 < i"
  by (auto simp: scenes_def)

lemma runNextScene_reload:
  "reloadCalled (snd (runNextScene env s)) = (reloadCalled s \<or> currentScene s = 5)"
  by (auto simp: runNextScene_eq loadScene_frames scenes_None split: option.splits)

lemma advances_index: "currentScene (advances env n s) = currentScene s + int n"
  by (induction n) (simp_all add: runNextScene_index)

lemma advances_reload:
  "reloadCalled (advances env n s)
     = (reloadCalled s \<or> (currentScene s \<le> 5 \<and> 6 \<le> currentScene s + int n))"
  by (induction n) (auto simp: runNextScene_reload advances_index)

text \<open>
  C2.  A new sequence manager has index \<open>-1\<close>.  Every call of \<open>runNextScene\<close> leaves the
  index one higher than it found it.  When the incremented index is 6 the call is
  fulfilled, has called \<open>window.location.reload()\<close> and has touched neither the loaded models
  nor the camera (no seventh content step); for any other incremented index it does not
  call reload.  So the seventh advance from the start reaches index 6 and reloads, and none
  of the first six does.
\<close>

theorem C2_index_and_restart:
  "currentScene (newSequenceManager ml cm am um vrMode) = -1 \<and>
   currentScene (snd (runNextScene env s)) = currentScene s + 1 \<and>
   (currentScene s + 1 = 6 \<longrightarrow>
      fst (runNextScene env s) = None \<and> reloadCalled (snd (runNextScene env s)) \<and>
      modelLoader (snd (runNextScene env s)) = modelLoader s \<and>
      cameraManager (snd (runNextScene env s)) = cameraManager s) \<and>
   (currentScene s + 1 \<noteq> 6 \<longrightarrow>
      reloadCalled (snd (runNextScene env s)) = reloadCalled s) \<and>
   currentScene (advances env 7 (newSequenceManager ml cm am um vrMode)) = 6 \<and>
   reloadCalled (advances env 7 (newSequenceManager ml cm am um vrMode)) \<and>
   (\<forall>n \<le> 6. \<not> reloadCalled (advances env n (newSequenceManager ml cm am um vrMode)))"
proof (intro conjI impI allI)
  show "currentScene (newSequenceManager ml cm am um vrMode) = -1"
    by (simp add: newSequenceManager_def)
  show "currentScene (snd (runNextScene env s)) = currentScene s + 1"
    by (rule runNextScene_index)
  show "currentScene (advances env 7 (newSequenceManager ml cm am um vrMode)) = 6"
    by (simp add: advances_index newSequenceManager_def)
  show "reloadCalled (advances env 7 (newSequenceManager ml cm am um vrMode))"
    by (simp add: advances_reload newSequenceManager_def)
  show "\<not> reloadCalled (advances env n (newSequenceManager ml cm am um vrMode))" if "n \<le> 6" for n
    using that by (simp add: advances_reload newSequenceManager_def)
next
  assume six: "currentScene s + 1 = 6"
  then show "fst (runNextScene env s) = None" "reloadCalled (snd (runNextScene env s))"
    "modelLoader (snd (runNextScene env s)) = modelLoader s"
    "cameraManager (snd (runNextScene env s)) = cameraManager s"
    by (simp_all add: runNextScene_eq)
next
  assume "currentScene s + 1 \<noteq> 6"
  then show "reloadCalled (snd (runNextScene env s)) = reloadCalled s"
    by (simp add: runNextScene_reload)
qed

lemma loadedUrls_scene [simp]:
  "loadedUrls (finishScene s) = loadedUrls s" "loadedUrls (beginScene env s) = loadedUrls s"
  by (simp_all add: loadedUrls_def)

lemma declared_simps:
  "declaredUrls scene0 = {#modelUrlAt 0, modelUrlAt 4#}"
  "declaredUrls scene1 = {#modelUrlAt 0, modelUrlAt 4#}"
  "declaredUrls scene2 = {#modelUrlAt 0, modelUrlAt 3, modelUrlAt 2, modelUrlAt 4#}"
  "declaredUrls scene3 = {#modelUrlAt 2, modelUrlAt 5#}"
  "declaredUrls scene4 = {#modelUrlAt 6#}"
  "declaredUrls scene5 = {#modelUrlAt 6, modelUrlAt 7#}"
  by (simp_all add: declaredUrls_def scene0_def scene1_def scene2_def scene3_def scene4_def
                    scene5_def)

text \<open>
  What a scene's loads write to the console: when every URL is served, one line for each
  request, in the order of completion; when a load fails, the lines of the loads completed
  before it and then its error line, with which the wait ends.
\<close>

lemma successLine_props [simp]:
  "isLoadLine (successLine r)" "lineUrl (successLine r) = requestUrl r"
  by (cases r; simp)+

lemma settleAll_ok_console:
  assumes "\<forall>u. a u \<noteq> None"
  shows "loaderConsole (snd (settleAll a rs ml)) = loaderConsole ml @ map successLine rs \<and>
         map userDataId (loadedModels (snd (settleAll a rs ml)))
           = map userDataId (loadedModels ml) @ map storedId rs"
proof (induction rs arbitrary: ml)
  case Nil
  then show ?case by simp
next
  case (Cons r rs)
  from assms have "a (requestUrl r) \<noteq> None" by blast
  then obtain g where g: "a (requestUrl r) = Some g" by auto
  show ?case
  proof (cases r)
    case (LoadModel url config)
    with g Cons.IH show ?thesis by (simp add: loadModel_def)
  next
    case (LoadCollider url)
    with g Cons.IH show ?thesis by (simp add: loadColliderModel_def)
  qed
qed

lemma settleAll_fail_console:
  assumes "settleAll a rs ml = (Some e, ml')"
  shows "\<exists>ls x. loaderConsole ml' = loaderConsole ml @ ls @ [x] \<and> list_all isLoadLine ls \<and>
                 isErrorLine x \<and> e = LoadError (lineUrl x) \<and>
                 mset (map lineUrl ls) + {#lineUrl x#} \<subseteq># mset (map requestUrl rs)"
  using assms
proof (induction rs arbitrary: ml)
  case Nil
  then show ?case by simp
next
  case (Cons r rs)
  show ?case
  proof (cases "a (requestUrl r)")
    case None
    with Cons.prems have "e = LoadError (requestUrl r)"
      and "loaderConsole ml' = loaderConsole ml @ [] @
             [case r of LoadModel u c \<Rightarrow> LoggedModelError u | LoadCollider u \<Rightarrow> LoggedColliderError u]"
      by (cases r; auto simp: loadModel_def loadColliderModel_def)+
    then show ?thesis
      by (intro exI[of _ "[]"] exI[of _ "case r of LoadModel u c \<Rightarrow> LoggedModelError u
                                          | LoadCollider u \<Rightarrow> LoggedColliderError u"])
         (cases r; simp)
  next
    case (Some g)
    obtain m1 where m1: "performLoad a r ml = (None, m1)"
      and c1: "loaderConsole m1 = loaderConsole ml @ [successLine r]"
      using Some by (cases r) (simp_all add: loadModel_def loadColliderModel_def)
    with Cons.prems have "settleAll a rs m1 = (Some e, ml')" by simp
    from Cons.IH[OF this] obtain ls x where
      h: "loaderConsole ml' = loaderConsole m1 @ ls @ [x]" "list_all isLoadLine ls"
         "isErrorLine x" "e = LoadError (lineUrl x)"
         "mset (map lineUrl ls) + {#lineUrl x#} \<subseteq># mset (map requestUrl rs)"
      by blast
    show ?thesis
      using h c1
      by (intro exI[of _ "successLine r # ls"] exI[of _ x]) simp
  qed
qed

lemma setVisibleFirst_ids: "map userDataId (setVisibleFirst i v ms) = map userDataId ms"
  by (induction ms) simp_all

lemma setModelVisibility_found:
  assumes "Some i \<in> set (map userDataId (loadedModels ml))"
  shows "loaderConsole (setModelVisibility i v ml) = loaderConsole ml"
    and "map userDataId (loadedModels (setModelVisibility i v ml)) = map userDataId (loadedModels ml)"
proof -
  from assms have "list_ex (\<lambda>m. userDataId m = Some i) (loadedModels ml)"
    by (auto simp: list_ex_iff)
  then show "loaderConsole (setModelVisibility i v ml) = loaderConsole ml"
    and "map userDataId (loadedModels (setModelVisibility i v ml)) = map userDataId (loadedModels ml)"
    by (simp_all add: setModelVisibility_def setVisibleFirst_ids)
qed

lemma show_option_console:
  assumes "Some ''m1'' \<in> set (map userDataId (loadedModels ml))"
    and "Some ''m4'' \<in> set (map userDataId (loadedModels ml))"
    and "Some ''m3'' \<in> set (map userDataId (loadedModels ml))"
    and "Some ''m5'' \<in> set (map userDataId (loadedModels ml))"
  shows "loaderConsole ((setModelVisibility ''m5'' v5 \<circ> setModelVisibility ''m3'' v3
                          \<circ> setModelVisibility ''m4'' v4 \<circ> setModelVisibility ''m1'' v1) ml)
         = loaderConsole ml"
proof -
  let ?a = "setModelVisibility ''m1'' v1 ml"
  let ?b = "setModelVisibility ''m4'' v4 ?a"
  let ?c = "setModelVisibility ''m3'' v3 ?b"
  note a = setModelVisibility_found[OF assms(1), of v1]
  have "Some ''m4'' \<in> set (map userDataId (loadedModels ?a))" using assms(2) a(2) by simp
  note b = setModelVisibility_found[OF this, of v4]
  have "Some ''m3'' \<in> set (map userDataId (loadedModels ?b))" using assms(3) a(2) b(2) by simp
  note c = setModelVisibility_found[OF this, of v3]
  have "Some ''m5'' \<in> set (map userDataId (loadedModels ?c))"
    using assms(4) a(2) b(2) c(2) by simp
  note d = setModelVisibility_found[OF this, of v5]
  show ?thesis using a(1) b(1) c(1) d(1) by simp
qed

lemma variantScene1_loader: "modelLoader (snd (variantScene1 env i s)) = modelLoader s"
  by (simp add: variantScene1_def Let_def)

lemma variantScene4_loader: "modelLoader (snd (variantScene4 env i s)) = modelLoader s"
  by (simp add: variantScene4_def Let_def split: option.splits prod.splits)

lemma click_loader:
  "currentScene s \<noteq> 2 \<Longrightarrow> modelLoader (snd (handleVariantClick env i s)) = modelLoader s"
  by (simp add: handleVariantClick_eq variantScene1_loader variantScene4_loader)

lemma click_console:
  assumes "currentScene s = 2"
    and "Some ''m1'' \<in> set (map userDataId (loadedModels (modelLoader s)))"
    and "Some ''m4'' \<in> set (map userDataId (loadedModels (modelLoader s)))"
    and "Some ''m3'' \<in> set (map userDataId (loadedModels (modelLoader s)))"
    and "Some ''m5'' \<in> set (map userDataId (loadedModels (modelLoader s)))"
  shows "loaderConsole (modelLoader (snd (handleVariantClick env i s)))
           = loaderConsole (modelLoader s)"
  using assms(1) show_option_console[OF assms(2-5)]
  by (simp add: handleVariantClick_eq variantScene2_def Let_def)

lemma awaitLoads_unload_ok:
  assumes "allLoadsSucceed env" and "modelLoader s1 = unloadAll ml"
  shows "unloadedThenLoaded ml (modelLoader (snd (awaitLoads env rs s1))) (mset (map requestUrl rs))"
    and "r \<in> set rs \<Longrightarrow>
           storedId r \<in> set (map userDataId (loadedModels (modelLoader (snd (awaitLoads env rs s1)))))"
proof -
  from assms(1) have a: "\<forall>u. envAssets env u \<noteq> None"
    and p: "mset (completionOrder env rs) = mset rs"
    by (simp_all add: allLoadsSucceed_def)
  let ?rs = "completionOrder env rs"
  note c = settleAll_ok_console[OF a, of ?rs "modelLoader s1"]
  have m: "modelLoader (snd (awaitLoads env rs s1)) = snd (settleAll (envAssets env) ?rs (modelLoader s1))"
    by (simp add: awaitLoads_def promiseAll_def split_beta)
  have u: "mset (map lineUrl (map successLine ?rs)) = mset (map requestUrl rs)"
  proof -
    have "map lineUrl (map successLine ?rs) = map requestUrl ?rs" by (simp add: comp_def)
    moreover have "mset (map requestUrl ?rs) = mset (map requestUrl rs)"
      using p by (metis mset_map)
    ultimately show ?thesis by (simp only:)
  qed
  have l: "list_all isLoadLine (map successLine ?rs)" by (simp add: list_all_iff)
  show "unloadedThenLoaded ml (modelLoader (snd (awaitLoads env rs s1))) (mset (map requestUrl rs))"
    unfolding unloadedThenLoaded_def m
    using c u l
    by (intro exI[of _ "map successLine ?rs"]) (simp add: assms(2) unloadAll_def)
  assume "r \<in> set rs"
  then have "r \<in> set ?rs" using p by (metis mset_eq_setD)
  then show "storedId r \<in> set (map userDataId (loadedModels (modelLoader (snd (awaitLoads env rs s1)))))"
    unfolding m using c by simp
qed

lemma awaitLoads_unload_fail:
  assumes "awaitLoads env rs s1 = (Some e, t)" and "modelLoader s1 = unloadAll ml"
  shows "unloadedThenFailed ml (modelLoader t) e
           (mset (map requestUrl (completionOrder env rs)))"
proof -
  from assms(1) have "settleAll (envAssets env) (completionOrder env rs) (modelLoader s1)
                        = (Some e, modelLoader t)"
    by (auto simp: awaitLoads_def promiseAll_def split: prod.splits)
  from settleAll_fail_console[OF this] obtain ls x where
    "loaderConsole (modelLoader t) = loaderConsole (modelLoader s1) @ ls @ [x]"
    "list_all isLoadLine ls" "isErrorLine x" "e = LoadError (lineUrl x)"
    "mset (map lineUrl ls) + {#lineUrl x#} \<subseteq># mset (map requestUrl (completionOrder env rs))"
    by blast
  then show ?thesis
    unfolding unloadedThenFailed_def
    by (intro exI[of _ ls] exI[of _ x]) (simp add: assms(2) unloadAll_def)
qed

lemma unloaded_frame:
  "modelLoader (onModels unloadAll s) = unloadAll (modelLoader s)"
  "modelLoader (onModels unloadAll (onUI f s)) = unloadAll (modelLoader s)"
  by simp_all

lemma stored_hidden: "storedId (hiddenModel i ident) = (if ident = [] then None else Some ident)"
  by (simp add: hiddenModel_def)

text \<open>
  The console after each load routine, when it returns and when it raises.  Scene 2 shows
  its first option after the loads: the four ids it toggles are then present, so
  \<open>setModelVisibility\<close> has nothing to warn about.
\<close>

lemma loadScene0_console:
  "allLoadsSucceed env \<Longrightarrow>
     unloadedThenLoaded (modelLoader s) (modelLoader (snd (loadScene0 env config s)))
       (declaredUrls config)"
  "loadScene0 env config s = (Some e, t) \<Longrightarrow>
     unloadedThenFailed (modelLoader s) (modelLoader t) e
       (mset (map requestUrl (completionOrder env (map visibleModel (models config)))))"
proof -
  let ?s2 = "onModels unloadAll (onUI (showStartButton ''Start'' \<circ> hideInstructions) s)"
  let ?rs = "map visibleModel (models config)"
  obtain r t' where eq: "awaitLoads env ?rs ?s2 = (r, t')" by (cases "awaitLoads env ?rs ?s2")
  note m = unloaded_frame(2)[of "showStartButton ''Start'' \<circ> hideInstructions" s]
  {
    assume ok: "allLoadsSucceed env"
    from awaitLoads_ok(1)[OF ok, of ?rs ?s2] eq have r: "r = None" by simp
    from awaitLoads_unload_ok(1)[OF ok m, of ?rs] eq
    have "unloadedThenLoaded (modelLoader s) (modelLoader t') (declaredUrls config)"
      by (simp add: declaredUrls_def)
    then show "unloadedThenLoaded (modelLoader s) (modelLoader (snd (loadScene0 env config s)))
                 (declaredUrls config)"
      unfolding loadScene0_def Let_def eq by (simp add: r)
  }
  {
    assume f: "loadScene0 env config s = (Some e, t)"
    then have "r = Some e \<and> t' = t"
      unfolding loadScene0_def Let_def eq by (cases r) simp_all
    with eq have "awaitLoads env ?rs ?s2 = (Some e, t)" by simp
    from awaitLoads_unload_fail[OF this m]
    show "unloadedThenFailed (modelLoader s) (modelLoader t) e
            (mset (map requestUrl (completionOrder env ?rs)))" .
  }
qed

lemma loadScene3_console:
  "allLoadsSucceed env \<Longrightarrow>
     unloadedThenLoaded (modelLoader s) (modelLoader (snd (loadScene3 env config s)))
       (declaredUrls config)"
  "loadScene3 env config s = (Some e, t) \<Longrightarrow>
     unloadedThenFailed (modelLoader s) (modelLoader t) e
       (mset (map requestUrl (completionOrder env (map visibleModel (models config)))))"
proof -
  let ?s2 = "onModels unloadAll s"
  let ?rs = "map visibleModel (models config)"
  obtain r t' where eq: "awaitLoads env ?rs ?s2 = (r, t')" by (cases "awaitLoads env ?rs ?s2")
  note m = unloaded_frame(1)[of s]
  {
    assume ok: "allLoadsSucceed env"
    from awaitLoads_ok(1)[OF ok, of ?rs ?s2] eq have r: "r = None" by simp
    from awaitLoads_unload_ok(1)[OF ok m, of ?rs] eq
    have "unloadedThenLoaded (modelLoader s) (modelLoader t') (declaredUrls config)"
      by (simp add: declaredUrls_def)
    then show "unloadedThenLoaded (modelLoader s) (modelLoader (snd (loadScene3 env config s)))
                 (declaredUrls config)"
      unfolding loadScene3_def Let_def eq by (simp add: r)
  }
  {
    assume f: "loadScene3 env config s = (Some e, t)"
    then have "r = Some e \<and> t' = t"
      unfolding loadScene3_def Let_def eq by (cases r) simp_all
    with eq have "awaitLoads env ?rs ?s2 = (Some e, t)" by simp
    from awaitLoads_unload_fail[OF this m]
    show "unloadedThenFailed (modelLoader s) (modelLoader t) e
            (mset (map requestUrl (completionOrder env ?rs)))" .
  }
qed

lemma loadScene5_console:
  "allLoadsSucceed env \<Longrightarrow>
     unloadedThenLoaded (modelLoader s) (modelLoader (snd (loadScene5 env config s)))
       {#modelUrlAt 6, modelUrlAt 7#}"
  "loadScene5 env config s = (Some e, t) \<Longrightarrow>
     unloadedThenFailed (modelLoader s) (modelLoader t) e
       (mset (map requestUrl (completionOrder env [visibleModel 6, LoadCollider (modelUrlAt 7)])))"
proof -
  let ?s2 = "onModels unloadAll s"
  let ?rs = "[visibleModel 6, LoadCollider (modelUrlAt 7)]"
  obtain r t' where eq: "awaitLoads env ?rs ?s2 = (r, t')" by (cases "awaitLoads env ?rs ?s2")
  note m = unloaded_frame(1)[of s]
  {
    assume ok: "allLoadsSucceed env"
    from awaitLoads_ok(1)[OF ok, of ?rs ?s2] eq have r: "r = None" by simp
    from awaitLoads_unload_ok(1)[OF ok m, of ?rs] eq
    have "unloadedThenLoaded (modelLoader s) (modelLoader t') {#modelUrlAt 6, modelUrlAt 7#}"
      by simp
    then show "unloadedThenLoaded (modelLoader s) (modelLoader (snd (loadScene5 env config s)))
                 {#modelUrlAt 6, modelUrlAt 7#}"
      unfolding loadScene5_def Let_def eq by (simp add: r)
  }
  {
    assume f: "loadScene5 env config s = (Some e, t)"
    then have "r = Some e \<and> t' = t"
      unfolding loadScene5_def Let_def eq by (cases r) simp_all
    with eq have "awaitLoads env ?rs ?s2 = (Some e, t)" by simp
    from awaitLoads_unload_fail[OF this m]
    show "unloadedThenFailed (modelLoader s) (modelLoader t) e
            (mset (map requestUrl (completionOrder env ?rs)))" .
  }
qed

lemma loadScene4_console:
  "allLoadsSucceed env \<Longrightarrow> currentScene s = 4 \<Longrightarrow>
     unloadedThenLoaded (modelLoader s) (modelLoader (snd (loadScene4 env config s)))
       {#modelUrlAt 6#}"
  "loadScene4 env config s = (Some e, t) \<Longrightarrow>
     unloadedThenFailed (modelLoader s) (modelLoader t) e
       (mset (map requestUrl (completionOrder env [visibleModel 6])))"
proof -
  let ?s2 = "onModels unloadAll s"
  let ?rs = "[visibleModel 6]"
  obtain r t' where eq: "awaitLoads env ?rs ?s2 = (r, t')" by (cases "awaitLoads env ?rs ?s2")
  note m = unloaded_frame(1)[of s]
  let ?s3 = "case buttons config of None \<Rightarrow> t' | Some bs \<Rightarrow> onUI (updateToggleButtons (Some bs)) t'"
  have s3: "modelLoader ?s3 = modelLoader t'" "currentScene ?s3 = currentScene t'"
    by (simp_all split: option.splits)
  obtain r' u where eq': "handleVariantClick env 0 ?s3 = (r', u)"
    and c: "r' = None"
    by (rule click_cases[of env 0 ?s3]) simp
  {
    assume ok: "allLoadsSucceed env" and four: "currentScene s = 4"
    from awaitLoads_ok(1)[OF ok, of ?rs ?s2] eq have r: "r = None" by simp
    from awaitLoads_session[of s env ?rs ?s2] eq four have "currentScene t' = 4"
      by (simp add: sameSession_def)
    with s3(2) have "currentScene ?s3 \<noteq> 2" by simp
    from click_loader[OF this, of env 0] eq' s3(1) have u: "modelLoader u = modelLoader t'"
      by simp
    from awaitLoads_unload_ok(1)[OF ok m, of ?rs] eq
    have "unloadedThenLoaded (modelLoader s) (modelLoader t') {#modelUrlAt 6#}"
      by simp
    then show "unloadedThenLoaded (modelLoader s) (modelLoader (snd (loadScene4 env config s)))
                 {#modelUrlAt 6#}"
      unfolding loadScene4_def Let_def eq using eq' c u by (simp add: r)
  }
  {
    assume f: "loadScene4 env config s = (Some e, t)"
    then have "r = Some e \<and> t' = t"
      unfolding loadScene4_def Let_def eq using eq' c by (cases r) simp_all
    with eq have "awaitLoads env ?rs ?s2 = (Some e, t)" by simp
    from awaitLoads_unload_fail[OF this m]
    show "unloadedThenFailed (modelLoader s) (modelLoader t) e
            (mset (map requestUrl (completionOrder env ?rs)))" .
  }
qed

lemma unloadedThenLoaded_console:
  "loaderConsole after' = loaderConsole after \<Longrightarrow>
   unloadedThenLoaded before after urls \<Longrightarrow> unloadedThenLoaded before after' urls"
  by (simp add: unloadedThenLoaded_def)

lemma loadScene2_console:
  "allLoadsSucceed env \<Longrightarrow> currentScene s = 2 \<Longrightarrow>
     unloadedThenLoaded (modelLoader s) (modelLoader (snd (loadScene2 env config s)))
       {#modelUrlAt 0, modelUrlAt 3, modelUrlAt 2, modelUrlAt 4#}"
  "loadScene2 env config s = (Some e, t) \<Longrightarrow>
     unloadedThenFailed (modelLoader s) (modelLoader t) e
       (mset (map requestUrl (completionOrder env [hiddenModel 0 ''m1'', hiddenModel 3 ''m4'', hiddenModel 2 ''m3'', hiddenModel 4 ''m5''])))"
proof -
  let ?s2 = "onModels unloadAll s"
  let ?rs = "[hiddenModel 0 ''m1'', hiddenModel 3 ''m4'', hiddenModel 2 ''m3'', hiddenModel 4 ''m5'']"
  obtain r t' where eq: "awaitLoads env ?rs ?s2 = (r, t')" by (cases "awaitLoads env ?rs ?s2")
  note m = unloaded_frame(1)[of s]
  let ?s3 = "case buttons config of None \<Rightarrow> t' | Some bs \<Rightarrow> onUI (updateToggleButtons (Some bs)) t'"
  let ?s4 = "onCamera (setupCamera (orbitControlsUpdate env) (orbitConfig config) (isVR ?s3)) ?s3"
  have s4: "modelLoader ?s4 = modelLoader t'" "currentScene ?s4 = currentScene t'"
    by (simp_all split: option.splits)
  obtain r' u where eq': "handleVariantClick env 0 ?s4 = (r', u)"
    and c: "r' = None"
    by (rule click_cases[of env 0 ?s4]) simp
  {
    assume ok: "allLoadsSucceed env" and two: "currentScene s = 2"
    from awaitLoads_ok(1)[OF ok, of ?rs ?s2] eq have r: "r = None" by simp
    from awaitLoads_session[of s env ?rs ?s2] eq two have "currentScene t' = 2"
      by (simp add: sameSession_def)
    with s4(2) have cs: "currentScene ?s4 = 2" by simp
    note ids = awaitLoads_unload_ok(2)[OF ok m, of _ ?rs]
    have i1: "Some ''m1'' \<in> set (map userDataId (loadedModels (modelLoader ?s4)))"
      using ids[of "hiddenModel 0 ''m1''"] eq s4(1) by (simp add: stored_hidden)
    have i4: "Some ''m4'' \<in> set (map userDataId (loadedModels (modelLoader ?s4)))"
      using ids[of "hiddenModel 3 ''m4''"] eq s4(1) by (simp add: stored_hidden)
    have i3: "Some ''m3'' \<in> set (map userDataId (loadedModels (modelLoader ?s4)))"
      using ids[of "hiddenModel 2 ''m3''"] eq s4(1) by (simp add: stored_hidden)
    have i5: "Some ''m5'' \<in> set (map userDataId (loadedModels (modelLoader ?s4)))"
      using ids[of "hiddenModel 4 ''m5''"] eq s4(1) by (simp add: stored_hidden)
    from click_console[OF cs i1 i4 i3 i5, of env 0] eq' s4(1)
    have u: "loaderConsole (modelLoader u) = loaderConsole (modelLoader t')" by simp
    from awaitLoads_unload_ok(1)[OF ok m, of ?rs] eq
    have "unloadedThenLoaded (modelLoader s) (modelLoader t')
            {#modelUrlAt 0, modelUrlAt 3, modelUrlAt 2, modelUrlAt 4#}"
      by simp
    from unloadedThenLoaded_console[OF u this]
    show "unloadedThenLoaded (modelLoader s) (modelLoader (snd (loadScene2 env config s)))
                 {#modelUrlAt 0, modelUrlAt 3, modelUrlAt 2, modelUrlAt 4#}"
      unfolding loadScene2_def Let_def eq using eq' c by (simp add: r)
  }
  {
    assume f: "loadScene2 env config s = (Some e, t)"
    then have "r = Some e \<and> t' = t"
      unfolding loadScene2_def Let_def eq using eq' c by (cases r) simp_all
    with eq have "awaitLoads env ?rs ?s2 = (Some e, t)" by simp
    from awaitLoads_unload_fail[OF this m]
    show "unloadedThenFailed (modelLoader s) (modelLoader t) e
            (mset (map requestUrl (completionOrder env ?rs)))" .
  }
qed

lemma loadScene1_loader: "modelLoader (snd (loadScene1 env config s)) = modelLoader s"
  by (simp add: loadScene1_def Let_def split: option.splits)


lemma run_scene:
  assumes "allLoadsSucceed env"
  shows "currentScene s = -1 \<Longrightarrow>
           fst (runNextScene env s) = None \<and>
           loadedUrls (snd (runNextScene env s)) = declaredUrls scene0"
    and "currentScene s = 0 \<Longrightarrow>
           fst (runNextScene env s) = None \<and>
           loadedUrls (snd (runNextScene env s)) = loadedUrls s \<and>
           loadedModels (modelLoader (snd (runNextScene env s))) = loadedModels (modelLoader s)"
    and "currentScene s = 1 \<Longrightarrow>
           fst (runNextScene env s) = None \<and>
           loadedUrls (snd (runNextScene env s)) = declaredUrls scene2"
    and "currentScene s = 2 \<Longrightarrow>
           fst (runNextScene env s) = None \<and>
           loadedUrls (snd (runNextScene env s)) = declaredUrls scene3"
    and "currentScene s = 3 \<Longrightarrow>
           fst (runNextScene env s) = None \<and>
           loadedUrls (snd (runNextScene env s)) = declaredUrls scene4"
    and "currentScene s = 4 \<Longrightarrow>
           fst (runNextScene env s) = None \<and>
           loadedUrls (snd (runNextScene env s)) = declaredUrls scene5"
  using assms
  by (simp_all add: runNextScene_eq loadScene_def loadScene0_props loadScene1_props
                    loadScene2_props loadScene3_props loadScene4_props loadScene5_props
                    declared_simps)

lemma run_scene_console:
  assumes "allLoadsSucceed env"
  shows "currentScene s = -1 \<Longrightarrow>
           unloadedThenLoaded (modelLoader s) (modelLoader (snd (runNextScene env s)))
             (declaredUrls scene0)"
    and "currentScene s = 0 \<Longrightarrow> modelLoader (snd (runNextScene env s)) = modelLoader s"
    and "currentScene s = 1 \<Longrightarrow>
           unloadedThenLoaded (modelLoader s) (modelLoader (snd (runNextScene env s)))
             (declaredUrls scene2)"
    and "currentScene s = 2 \<Longrightarrow>
           unloadedThenLoaded (modelLoader s) (modelLoader (snd (runNextScene env s)))
             (declaredUrls scene3)"
    and "currentScene s = 3 \<Longrightarrow>
           unloadedThenLoaded (modelLoader s) (modelLoader (snd (runNextScene env s)))
             (declaredUrls scene4)"
    and "currentScene s = 4 \<Longrightarrow>
           unloadedThenLoaded (modelLoader s) (modelLoader (snd (runNextScene env s)))
             (declaredUrls scene5)"
proof -
  have b: "modelLoader (beginScene env s) = modelLoader s" by simp
  show "currentScene s = -1 \<Longrightarrow>
           unloadedThenLoaded (modelLoader s) (modelLoader (snd (runNextScene env s)))
             (declaredUrls scene0)"
    using loadScene0_console(1)[OF assms, of "beginScene env s" scene0]
    by (simp add: runNextScene_eq loadScene_def)
  show "currentScene s = 0 \<Longrightarrow> modelLoader (snd (runNextScene env s)) = modelLoader s"
    by (simp add: runNextScene_eq loadScene_def loadScene1_loader)
  show "currentScene s = 1 \<Longrightarrow>
           unloadedThenLoaded (modelLoader s) (modelLoader (snd (runNextScene env s)))
             (declaredUrls scene2)"
    using loadScene2_console(1)[OF assms, of "beginScene env s" scene2]
    by (simp add: runNextScene_eq loadScene_def declared_simps)
  show "currentScene s = 2 \<Longrightarrow>
           unloadedThenLoaded (modelLoader s) (modelLoader (snd (runNextScene env s)))
             (declaredUrls scene3)"
    using loadScene3_console(1)[OF assms, of "beginScene env s" scene3]
    by (simp add: runNextScene_eq loadScene_def)
  show "currentScene s = 3 \<Longrightarrow>
           unloadedThenLoaded (modelLoader s) (modelLoader (snd (runNextScene env s)))
             (declaredUrls scene4)"
    using loadScene4_console(1)[OF assms, of "beginScene env s" scene4]
    by (simp add: runNextScene_eq loadScene_def declared_simps)
  show "currentScene s = 4 \<Longrightarrow>
           unloadedThenLoaded (modelLoader s) (modelLoader (snd (runNextScene env s)))
             (declaredUrls scene5)"
    using loadScene5_console(1)[OF assms, of "beginScene env s" scene5]
    by (simp add: runNextScene_eq loadScene_def declared_simps)
qed

text \<open>
  C3.  When every load succeeds, then for every \<open>N\<close> from 0 to 5 the \<open>N+1\<close> advances from a
  new sequence manager end at index \<open>N\<close>, the last of them is fulfilled, and the loaded
  models are, as a multiset of URLs, exactly the models scene \<open>N\<close> declares.  Step 1 keeps
  the very models step 0 loaded and does not reload them: the advance into step 1 leaves
  the whole loader as it was, its list of models and its console, so it unloaded nothing
  and completed no load.  The advance into every other step adds to the loader's console
  one unloading line, which counts the models held before the advance, and after it lines
  of completed loads only, whose URLs are exactly the models scene \<open>N\<close> declares: it
  first unloads everything and then loads its declared set.
\<close>

theorem C3_sequence_order:
  assumes "allLoadsSucceed env" and "N \<le> 5"
  shows "currentScene (advances env (Suc N) (newSequenceManager ml cm am um vrMode)) = int N \<and>
         fst (runNextScene env (advances env N (newSequenceManager ml cm am um vrMode))) = None \<and>
         map_option declaredUrls (scenes (int N))
           = Some (loadedUrls (advances env (Suc N) (newSequenceManager ml cm am um vrMode))) \<and>
         loadedModels (modelLoader (advances env 2 (newSequenceManager ml cm am um vrMode)))
           = loadedModels (modelLoader (advances env 1 (newSequenceManager ml cm am um vrMode))) \<and>
         modelLoader (advances env 2 (newSequenceManager ml cm am um vrMode))
           = modelLoader (advances env 1 (newSequenceManager ml cm am um vrMode)) \<and>
         (N \<noteq> 1 \<longrightarrow>
            (\<exists>ls. loaderConsole (modelLoader (advances env (Suc N)
                                           (newSequenceManager ml cm am um vrMode)))
                    = loaderConsole (modelLoader (advances env N
                                           (newSequenceManager ml cm am um vrMode)))
                      @ LoggedUnloading
                          (length (loadedModels (modelLoader (advances env N
                                           (newSequenceManager ml cm am um vrMode)))))
                      # ls \<and>
                  list_all isLoadLine ls \<and>
                  map_option declaredUrls (scenes (int N)) = Some (mset (map lineUrl ls))))"
proof -
  let ?s0 = "newSequenceManager ml cm am um vrMode"
  have i: "currentScene (advances env n ?s0) = int n - 1" for n
    by (simp add: advances_index newSequenceManager_def)
  note r = run_scene[OF assms(1)]
  note rc = run_scene_console[OF assms(1)]
  have u0: "loadedUrls (advances env 1 ?s0) = declaredUrls scene0"
    using r(1)[of "advances env 0 ?s0"] i[of 0] by simp
  have u1: "loadedUrls (advances env 2 ?s0) = declaredUrls scene1"
    using r(2)[of "advances env 1 ?s0"] i[of 1] u0
    by (simp add: numeral_2_eq_2 declared_simps)
  have u2: "loadedUrls (advances env 3 ?s0) = declaredUrls scene2"
    using r(3)[of "advances env 2 ?s0"] i[of 2] by (simp add: numeral_3_eq_3 numeral_2_eq_2)
  have u3: "loadedUrls (advances env 4 ?s0) = declaredUrls scene3"
    using r(4)[of "advances env 3 ?s0"] i[of 3] by (simp add: eval_nat_numeral)
  have u4: "loadedUrls (advances env 5 ?s0) = declaredUrls scene4"
    using r(5)[of "advances env 4 ?s0"] i[of 4] by (simp add: eval_nat_numeral)
  have u5: "loadedUrls (advances env 6 ?s0) = declaredUrls scene5"
    using r(6)[of "advances env 5 ?s0"] i[of 5] by (simp add: eval_nat_numeral)
  have keep: "loadedModels (modelLoader (advances env 2 ?s0))
                = loadedModels (modelLoader (advances env 1 ?s0))"
    using r(2)[of "advances env 1 ?s0"] i[of 1] by (simp add: numeral_2_eq_2)
  have same: "modelLoader (advances env 2 ?s0) = modelLoader (advances env 1 ?s0)"
    using rc(2)[of "advances env 1 ?s0"] i[of 1] by (simp add: numeral_2_eq_2)
  have ok: "fst (runNextScene env (advances env N ?s0)) = None"
  proof -
    from assms(2) consider "N = 0" | "N = 1" | "N = 2" | "N = 3" | "N = 4" | "N = 5" by linarith
    then show ?thesis
    proof cases
      case 1 then show ?thesis using r(1)[of "advances env N ?s0"] i[of N] by simp
    next
      case 2 then show ?thesis using r(2)[of "advances env N ?s0"] i[of N] by simp
    next
      case 3 then show ?thesis using r(3)[of "advances env N ?s0"] i[of N] by simp
    next
      case 4 then show ?thesis using r(4)[of "advances env N ?s0"] i[of N] by simp
    next
      case 5 then show ?thesis using r(5)[of "advances env N ?s0"] i[of N] by simp
    next
      case 6 then show ?thesis using r(6)[of "advances env N ?s0"] i[of N] by simp
    qed
  qed
  have urls: "map_option declaredUrls (scenes (int N)) = Some (loadedUrls (advances env (Suc N) ?s0))"
  proof -
    from assms(2) consider "N = 0" | "N = 1" | "N = 2" | "N = 3" | "N = 4" | "N = 5" by linarith
    then show ?thesis
    proof cases
      case 1 then show ?thesis using u0 by simp
    next
      case 2 then show ?thesis using u1 by (simp add: numeral_2_eq_2)
    next
      case 3 then show ?thesis using u2 by (simp add: numeral_3_eq_3)
    next
      case 4 then show ?thesis using u3 by (simp add: eval_nat_numeral)
    next
      case 5 then show ?thesis using u4 by (simp add: eval_nat_numeral)
    next
      case 6 then show ?thesis using u5 by (simp add: eval_nat_numeral)
    qed
  qed
  have con: "\<exists>ls. loaderConsole (modelLoader (advances env (Suc N) ?s0))
                    = loaderConsole (modelLoader (advances env N ?s0))
                      @ LoggedUnloading (length (loadedModels (modelLoader (advances env N ?s0))))
                      # ls \<and>
                  list_all isLoadLine ls \<and>
                  map_option declaredUrls (scenes (int N)) = Some (mset (map lineUrl ls))"
    if n1: "N \<noteq> 1"
  proof -
    from assms(2) n1 consider "N = 0" | "N = 2" | "N = 3" | "N = 4" | "N = 5" by linarith
    then have "\<exists>cfg. scenes (int N) = Some cfg \<and>
                 unloadedThenLoaded (modelLoader (advances env N ?s0))
                   (modelLoader (snd (runNextScene env (advances env N ?s0)))) (declaredUrls cfg)"
    proof cases
      case 1 then show ?thesis using rc(1)[of "advances env N ?s0"] i[of N] by simp
    next
      case 2 then show ?thesis using rc(3)[of "advances env N ?s0"] i[of N] by simp
    next
      case 3 then show ?thesis using rc(4)[of "advances env N ?s0"] i[of N] by simp
    next
      case 4 then show ?thesis using rc(5)[of "advances env N ?s0"] i[of N] by simp
    next
      case 5 then show ?thesis using rc(6)[of "advances env N ?s0"] i[of N] by simp
    qed
    then show ?thesis unfolding unloadedThenLoaded_def by auto
  qed
  from i[of "Suc N"] have idx: "currentScene (advances env (Suc N) ?s0) = int N" by simp
  from idx ok urls keep same con show ?thesis by blast
qed


lemma js_nth_enumerate:
  "js_nth (map (\<lambda>(i, b). f i b) (enumerate 0 xs)) k = map_option (f (nat k)) (js_nth xs k)"
  by (auto simp: js_nth_def nth_enumerate_eq nat_less_iff)

lemma toggleLabel_select [simp]:
  "toggleLabel (selectToggleButton index u) k = toggleLabel u k"
  by (simp add: toggleLabel_def selectToggleButton_def js_nth_enumerate split: option.splits)

lemma variantCount_simps:
  "variantCount 1 = 3" "variantCount 2 = 2" "variantCount 4 = 6"
  by (simp_all add: variantCount_def scene1_def scene2_def scene4_def)

lemma variantScene1_far:
  "3 \<le> index \<Longrightarrow> variantScene1 env index s1
     = (None, onUI (showDescription (''Info for '' @ toggleLabel (uiManager s1) index)) s1)"
  by (simp add: variantScene1_def)

lemma variantScene2_far:
  "2 \<le> index \<Longrightarrow> variantScene2 env index s1
     = (None, onUI (showDescription (''Showing '' @ toggleLabel (uiManager s1) index))
                (onModels (setModelVisibility ''m5'' True \<circ> setModelVisibility ''m3'' True
                           \<circ> setModelVisibility ''m4'' False \<circ> setModelVisibility ''m1'' False)
                   s1))"
  by (simp add: variantScene2_def)

lemma variantScene4_far:
  "6 \<le> index \<Longrightarrow> currentScene s1 = 4 \<Longrightarrow> variantScene4 env index s1 = (None, s1)"
  by (simp add: variantScene4_def scene4_def)

lemma ui_other_fields [simp]:
  "leftHtmlPanel (showDescription txt u) = leftHtmlPanel u"
  "rightHtmlPanel (showDescription txt u) = rightHtmlPanel u"
  "modelToggleButtons (showDescription txt u) = modelToggleButtons u"
  "leftHtmlPanel (selectToggleButton index u) = leftHtmlPanel u"
  "rightHtmlPanel (selectToggleButton index u) = rightHtmlPanel u"
  "modelToggleButtons (selectToggleButton index u)
     = map (\<lambda>(i, btn). btn\<lparr>selected := (int i = index)\<rparr>) (enumerate 0 (modelToggleButtons u))"
  by (simp_all add: showDescription_def selectToggleButton_def)

text \<open>
  C8 (amended).  For an index at or beyond the number of variants of the current step,
  \<open>handleVariantClick\<close> raises no error and leaves the step index, the camera, the audio and
  both content panels as they are; it sets the highlight of the six toggle buttons to the
  button with that index (to none when there is no such button).  In steps 0, 3, 4 and 5
  nothing else changes.  In step 1 it also shows the description \<open>Info for ...\<close>.  In step 2
  it also hides the models \<open>m1\<close> and \<open>m4\<close>, shows \<open>m3\<close> and \<open>m5\<close>, and shows the description
  \<open>Showing ...\<close>.
\<close>

theorem C8_out_of_range_variant:
  assumes "int (variantCount (currentScene s)) \<le> index"
  shows "fst (handleVariantClick env index s) = None \<and>
         currentScene (snd (handleVariantClick env index s)) = currentScene s \<and>
         cameraManager (snd (handleVariantClick env index s)) = cameraManager s \<and>
         audioManager (snd (handleVariantClick env index s)) = audioManager s \<and>
         leftHtmlPanel (uiManager (snd (handleVariantClick env index s)))
           = leftHtmlPanel (uiManager s) \<and>
         rightHtmlPanel (uiManager (snd (handleVariantClick env index s)))
           = rightHtmlPanel (uiManager s) \<and>
         modelToggleButtons (uiManager (snd (handleVariantClick env index s)))
           = map (\<lambda>(i, btn). btn\<lparr>selected := (int i = index)\<rparr>)
                 (enumerate 0 (modelToggleButtons (uiManager s))) \<and>
         (currentScene s \<noteq> 1 \<and> currentScene s \<noteq> 2 \<longrightarrow>
            snd (handleVariantClick env index s) = onUI (selectToggleButton index) s) \<and>
         (currentScene s = 1 \<longrightarrow>
            snd (handleVariantClick env index s)
              = onUI (showDescription (''Info for '' @ toggleLabel (uiManager s) index))
                  (onUI (selectToggleButton index) s)) \<and>
         (currentScene s = 2 \<longrightarrow>
            snd (handleVariantClick env index s)
              = onUI (showDescription (''Showing '' @ toggleLabel (uiManager s) index))
                  (onModels (setModelVisibility ''m5'' True \<circ> setModelVisibility ''m3'' True
                             \<circ> setModelVisibility ''m4'' False \<circ> setModelVisibility ''m1'' False)
                     (onUI (selectToggleButton index) s)))"
proof -
  consider (one) "currentScene s = 1" | (two) "currentScene s = 2" | (four) "currentScene s = 4"
    | (other) "currentScene s \<noteq> 1" "currentScene s \<noteq> 2" "currentScene s \<noteq> 4"
    by blast
  then show ?thesis
  proof cases
    case one
    with assms have "3 \<le> index" by (simp add: variantCount_simps)
    then have "handleVariantClick env index s
        = (None, onUI (showDescription (''Info for '' @ toggleLabel (uiManager s) index))
                   (onUI (selectToggleButton index) s))"
      using one by (simp add: handleVariantClick_eq variantScene1_far)
    then show ?thesis using one by simp
  next
    case two
    with assms have "2 \<le> index" by (simp add: variantCount_simps)
    then have "handleVariantClick env index s
        = (None, onUI (showDescription (''Showing '' @ toggleLabel (uiManager s) index))
                  (onModels (setModelVisibility ''m5'' True \<circ> setModelVisibility ''m3'' True
                             \<circ> setModelVisibility ''m4'' False \<circ> setModelVisibility ''m1'' False)
                     (onUI (selectToggleButton index) s)))"
      using two by (simp add: handleVariantClick_eq variantScene2_far)
    then show ?thesis using two by simp
  next
    case four
    with assms have "6 \<le> index" by (simp add: variantCount_simps)
    then have "handleVariantClick env index s = (None, onUI (selectToggleButton index) s)"
      using four by (simp add: handleVariantClick_eq variantScene4_far)
    then show ?thesis using four by simp
  next
    case other
    then have "handleVariantClick env index s = (None, onUI (selectToggleButton index) s)"
      by (simp add: handleVariantClick_eq)
    then show ?thesis using other by simp
  qed
qed

lemma friendly_ok: "allLoadsSucceed friendlyEnvironment"
  by (simp add: allLoadsSucceed_def friendlyEnvironment_def)

lemma friendly_await2:
  "fst (awaitLoads friendlyEnvironment
          [hiddenModel 0 ''m1'', hiddenModel 3 ''m4'', hiddenModel 2 ''m3'', hiddenModel 4 ''m5'']
          (onModels unloadAll b)) = None"
  "loadedModels (modelLoader (snd (awaitLoads friendlyEnvironment
          [hiddenModel 0 ''m1'', hiddenModel 3 ''m4'', hiddenModel 2 ''m3'', hiddenModel 4 ''m5'']
          (onModels unloadAll b))))
     = [hiddenLoaded 0 ''m1'' False, hiddenLoaded 3 ''m4'' False,
        hiddenLoaded 2 ''m3'' False, hiddenLoaded 4 ''m5'' False]"
  "currentScene (snd (awaitLoads friendlyEnvironment
          [hiddenModel 0 ''m1'', hiddenModel 3 ''m4'', hiddenModel 2 ''m3'', hiddenModel 4 ''m5'']
          (onModels unloadAll b))) = currentScene b"
  by (simp_all add: awaitLoads_def promiseAll_def friendlyEnvironment_def hiddenModel_def
                    loadModel_def unloadAll_def onModels_def hiddenLoaded_def split_beta)

lemma show_option_models:
  assumes "loadedModels ml = [hiddenLoaded 0 ''m1'' a, hiddenLoaded 3 ''m4'' b,
                              hiddenLoaded 2 ''m3'' c, hiddenLoaded 4 ''m5'' d]"
  shows "loadedModels ((setModelVisibility ''m5'' (\<not> v) \<circ> setModelVisibility ''m3'' (\<not> v)
                         \<circ> setModelVisibility ''m4'' v \<circ> setModelVisibility ''m1'' v) ml)
         = [hiddenLoaded 0 ''m1'' v, hiddenLoaded 3 ''m4'' v,
            hiddenLoaded 2 ''m3'' (\<not> v), hiddenLoaded 4 ''m5'' (\<not> v)]"
  using assms by (simp add: setModelVisibility_def hiddenLoaded_def)

lemma scene2_click_models:
  assumes "currentScene s = 2"
    and "loadedModels (modelLoader s) = [hiddenLoaded 0 ''m1'' a, hiddenLoaded 3 ''m4'' b,
                                         hiddenLoaded 2 ''m3'' c, hiddenLoaded 4 ''m5'' d]"
  shows "fst (handleVariantClick env i s) = None"
    and "loadedModels (modelLoader (snd (handleVariantClick env i s)))
           = [hiddenLoaded 0 ''m1'' (i = 0), hiddenLoaded 3 ''m4'' (i = 0),
              hiddenLoaded 2 ''m3'' (i \<noteq> 0), hiddenLoaded 4 ''m5'' (i \<noteq> 0)]"
  using assms(1) show_option_models[OF assms(2), of "i = 0"]
  by (cases "i = 0"; simp add: handleVariantClick_eq variantScene2_def Let_def)+

lemma scene2_models:
  assumes "currentScene s = 1"
  shows "loadedModels (modelLoader (snd (runNextScene friendlyEnvironment s)))
           = [hiddenLoaded 0 ''m1'' True, hiddenLoaded 3 ''m4'' True,
              hiddenLoaded 2 ''m3'' False, hiddenLoaded 4 ''m5'' False]"
proof -
  let ?b = "beginScene friendlyEnvironment s"
  let ?rs = "[hiddenModel 0 ''m1'', hiddenModel 3 ''m4'', hiddenModel 2 ''m3'', hiddenModel 4 ''m5'']"
  obtain r0 t where eq0: "awaitLoads friendlyEnvironment ?rs (onModels unloadAll ?b) = (r0, t)"
    by (cases "awaitLoads friendlyEnvironment ?rs (onModels unloadAll ?b)")
  from friendly_await2[of ?b] eq0 assms
  have r0: "r0 = None" and ct: "currentScene t = 2"
    and mt: "loadedModels (modelLoader t)
               = [hiddenLoaded 0 ''m1'' False, hiddenLoaded 3 ''m4'' False,
                  hiddenLoaded 2 ''m3'' False, hiddenLoaded 4 ''m5'' False]"
    by simp_all
  let ?s3 = "case buttons scene2 of None \<Rightarrow> t
             | Some bs \<Rightarrow> onUI (updateToggleButtons (Some bs)) t"
  let ?s4 = "onCamera (setupCamera (orbitControlsUpdate friendlyEnvironment) (orbitConfig scene2) (isVR ?s3)) ?s3"
  have c: "currentScene ?s4 = 2" using ct by (simp split: option.splits)
  have m: "loadedModels (modelLoader ?s4)
             = [hiddenLoaded 0 ''m1'' False, hiddenLoaded 3 ''m4'' False,
                hiddenLoaded 2 ''m3'' False, hiddenLoaded 4 ''m5'' False]"
    using mt by (simp split: option.splits)
  obtain r u where eq: "handleVariantClick friendlyEnvironment 0 ?s4 = (r, u)"
    by (cases "handleVariantClick friendlyEnvironment 0 ?s4")
  from scene2_click_models[OF c m, of friendlyEnvironment 0] eq
  have r: "r = None"
    and u: "loadedModels (modelLoader u)
              = [hiddenLoaded 0 ''m1'' True, hiddenLoaded 3 ''m4'' True,
                 hiddenLoaded 2 ''m3'' False, hiddenLoaded 4 ''m5'' False]"
    by simp_all
  have "loadedModels (modelLoader (snd (loadScene2 friendlyEnvironment scene2 ?b)))
          = [hiddenLoaded 0 ''m1'' True, hiddenLoaded 3 ''m4'' True,
             hiddenLoaded 2 ''m3'' False, hiddenLoaded 4 ''m5'' False]"
    unfolding loadScene2_def Let_def eq0 r0 prod.case option.case eq
    by (simp add: r u)
  then show ?thesis
    using assms by (simp add: runNextScene_eq loadScene_def)
qed

text \<open>
  C8 as stated fails in step 2, reached by three advances: with option 1 on display
  (\<open>m1\<close> and \<open>m4\<close> visible), a click with index 2, beyond the two options, raises no error
  and flips the visibility of all four models.
\<close>

theorem C8_counterexample:
  "currentScene (advances friendlyEnvironment 3 startSession) = 2 \<and>
   int (variantCount 2) \<le> 2 \<and>
   map modelVisible (loadedModels (modelLoader (advances friendlyEnvironment 3 startSession)))
     = [True, True, False, False] \<and>
   fst (handleVariantClick friendlyEnvironment 2 (advances friendlyEnvironment 3 startSession))
     = None \<and>
   map modelVisible (loadedModels (modelLoader (snd (handleVariantClick friendlyEnvironment 2
                        (advances friendlyEnvironment 3 startSession)))))
     = [False, False, True, True]"
proof -
  let ?s2 = "advances friendlyEnvironment 2 startSession"
  let ?s3 = "advances friendlyEnvironment 3 startSession"
  have i2: "currentScene ?s2 = 1" and i3: "currentScene ?s3 = 2"
    by (simp_all add: advances_index startSession_def newSequenceManager_def)
  have s3: "?s3 = snd (runNextScene friendlyEnvironment ?s2)"
    by (simp add: eval_nat_numeral)
  have m: "loadedModels (modelLoader ?s3)
             = [hiddenLoaded 0 ''m1'' True, hiddenLoaded 3 ''m4'' True,
                hiddenLoaded 2 ''m3'' False, hiddenLoaded 4 ''m5'' False]"
    unfolding s3 by (rule scene2_models[OF i2])
  from scene2_click_models[OF i3 m, of friendlyEnvironment 2] i3 m
  show ?thesis by (simp add: variantCount_simps hiddenLoaded_def)
qed

text \<open>The theorem for a session at index 5, and for three and seven advances from the start.\<close>

theorem C2_index_and_restart_witness:
  "currentScene (startSession\<lparr>currentScene := 5\<rparr>) + 1 = 6 \<and>
   reloadCalled (snd (runNextScene friendlyEnvironment (startSession\<lparr>currentScene := 5\<rparr>))) \<and>
   fst (runNextScene friendlyEnvironment (startSession\<lparr>currentScene := 5\<rparr>)) = None \<and>
   currentScene startSession + 1 \<noteq> 6 \<and>
   \<not> reloadCalled (snd (runNextScene friendlyEnvironment startSession)) \<and>
   (3::nat) \<le> 6 \<and>
   \<not> reloadCalled (advances friendlyEnvironment 3 startSession) \<and>
   reloadCalled (advances friendlyEnvironment 7 startSession)"
proof -
  have five: "currentScene (startSession\<lparr>currentScene := 5\<rparr>) + 1 = 6" by simp
  have zero: "currentScene startSession + 1 \<noteq> 6" "\<not> reloadCalled startSession"
    by (simp_all add: startSession_def newSequenceManager_def)
  from C2_index_and_restart[of "\<lparr>loadedModels = [], colliderMeshes = [], loaderConsole = []\<rparr>" startCamera
         "newAudioManager False" startPage False friendlyEnvironment
         "startSession\<lparr>currentScene := 5\<rparr>"]
       C2_index_and_restart[of "\<lparr>loadedModels = [], colliderMeshes = [], loaderConsole = []\<rparr>" startCamera
         "newAudioManager False" startPage False friendlyEnvironment startSession]
       five zero
  show ?thesis unfolding startSession_def[symmetric] by simp
qed

text \<open>The theorem for three advances, with every URL served and loads completing in order.\<close>

theorem C3_sequence_order_witness:
  "allLoadsSucceed friendlyEnvironment \<and> (2::nat) \<le> 5 \<and>
   currentScene (advances friendlyEnvironment 3 startSession) = 2 \<and>
   loadedUrls (advances friendlyEnvironment 3 startSession)
     = {#modelUrlAt 0, modelUrlAt 3, modelUrlAt 2, modelUrlAt 4#} \<and>
   modelLoader (advances friendlyEnvironment 2 startSession)
     = modelLoader (advances friendlyEnvironment 1 startSession) \<and>
   (\<exists>ls. loaderConsole (modelLoader (advances friendlyEnvironment 3 startSession))
           = loaderConsole (modelLoader (advances friendlyEnvironment 2 startSession))
             @ LoggedUnloading
                 (length (loadedModels (modelLoader (advances friendlyEnvironment 2 startSession))))
             # ls \<and>
         list_all isLoadLine ls \<and>
         mset (map lineUrl ls) = {#modelUrlAt 0, modelUrlAt 3, modelUrlAt 2, modelUrlAt 4#})"
proof -
  have n: "(2::nat) \<le> 5" by simp
  have s: "Suc 2 = 3" by simp
  from C3_sequence_order[OF friendly_ok n, of "\<lparr>loadedModels = [], colliderMeshes = [], loaderConsole = []\<rparr>"
         startCamera "newAudioManager False" startPage False]
  show ?thesis
    unfolding startSession_def[symmetric] s
    by (auto simp: friendly_ok declared_simps)
qed



text \<open>The theorem in step 4, reached by five advances, for index 6.\<close>

theorem C8_out_of_range_variant_witness:
  "int (variantCount (currentScene (advances friendlyEnvironment 5 startSession))) \<le> 6 \<and>
   currentScene (advances friendlyEnvironment 5 startSession) = 4 \<and>
   fst (handleVariantClick friendlyEnvironment 6 (advances friendlyEnvironment 5 startSession))
     = None \<and>
   snd (handleVariantClick friendlyEnvironment 6 (advances friendlyEnvironment 5 startSession))
     = onUI (selectToggleButton 6) (advances friendlyEnvironment 5 startSession)"
proof -
  have i: "currentScene (advances friendlyEnvironment 5 startSession) = 4"
    by (simp add: advances_index startSession_def newSequenceManager_def)
  then have h: "int (variantCount (currentScene (advances friendlyEnvironment 5 startSession))) \<le> 6"
    by (simp add: variantCount_simps)
  from C8_out_of_range_variant[OF h, of friendlyEnvironment] i h
  show ?thesis by simp
qed

end
